theory Spec2Isabelle
  imports Complex_Main "HOL-Library.Sublist" "HOL-Library.List_Lexorder" "HOL-Library.Char_ord"
begin

section \<open>Values, exceptions and data frames\<close>

text \<open>
  A numeric entry of a frame is a double. The model keeps the exact real value of a finite
  double and the two infinities; every threshold the program compares against (0.5, 1.25, 2.0,
  4.0, 10.0, 200, 350, 500 and the bin edges) is a double, so the comparisons of the program
  are the comparisons of these values. NaN and None are the one missing value \<open>Null\<close>.
\<close>

datatype fnum = NegInf | Fin real | PosInf

instantiation fnum :: linorder
begin

fun less_eq_fnum :: "fnum \<Rightarrow> fnum \<Rightarrow> bool" where
  "less_eq_fnum NegInf y = True"
| "less_eq_fnum (Fin a) NegInf = False"
| "less_eq_fnum (Fin a) (Fin b) = (a \<le> b)"
| "less_eq_fnum (Fin a) PosInf = True"
| "less_eq_fnum PosInf NegInf = False"
| "less_eq_fnum PosInf (Fin b) = False"
| "less_eq_fnum PosInf PosInf = True"

definition less_fnum :: "fnum \<Rightarrow> fnum \<Rightarrow> bool" where
  "less_fnum x y = (x \<le> y \<and> \<not> y \<le> x)"

instance
proof
  fix x y z :: fnum
  show "(x < y) = (x \<le> y \<and> \<not> y \<le> x)"
    by (simp add: less_fnum_def)
  show "x \<le> x"
    by (cases x) simp_all
  show "x \<le> y \<Longrightarrow> y \<le> z \<Longrightarrow> x \<le> z"
    by (cases x; cases y; cases z) simp_all
  show "x \<le> y \<Longrightarrow> y \<le> x \<Longrightarrow> x = y"
    by (cases x; cases y) simp_all
  show "x \<le> y \<or> y \<le> x"
    by (cases x; cases y) auto
qed

end

lemma less_fnum_simps [simp]:
  "(Fin a < Fin b) = (a < b)"
  "(NegInf < Fin b) = True"
  "(Fin a < PosInf) = True"
  "(NegInf < PosInf) = True"
  "(x < NegInf) = False"
  "(PosInf < x) = False"
  by (cases x; auto simp: less_fnum_def)+

text \<open>
  A cell of a frame: missing, a number, or a string (an entry of an object column). The
  frames of this development are the ones the fetch builds from the decoded JSON and the
  ones read from a CSV: their columns are NumPy-backed (float64, int64, object), and their
  missing entry is NaN or None. The nullable extension columns of pandas, whose missing
  entry is \<open>pd.NA\<close> and whose comparisons are three-valued, are not among them.
\<close>

datatype cell = Null | Num fnum | Str string

fun is_Str :: "cell \<Rightarrow> bool" where
  "is_Str (Str s) = True"
| "is_Str c = False"

text \<open>The Python exceptions the modelled code can meet.\<close>

datatype exc = KeyError string | TypeError | Timeout | RequestException string
  | ValueError string

text \<open>
  A frame is its column labels and its rows in order. A row carries its index label, which
  no operation of the program changes, and its entries by column label; an entry under a
  label that is not a column of the frame is never read.
\<close>

record row =
  idx :: nat
  cells :: "string \<Rightarrow> cell"

record frame =
  columns :: "string list"
  rows :: "row list"

definition val :: "frame \<Rightarrow> row \<Rightarrow> string \<Rightarrow> cell" where
  "val df r c = (if c \<in> set (columns df) then cells r c else Null)"

text \<open>\<open>df.empty\<close>: some axis has length 0.\<close>

definition empty_df :: "frame \<Rightarrow> bool" where
  "empty_df df = (columns df = [] \<or> rows df = [])"

text \<open>\<open>df[c]\<close> raises KeyError for a label that is not a column.\<close>

definition getcol :: "frame \<Rightarrow> string \<Rightarrow> exc + cell list" where
  "getcol df c =
     (if c \<in> set (columns df) then Inr (map (\<lambda>r. cells r c) (rows df)) else Inl (KeyError c))"

text \<open>\<open>df[c] = s\<close> for a series \<open>s\<close> on the frame's own index: a new label goes last.\<close>

definition setcol :: "string \<Rightarrow> cell list \<Rightarrow> frame \<Rightarrow> frame" where
  "setcol c s df =
     \<lparr>columns = (if c \<in> set (columns df) then columns df else columns df @ [c]),
      rows = map2 (\<lambda>r v. r\<lparr>cells := (cells r)(c := v)\<rparr>) (rows df) s\<rparr>"

fun mapE :: "('a \<Rightarrow> exc + 'b) \<Rightarrow> 'a list \<Rightarrow> exc + 'b list" where
  "mapE f [] = Inr []"
| "mapE f (x # xs) =
     (case f x of Inl e \<Rightarrow> Inl e
      | Inr y \<Rightarrow> (case mapE f xs of Inl e \<Rightarrow> Inl e | Inr ys \<Rightarrow> Inr (y # ys)))"

text \<open>
  Comparing a series with a number, entry by entry: a missing entry compares False, a string
  entry raises TypeError.
\<close>

fun cell_ge :: "fnum \<Rightarrow> cell \<Rightarrow> exc + bool" where
  "cell_ge t Null = Inr False"
| "cell_ge t (Num x) = Inr (t \<le> x)"
| "cell_ge t (Str s) = Inl TypeError"

fun cell_le :: "fnum \<Rightarrow> cell \<Rightarrow> exc + bool" where
  "cell_le t Null = Inr False"
| "cell_le t (Num x) = Inr (x \<le> t)"
| "cell_le t (Str s) = Inl TypeError"

fun cell_lt :: "fnum \<Rightarrow> cell \<Rightarrow> exc + bool" where
  "cell_lt t Null = Inr False"
| "cell_lt t (Num x) = Inr (x < t)"
| "cell_lt t (Str s) = Inl TypeError"

definition series_ge :: "cell list \<Rightarrow> fnum \<Rightarrow> exc + bool list" where
  "series_ge s t = mapE (cell_ge t) s"

definition series_le :: "cell list \<Rightarrow> fnum \<Rightarrow> exc + bool list" where
  "series_le s t = mapE (cell_le t) s"

definition series_lt :: "cell list \<Rightarrow> fnum \<Rightarrow> exc + bool list" where
  "series_lt s t = mapE (cell_lt t) s"

definition notna :: "cell list \<Rightarrow> bool list" where
  "notna s = map (\<lambda>c. c \<noteq> Null) s"

text \<open>\<open>a & b\<close> on two boolean series: the left operand is evaluated first.\<close>

definition mask_and :: "exc + bool list \<Rightarrow> exc + bool list \<Rightarrow> exc + bool list" where
  "mask_and a b =
     (case a of Inl e \<Rightarrow> Inl e
      | Inr x \<Rightarrow> (case b of Inl e \<Rightarrow> Inl e | Inr y \<Rightarrow> Inr (map2 (\<and>) x y)))"

section \<open>data\_fetcher.py: the derived metrics\<close>

text \<open>\<open>score + (mask.astype(int) * pts)\<close>\<close>

definition add_points :: "int list \<Rightarrow> bool list \<Rightarrow> int \<Rightarrow> int list" where
  "add_points score msk pts = map2 (\<lambda>s m. s + (if m then 1 else 0) * pts) score msk"

definition criterion ::
  "frame \<Rightarrow> string \<Rightarrow> fnum \<Rightarrow> fnum \<Rightarrow> int \<Rightarrow> int list \<Rightarrow> exc + int list" where
  "criterion df c lo hi pts score =
     (if c \<in> set (columns df) then
        (case mask_and (series_ge (map (\<lambda>r. cells r c) (rows df)) lo)
                       (series_le (map (\<lambda>r. cells r c) (rows df)) hi) of
           Inl e \<Rightarrow> Inl e
         | Inr msk \<Rightarrow> Inr (add_points score msk pts))
      else Inr score)"

definition calculate_habitability_score :: "frame \<Rightarrow> exc + int list" where
  "calculate_habitability_score df =
     (case criterion df ''pl_rade'' (Fin 0.5) (Fin 2.0) 35 (map (\<lambda>r. 0) (rows df)) of
        Inl e \<Rightarrow> Inl e
      | Inr s1 \<Rightarrow>
     (case criterion df ''pl_eqt'' (Fin 200) (Fin 350) 40 s1 of
        Inl e \<Rightarrow> Inl e
      | Inr s2 \<Rightarrow> criterion df ''pl_orbper'' (Fin 200) (Fin 500) 25 s2))"

text \<open>\<open>s.where(~mask, other)\<close>: the entries under the mask become \<open>other\<close>.\<close>

definition where_not :: "string list \<Rightarrow> exc + bool list \<Rightarrow> string \<Rightarrow> exc + string list" where
  "where_not s msk other =
     (case msk of Inl e \<Rightarrow> Inl e
      | Inr m \<Rightarrow> Inr (map2 (\<lambda>v b. if b then other else v) s m))"

definition classify_planet_type :: "frame \<Rightarrow> exc + string list" where
  "classify_planet_type df =
     (let planet_type = map (\<lambda>r. ''Unknown'') (rows df);
          rade = map (\<lambda>r. cells r ''pl_rade'') (rows df)
      in if ''pl_rade'' \<in> set (columns df) then
        (case where_not planet_type
                (mask_and (series_lt rade (Fin 1.25)) (Inr (notna rade)))
                ''Rocky (Earth-like)'' of Inl e \<Rightarrow> Inl e | Inr t1 \<Rightarrow>
        (case where_not t1
                (mask_and (series_ge rade (Fin 1.25)) (series_lt rade (Fin 2.0)))
                ''Super-Earth'' of Inl e \<Rightarrow> Inl e | Inr t2 \<Rightarrow>
        (case where_not t2
                (mask_and (series_ge rade (Fin 2.0)) (series_lt rade (Fin 4.0)))
                ''Mini-Neptune'' of Inl e \<Rightarrow> Inl e | Inr t3 \<Rightarrow>
        (case where_not t3
                (mask_and (series_ge rade (Fin 4.0)) (series_lt rade (Fin 10.0)))
                ''Neptune-like'' of Inl e \<Rightarrow> Inl e | Inr t4 \<Rightarrow>
        where_not t4 (series_ge rade (Fin 10.0)) ''Jupiter-like''))))
      else Inr planet_type)"

text \<open>
  A column is numeric for the comparisons when none of its entries is a string: this is what
  the coercion of the cleaning pass leaves in every column it touches.
\<close>

definition numeric_col :: "frame \<Rightarrow> string \<Rightarrow> bool" where
  "numeric_col df c = (c \<in> set (columns df) \<longrightarrow> (\<forall>r \<in> set (rows df). \<not> is_Str (cells r c)))"

section \<open>The frame operations the cleaning passes call\<close>

text \<open>
  \<open>pd.to_numeric(s, errors='coerce')\<close>: a number stays, a string that reads as a number
  becomes that number, any other string becomes missing. Which strings read as numbers is
  the library's business; it is the parameter \<open>parse\<close>.
\<close>

definition coerce :: "(string \<Rightarrow> fnum option) \<Rightarrow> cell \<Rightarrow> cell" where
  "coerce parse v =
     (case v of Str s \<Rightarrow> (case parse s of None \<Rightarrow> Null | Some x \<Rightarrow> Num x) | _ \<Rightarrow> v)"

definition to_numeric :: "(string \<Rightarrow> fnum option) \<Rightarrow> cell list \<Rightarrow> cell list" where
  "to_numeric parse s = map (coerce parse) s"

text \<open>
  \<open>for col in cols: if col in df.columns: df[col] = pd.to_numeric(df[col], errors='coerce')\<close>
\<close>

definition coerce_columns :: "(string \<Rightarrow> fnum option) \<Rightarrow> string list \<Rightarrow> frame \<Rightarrow> frame" where
  "coerce_columns parse cols df =
     fold (\<lambda>c d. if c \<in> set (columns d)
                  then setcol c (to_numeric parse (map (\<lambda>r. cells r c) (rows d))) d
                  else d) cols df"

text \<open>\<open>df.dropna(how='all')\<close>: a row goes when every one of its entries is missing.\<close>

definition dropna_all :: "frame \<Rightarrow> frame" where
  "dropna_all df = df\<lparr>rows := filter (\<lambda>r. \<exists>c \<in> set (columns df). cells r c \<noteq> Null) (rows df)\<rparr>"

text \<open>
  \<open>df.dropna(subset=cs)\<close>: KeyError for a label that is not a column; a row goes when one
  of its entries under \<open>cs\<close> is missing.
\<close>

definition dropna_subset :: "string list \<Rightarrow> frame \<Rightarrow> exc + frame" where
  "dropna_subset cs df =
     (case filter (\<lambda>c. c \<notin> set (columns df)) cs of
        c # _ \<Rightarrow> Inl (KeyError c)
      | [] \<Rightarrow> Inr (df\<lparr>rows := filter (\<lambda>r. \<forall>c \<in> set cs. cells r c \<noteq> Null) (rows df)\<rparr>))"

text \<open>
  \<open>df.drop_duplicates(subset=c, keep='first')\<close>: an empty frame is returned as it is,
  before the label is looked at. Otherwise KeyError for a label that is not a column; going
  down the rows, a row goes when its key was seen on an earlier row. Missing keys count as
  equal to each other.
\<close>

fun keep_first :: "('a \<Rightarrow> 'k) \<Rightarrow> 'k list \<Rightarrow> 'a list \<Rightarrow> 'a list" where
  "keep_first key seen [] = []"
| "keep_first key seen (r # rs) =
     (if key r \<in> set seen then keep_first key seen rs
      else r # keep_first key (key r # seen) rs)"

definition drop_duplicates :: "string \<Rightarrow> frame \<Rightarrow> exc + frame" where
  "drop_duplicates c df =
     (if empty_df df then Inr df
      else if c \<in> set (columns df)
      then Inr (df\<lparr>rows := keep_first (\<lambda>r. cells r c) [] (rows df)\<rparr>)
      else Inl (KeyError c))"

text \<open>
  \<open>pd.cut(s, bins, labels)\<close> with the default right-closed bins: the position of a value
  among the edges is the number of edges below it (\<open>searchsorted\<close>, side left); position 0
  (at or below the first edge) and position \<open>len(bins)\<close> (above the last edge) get no
  category, and so does a missing value; position \<open>i\<close> gets label \<open>i - 1\<close>.
\<close>

definition searchsorted :: "fnum list \<Rightarrow> fnum \<Rightarrow> nat" where
  "searchsorted bins x = length (takeWhile (\<lambda>b. b < x) bins)"

fun cut_cell :: "fnum list \<Rightarrow> string list \<Rightarrow> cell \<Rightarrow> exc + cell" where
  "cut_cell bins labels Null = Inr Null"
| "cut_cell bins labels (Str s) = Inl TypeError"
| "cut_cell bins labels (Num x) =
     (let i = searchsorted bins x
      in if i = 0 \<or> i = length bins then Inr Null else Inr (Str (labels ! (i - 1))))"

definition cut :: "cell list \<Rightarrow> fnum list \<Rightarrow> string list \<Rightarrow> exc + cell list" where
  "cut s bins labels = mapE (cut_cell bins labels) s"

section \<open>data\_fetcher.py: fetching\<close>

text \<open>
  The outside world of \<open>fetch_exoplanet_data\<close>: what the HTTP request, the status check,
  the JSON decoding, \<open>len\<close> and the frame constructor do. Each either returns or raises.
\<close>

record ('r, 'd) http =
  requests_get :: "exc + 'r"
  raise_for_status :: "'r \<Rightarrow> exc + unit"
  response_json :: "'r \<Rightarrow> exc + 'd"
  len_data :: "'d \<Rightarrow> exc + nat"
  pd_DataFrame :: "'d \<Rightarrow> exc + frame"

text \<open>The lines the scripts print, by kind.\<close>

datatype msg = MsgBanner | MsgRule | MsgFetching | MsgConnecting | MsgSuccess nat
  | MsgTimeout | MsgFetchError exc | MsgFetchFailed | MsgCleanFailed | MsgNoDataToSave
  | MsgSaved string nat nat | MsgSummary | MsgAllDone

definition empty_frame :: frame where
  "empty_frame = \<lparr>columns = [], rows = []\<rparr>"

text \<open>The body of the \<open>try\<close>: what it printed, and how it ended.\<close>

definition fetch_try :: "('r, 'd) http \<Rightarrow> msg list \<times> (exc + frame)" where
  "fetch_try w =
     (case requests_get w of
        Inl e \<Rightarrow> ([MsgConnecting], Inl e)
      | Inr response \<Rightarrow>
     (case raise_for_status w response of
        Inl e \<Rightarrow> ([MsgConnecting], Inl e)
      | Inr u \<Rightarrow>
     (case response_json w response of
        Inl e \<Rightarrow> ([MsgConnecting], Inl e)
      | Inr data \<Rightarrow>
     (case len_data w data of
        Inl e \<Rightarrow> ([MsgConnecting], Inl e)
      | Inr n \<Rightarrow>
     (case pd_DataFrame w data of
        Inl e \<Rightarrow> ([MsgConnecting, MsgSuccess n, MsgRule], Inl e)
      | Inr df \<Rightarrow> ([MsgConnecting, MsgSuccess n, MsgRule], Inr df))))))"

text \<open>
  The two handlers: \<open>except requests.exceptions.Timeout\<close> first, then
  \<open>except Exception\<close>. The result is the printed lines and the returned frame.
\<close>

definition fetch_exoplanet_data :: "('r, 'd) http \<Rightarrow> msg list \<times> frame" where
  "fetch_exoplanet_data w =
     (case fetch_try w of
        (out, Inr df) \<Rightarrow> ([MsgFetching, MsgRule] @ out, df)
      | (out, Inl Timeout) \<Rightarrow> ([MsgFetching, MsgRule] @ out @ [MsgTimeout], empty_frame)
      | (out, Inl e) \<Rightarrow> ([MsgFetching, MsgRule] @ out @ [MsgFetchError e], empty_frame))"

section \<open>data\_fetcher.py: cleaning\<close>

definition numeric_columns :: "string list" where
  "numeric_columns =
     [''pl_orbper'', ''pl_orbsmax'', ''pl_rade'', ''pl_radj'', ''pl_masse'', ''pl_massj'',
      ''pl_bmasse'', ''pl_bmassj'', ''pl_eqt'', ''pl_insol'', ''pl_dens'',
      ''st_teff'', ''st_rad'', ''st_mass'', ''st_met'', ''st_logg'', ''st_age'',
      ''sy_snum'', ''sy_pnum'', ''sy_dist'', ''sy_gaiamag'',
      ''ra'', ''dec'', ''glat'', ''glon'', ''disc_year'']"

definition era_bins :: "fnum list" where
  "era_bins = [Fin 0, Fin 2000, Fin 2010, Fin 2015, Fin 2020, Fin 2030]"

definition era_labels :: "string list" where
  "era_labels = [''Pre-2000'', ''2000s'', ''2010-2015'', ''2015-2020'', ''2020+'']"

definition distance_bins :: "fnum list" where
  "distance_bins = [Fin 0, Fin 50, Fin 100, Fin 500, Fin 10000]"

definition distance_labels :: "string list" where
  "distance_labels =
     [''Very Close (<50pc)'', ''Close (50-100pc)'', ''Moderate (100-500pc)'', ''Far (>500pc)'']"

text \<open>
  The four derived columns and the fetch time, added to the deduplicated frame. A label
  that is not a column (\<open>disc_year\<close>, \<open>sy_dist\<close>) raises KeyError.
\<close>

definition add_derived :: "string \<Rightarrow> frame \<Rightarrow> exc + frame" where
  "add_derived now df =
     (case calculate_habitability_score df of Inl e \<Rightarrow> Inl e | Inr score \<Rightarrow>
      let df1 = setcol ''habitability_score'' (map (\<lambda>n. Num (Fin (of_int n))) score) df in
     (case classify_planet_type df1 of Inl e \<Rightarrow> Inl e | Inr ptype \<Rightarrow>
      let df2 = setcol ''planet_type'' (map Str ptype) df1 in
     (case getcol df2 ''disc_year'' of Inl e \<Rightarrow> Inl e | Inr years \<Rightarrow>
     (case cut years era_bins era_labels of Inl e \<Rightarrow> Inl e | Inr era \<Rightarrow>
      let df3 = setcol ''discovery_era'' era df2 in
     (case getcol df3 ''sy_dist'' of Inl e \<Rightarrow> Inl e | Inr dists \<Rightarrow>
     (case cut dists distance_bins distance_labels of Inl e \<Rightarrow> Inl e | Inr cats \<Rightarrow>
      let df4 = setcol ''distance_category'' cats df3 in
      Inr (setcol ''data_fetched_at'' (map (\<lambda>r. Str now) (rows df4)) df4)))))))"

text \<open>
  \<open>clean_exoplanet_data\<close> of data\_fetcher.py. \<open>now\<close> is the formatted clock reading.
  What the pass prints is left out.
\<close>

definition clean_exoplanet_data ::
  "(string \<Rightarrow> fnum option) \<Rightarrow> string \<Rightarrow> frame \<Rightarrow> exc + frame" where
  "clean_exoplanet_data parse now df =
     (if empty_df df then Inr df
      else
        let df1 = coerce_columns parse numeric_columns df;
            df2 = dropna_all df1
        in (case dropna_subset [''pl_name''] df2 of Inl e \<Rightarrow> Inl e | Inr df3 \<Rightarrow>
           (case drop_duplicates ''pl_name'' df3 of Inl e \<Rightarrow> Inl e | Inr df4 \<Rightarrow>
            add_derived now df4)))"

section \<open>data\_fetcher.py: saving, and the script\<close>

text \<open>The files on disk, by name; a saved CSV is the frame it was written from.\<close>

definition save_to_csv ::
  "frame \<Rightarrow> string \<Rightarrow> (string \<rightharpoonup> frame) \<Rightarrow> (string \<rightharpoonup> frame) \<times> msg list" where
  "save_to_csv df filename files =
     (if empty_df df then (files, [MsgNoDataToSave])
      else (files(filename \<mapsto> df),
            [MsgSaved filename (length (rows df)) (length (columns df))]))"

datatype stage = Fetch | Clean | Save

text \<open>
  One run of the script: the stages it entered, in order, the files afterwards, the lines
  printed, and the exception it died of, if any.
\<close>

record run =
  trace :: "stage list"
  files_after :: "string \<rightharpoonup> frame"
  printed :: "msg list"
  raised :: "exc option"

definition main ::
  "('r, 'd) http \<Rightarrow> (string \<Rightarrow> fnum option) \<Rightarrow> string \<Rightarrow> (string \<rightharpoonup> frame) \<Rightarrow> run" where
  "main w parse now files =
     (case fetch_exoplanet_data w of (out, raw_df) \<Rightarrow>
      if empty_df raw_df then
        \<lparr>trace = [Fetch], files_after = files,
         printed = [MsgBanner, MsgRule] @ out @ [MsgFetchFailed], raised = None\<rparr>
      else
        (case clean_exoplanet_data parse now raw_df of
           Inl e \<Rightarrow>
             \<lparr>trace = [Fetch, Clean], files_after = files,
              printed = [MsgBanner, MsgRule] @ out, raised = Some e\<rparr>
         | Inr clean_df \<Rightarrow>
             if empty_df clean_df then
               \<lparr>trace = [Fetch, Clean], files_after = files,
                printed = [MsgBanner, MsgRule] @ out @ [MsgCleanFailed], raised = None\<rparr>
             else
               (case save_to_csv clean_df ''exoplanet_data.csv'' files of (files', out') \<Rightarrow>
                \<lparr>trace = [Fetch, Clean, Save], files_after = files',
                 printed = [MsgBanner, MsgRule] @ out @ out' @ [MsgSummary, MsgAllDone],
                 raised = None\<rparr>)))"

section \<open>data\_extraction.py\<close>

definition numeric_cols :: "string list" where
  "numeric_cols = [''pl_rade'', ''pl_eqt'', ''pl_orbper'', ''st_teff'', ''st_rad'']"

text \<open>\<open>clean_exoplanet_data\<close> of data\_extraction.py.\<close>

definition extraction_clean_exoplanet_data ::
  "(string \<Rightarrow> fnum option) \<Rightarrow> frame \<Rightarrow> exc + frame" where
  "extraction_clean_exoplanet_data parse df =
     (case drop_duplicates ''pl_name'' df of Inl e \<Rightarrow> Inl e | Inr df1 \<Rightarrow>
     (case getcol df1 ''disc_year'' of Inl e \<Rightarrow> Inl e | Inr years \<Rightarrow>
      let df2 = setcol ''disc_year'' (to_numeric parse years) df1 in
     (case dropna_subset [''pl_rade'', ''pl_eqt'', ''pl_orbper''] df2 of
        Inl e \<Rightarrow> Inl e
      | Inr df3 \<Rightarrow> Inr (coerce_columns parse numeric_cols df3))))"

section \<open>database\_setup.py: the store\<close>

text \<open>
  The three tables. A row has its \<open>id\<close> (INTEGER PRIMARY KEY AUTOINCREMENT), its key
  column (TEXT UNIQUE NOT NULL), the values of its other columns in the order of the
  INSERT statement, and \<open>created_at\<close>. Each table has its AUTOINCREMENT counter, the
  largest id it ever gave out.
\<close>

record planet_rec =
  planet_id :: nat
  pl_name :: string
  planet_values :: "cell list"
  planet_created_at :: string

record star_rec =
  star_id :: nat
  star_hostname :: string
  star_values :: "cell list"
  planet_count :: int
  star_created_at :: string

record system_rec =
  system_id :: nat
  system_hostname :: string
  system_values :: "cell list"
  system_created_at :: string

record db =
  planets :: "planet_rec list"
  stars :: "star_rec list"
  systems :: "system_rec list"
  seq_planets :: nat
  seq_stars :: nat
  seq_systems :: nat

text \<open>
  \<open>create_database\<close>: every statement is CREATE ... IF NOT EXISTS, so a store that is
  there already is left as it is, and a new one starts with the three tables empty. The
  indexes change no content.
\<close>

definition create_database :: "db option \<Rightarrow> db" where
  "create_database existing =
     (case existing of
        Some d \<Rightarrow> d
      | None \<Rightarrow> \<lparr>planets = [], stars = [], systems = [],
                  seq_planets = 0, seq_stars = 0, seq_systems = 0\<rparr>)"

text \<open>
  What a TEXT column stores for a bound value: NULL for a missing one, the string itself,
  or the text form of a number (\<open>txt\<close>, the database's rendering).
\<close>

fun sql_text :: "(fnum \<Rightarrow> string) \<Rightarrow> cell \<Rightarrow> string option" where
  "sql_text txt Null = None"
| "sql_text txt (Str s) = Some s"
| "sql_text txt (Num x) = Some (txt x)"

text \<open>AUTOINCREMENT: one more than the largest id in the table or ever given out.\<close>

definition next_id :: "nat list \<Rightarrow> nat \<Rightarrow> nat" where
  "next_id ids seq = Suc (fold max ids seq)"

definition planet_columns :: "string list" where
  "planet_columns =
     [''pl_name'', ''hostname'', ''discoverymethod'', ''disc_year'', ''disc_facility'',
      ''pl_orbper'', ''pl_orbsmax'', ''pl_rade'', ''pl_radj'', ''pl_masse'', ''pl_massj'',
      ''pl_bmasse'', ''pl_bmassj'', ''pl_bmassprov'', ''pl_dens'', ''pl_eqt'', ''pl_insol'',
      ''habitability_score'', ''planet_type'', ''discovery_era'', ''distance_category'',
      ''ra'', ''dec'', ''glat'', ''glon'', ''data_fetched_at'']"

text \<open>
  \<open>INSERT OR IGNORE INTO planets\<close> with the values of one CSV row, \<open>pl_name\<close> first. A
  missing name breaks NOT NULL and a name already in the table breaks UNIQUE; OR IGNORE
  skips the row in both cases and leaves the three tables as they are. The id is drawn
  before the constraints are checked, so the AUTOINCREMENT counter moves on with every
  attempt, also with one that is skipped. The second component is \<open>cursor.rowcount\<close>.
\<close>

definition insert_or_ignore_planet ::
  "(fnum \<Rightarrow> string) \<Rightarrow> (string \<Rightarrow> nat \<Rightarrow> string) \<Rightarrow> cell list \<Rightarrow> db \<Rightarrow> db \<times> nat" where
  "insert_or_ignore_planet txt stamp vals d =
     (let i = next_id (map planet_id (planets d)) (seq_planets d) in
      case sql_text txt (case vals of [] \<Rightarrow> Null | v # _ \<Rightarrow> v) of
        None \<Rightarrow> (d\<lparr>seq_planets := i\<rparr>, 0)
      | Some name \<Rightarrow>
          if name \<in> set (map pl_name (planets d)) then (d\<lparr>seq_planets := i\<rparr>, 0)
          else
            (d\<lparr>planets := planets d @
                  [\<lparr>planet_id = i, pl_name = name, planet_values = tl vals,
                    planet_created_at = stamp ''planets'' i\<rparr>],
               seq_planets := i\<rparr>, 1))"

text \<open>
  The planets loop: \<open>row.get(col)\<close> is missing for a label that is not a column. The
  counters are \<open>planets_inserted\<close> and \<open>planets_skipped\<close>.
\<close>

definition insert_planets ::
  "(fnum \<Rightarrow> string) \<Rightarrow> (string \<Rightarrow> nat \<Rightarrow> string) \<Rightarrow> frame \<Rightarrow> db \<Rightarrow> db \<times> nat \<times> nat" where
  "insert_planets txt stamp df d =
     fold (\<lambda>r (d, inserted, skipped).
             case insert_or_ignore_planet txt stamp (map (val df r) planet_columns) d of
               (d', rowcount) \<Rightarrow>
                 if rowcount > 0 then (d', inserted + 1, skipped)
                 else (d', inserted, skipped + 1))
          (rows df) (d, 0, 0)"

text \<open>
  \<open>df.groupby('hostname')\<close>: the groups are the distinct host names that are not missing,
  in sorted order (numbers before strings, strings by code point).
\<close>

instantiation cell :: linorder
begin

fun less_eq_cell :: "cell \<Rightarrow> cell \<Rightarrow> bool" where
  "less_eq_cell Null y = True"
| "less_eq_cell (Num a) Null = False"
| "less_eq_cell (Num a) (Num b) = (a \<le> b)"
| "less_eq_cell (Num a) (Str t) = True"
| "less_eq_cell (Str s) Null = False"
| "less_eq_cell (Str s) (Num b) = False"
| "less_eq_cell (Str s) (Str t) = (s \<le> t)"

definition less_cell :: "cell \<Rightarrow> cell \<Rightarrow> bool" where
  "less_cell x y = (x \<le> y \<and> \<not> y \<le> x)"

instance
proof
  fix x y z :: cell
  show "(x < y) = (x \<le> y \<and> \<not> y \<le> x)"
    by (simp add: less_cell_def)
  show "x \<le> x"
    by (cases x) simp_all
  show "x \<le> y \<Longrightarrow> y \<le> z \<Longrightarrow> x \<le> z"
    by (cases x; cases y; cases z) auto
  show "x \<le> y \<Longrightarrow> y \<le> x \<Longrightarrow> x = y"
    by (cases x; cases y) auto
  show "x \<le> y \<or> y \<le> x"
    by (cases x; cases y) auto
qed

end

definition group_keys :: "frame \<Rightarrow> cell list" where
  "group_keys df =
     sort (remdups (filter (\<lambda>k. k \<noteq> Null) (map (\<lambda>r. cells r ''hostname'') (rows df))))"

text \<open>\<open>'first'\<close>: the first entry of the group's column that is not missing.\<close>

definition agg_first :: "frame \<Rightarrow> cell \<Rightarrow> string \<Rightarrow> cell" where
  "agg_first df k c =
     (case filter (\<lambda>v. v \<noteq> Null)
             (map (\<lambda>r. cells r c) (filter (\<lambda>r. cells r ''hostname'' = k) (rows df))) of
        [] \<Rightarrow> Null
      | v # _ \<Rightarrow> v)"

text \<open>\<open>'count'\<close>: how many entries of the group's column are not missing.\<close>

definition agg_count :: "frame \<Rightarrow> cell \<Rightarrow> string \<Rightarrow> int" where
  "agg_count df k c =
     int (length (filter (\<lambda>r. cells r ''hostname'' = k \<and> cells r c \<noteq> Null) (rows df)))"

text \<open>
  \<open>df.groupby('hostname').agg({...})\<close>: KeyError when \<open>hostname\<close> or an aggregated label
  is not a column; else one row per group: its key, the firsts, and the counts.
\<close>

definition groupby_agg ::
  "frame \<Rightarrow> string list \<Rightarrow> string list \<Rightarrow> exc + (cell \<times> cell list \<times> int list) list" where
  "groupby_agg df firsts counts =
     (case filter (\<lambda>c. c \<notin> set (columns df)) (''hostname'' # firsts @ counts) of
        c # _ \<Rightarrow> Inl (KeyError c)
      | [] \<Rightarrow> Inr (map (\<lambda>k. (k, map (agg_first df k) firsts, map (agg_count df k) counts))
                    (group_keys df)))"

text \<open>
  \<open>INSERT OR REPLACE INTO stars\<close>: the row with the same hostname, if there is one, is
  deleted and the new row is inserted under a new id. A missing hostname breaks NOT NULL,
  which REPLACE does not repair for a column without default: the statement raises, and the
  loop's handler goes on to the next row. The second component tells whether
  \<open>stars_inserted\<close> is counted up.
\<close>

definition insert_or_replace_star ::
  "(fnum \<Rightarrow> string) \<Rightarrow> (string \<Rightarrow> nat \<Rightarrow> string) \<Rightarrow> cell \<Rightarrow> cell list \<Rightarrow> int \<Rightarrow> db \<Rightarrow> db \<times> bool"
  where
  "insert_or_replace_star txt stamp k vals n d =
     (case sql_text txt k of
        None \<Rightarrow> (d, False)
      | Some h \<Rightarrow>
          let i = next_id (map star_id (stars d)) (seq_stars d) in
          (d\<lparr>stars := filter (\<lambda>s. star_hostname s \<noteq> h) (stars d) @
                [\<lparr>star_id = i, star_hostname = h, star_values = vals, planet_count = n,
                  star_created_at = stamp ''stars'' i\<rparr>],
             seq_stars := i\<rparr>, True))"

definition insert_or_replace_system ::
  "(fnum \<Rightarrow> string) \<Rightarrow> (string \<Rightarrow> nat \<Rightarrow> string) \<Rightarrow> cell \<Rightarrow> cell list \<Rightarrow> db \<Rightarrow> db \<times> bool"
  where
  "insert_or_replace_system txt stamp k vals d =
     (case sql_text txt k of
        None \<Rightarrow> (d, False)
      | Some h \<Rightarrow>
          let i = next_id (map system_id (systems d)) (seq_systems d) in
          (d\<lparr>systems := filter (\<lambda>s. system_hostname s \<noteq> h) (systems d) @
                [\<lparr>system_id = i, system_hostname = h, system_values = vals,
                  system_created_at = stamp ''systems'' i\<rparr>],
             seq_systems := i\<rparr>, True))"

definition insert_stars ::
  "(fnum \<Rightarrow> string) \<Rightarrow> (string \<Rightarrow> nat \<Rightarrow> string) \<Rightarrow> (cell \<times> cell list \<times> int list) list
     \<Rightarrow> db \<Rightarrow> db \<times> nat" where
  "insert_stars txt stamp star_data d =
     fold (\<lambda>(k, vals, ns) (d, inserted).
             case insert_or_replace_star txt stamp k vals (case ns of [] \<Rightarrow> 0 | n # _ \<Rightarrow> n) d of
               (d', ok) \<Rightarrow> (d', if ok then inserted + 1 else inserted))
          star_data (d, 0)"

definition insert_systems ::
  "(fnum \<Rightarrow> string) \<Rightarrow> (string \<Rightarrow> nat \<Rightarrow> string) \<Rightarrow> (cell \<times> cell list \<times> int list) list
     \<Rightarrow> db \<Rightarrow> db \<times> nat" where
  "insert_systems txt stamp system_data d =
     fold (\<lambda>(k, vals, ns) (d, inserted).
             case insert_or_replace_system txt stamp k vals d of
               (d', ok) \<Rightarrow> (d', if ok then inserted + 1 else inserted))
          system_data (d, 0)"

text \<open>
  \<open>insert_data_from_csv\<close>, on the frame read from the CSV. The connection commits at the
  end only: a KeyError of a \<open>groupby\<close> leaves the function before the commit, and the
  store keeps what it held.
\<close>

definition insert_data_from_csv ::
  "(fnum \<Rightarrow> string) \<Rightarrow> (string \<Rightarrow> nat \<Rightarrow> string) \<Rightarrow> db \<Rightarrow> frame \<Rightarrow> exc + db" where
  "insert_data_from_csv txt stamp d df =
     (case insert_planets txt stamp df d of (d1, inserted, skipped) \<Rightarrow>
     (case groupby_agg df [''st_teff'', ''st_rad'', ''st_mass'', ''st_met'', ''st_logg'', ''st_age'']
             [''pl_name''] of
        Inl e \<Rightarrow> Inl e
      | Inr star_data \<Rightarrow>
     (case insert_stars txt stamp star_data d1 of (d2, stars_inserted) \<Rightarrow>
     (case groupby_agg df [''sy_snum'', ''sy_pnum'', ''sy_dist'', ''sy_gaiamag''] [] of
        Inl e \<Rightarrow> Inl e
      | Inr system_data \<Rightarrow>
     (case insert_systems txt stamp system_data d2 of (d3, systems_inserted) \<Rightarrow> Inr d3)))))"

text \<open>The key invariants of the store, and what a row holds besides its id and timestamp.\<close>

definition keys_unique :: "db \<Rightarrow> bool" where
  "keys_unique d =
     (distinct (map pl_name (planets d)) \<and> distinct (map star_hostname (stars d)) \<and>
      distinct (map system_hostname (systems d)))"

definition planet_payload :: "planet_rec \<Rightarrow> string \<times> cell list" where
  "planet_payload p = (pl_name p, planet_values p)"

definition star_payload :: "star_rec \<Rightarrow> string \<times> cell list \<times> int" where
  "star_payload s = (star_hostname s, star_values s, planet_count s)"

definition system_payload :: "system_rec \<Rightarrow> string \<times> cell list" where
  "system_payload s = (system_hostname s, system_values s)"

section \<open>App.py: the Explorer page's query\<close>

text \<open>
  Strings are byte strings in UTF-8. An f-string renders an \<open>int\<close> in decimal and the
  floats of the radius slider (the multiples of 0.5 from 0.0 to 25.0, held here as their
  number of halves) as \<open>str\<close> does: one digit after the point.
\<close>

definition digit :: "nat \<Rightarrow> char" where
  "digit k = ''0123456789'' ! k"

function string_of_nat :: "nat \<Rightarrow> string" where
  "string_of_nat n =
     (if n < 10 then [digit n] else string_of_nat (n div 10) @ [digit (n mod 10)])"
  by pat_completeness auto
termination
  by (relation "measure (\<lambda>n. n)") auto

definition string_of_int :: "int \<Rightarrow> string" where
  "string_of_int i = (if i < 0 then ''-'' @ string_of_nat (nat (- i)) else string_of_nat (nat i))"

definition string_of_halves :: "nat \<Rightarrow> string" where
  "string_of_halves h = string_of_nat (h div 2) @ (if even h then ''.0'' else ''.5'')"

text \<open>\<open>sep.join(xs)\<close>\<close>

fun join :: "string \<Rightarrow> string list \<Rightarrow> string" where
  "join sep [] = []"
| "join sep [x] = x"
| "join sep (x # y # ys) = x @ sep @ join sep (y # ys)"

text \<open>What the widgets of the Explorer page hold when the query is built.\<close>

record filters =
  selected_methods :: "string list"
  year_range :: "int \<times> int"
  radius_range :: "nat \<times> nat"
  temp_range :: "int \<times> int"
  selected_types :: "string list"
  min_habitability :: int

definition nl :: string where
  "nl = [CHR 0x0A]"

definition earth_sign :: string where
  "earth_sign = [CHR 0xE2, CHR 0x8A, CHR 0x95]"

definition query_head :: string where
  \<open>query_head =
     nl @ ''    SELECT '' @ nl @
     ''        pl_name as "Planet Name",'' @ nl @
     ''        hostname as "Host Star",'' @ nl @
     ''        discoverymethod as "Method",'' @ nl @
     ''        disc_year as "Year",'' @ nl @
     ''        planet_type as "Type",'' @ nl @
     ''        pl_rade as "Radius (R'' @ earth_sign @ '')",'' @ nl @
     ''        pl_masse as "Mass (M'' @ earth_sign @ '')",'' @ nl @
     ''        pl_eqt as "Temp (K)",'' @ nl @
     ''        pl_orbper as "Period (days)",'' @ nl @
     ''        habitability_score as "Habitability"'' @ nl @
     ''    FROM planets'' @ nl @
     ''    WHERE 1=1'' @ nl @
     ''    ''\<close>

definition query_tail :: string where
  "query_tail = '' ORDER BY disc_year DESC, habitability_score DESC LIMIT 1000''"

definition conditions :: "filters \<Rightarrow> string list" where
  "conditions f =
     (if selected_methods f \<noteq> []
      then [''discoverymethod IN ('' @ [CHR 0x27] @ join [CHR 0x27, CHR 0x2C, CHR 0x27] (selected_methods f) @ [CHR 0x27] @ '')'']
      else []) @
     [''disc_year BETWEEN '' @ string_of_int (fst (year_range f)) @ '' AND ''
        @ string_of_int (snd (year_range f)),
      ''pl_rade BETWEEN '' @ string_of_halves (fst (radius_range f)) @ '' AND ''
        @ string_of_halves (snd (radius_range f)),
      ''pl_eqt BETWEEN '' @ string_of_int (fst (temp_range f)) @ '' AND ''
        @ string_of_int (snd (temp_range f))] @
     (if selected_types f \<noteq> []
      then [''planet_type IN ('' @ [CHR 0x27] @ join [CHR 0x27, CHR 0x2C, CHR 0x27] (selected_types f) @ [CHR 0x27] @ '')'']
      else []) @
     [''habitability_score >= '' @ string_of_int (min_habitability f)]"

text \<open>
  The query of \<open>show_explorer\<close> as it reaches \<open>load_data_cached\<close> and from there
  \<open>pd.read_sql_query(query, conn)\<close>: the text, and the bound parameters, of which the
  call passes none.
\<close>

definition show_explorer_query :: "filters \<Rightarrow> string \<times> string list" where
  "show_explorer_query f =
     (let query = query_head;
          query = (if conditions f \<noteq> [] then query @ '' AND '' @ join '' AND '' (conditions f)
                   else query)
      in (query @ query_tail, []))"

section \<open>Notions for stating what the passes do\<close>

text \<open>What the coercion loop does to one row: the entries under the labels in \<open>S\<close> are coerced.\<close>

definition coerce_row :: "(string \<Rightarrow> fnum option) \<Rightarrow> string set \<Rightarrow> row \<Rightarrow> row" where
  "coerce_row parse S r =
     r\<lparr>cells := (\<lambda>c. if c \<in> S then coerce parse (cells r c) else cells r c)\<rparr>"

text \<open>The index label and the planet name of a row: what identifies it across a pass.\<close>

definition core :: "row \<Rightarrow> nat \<times> cell" where
  "core r = (idx r, cells r ''pl_name'')"

text \<open>
  INSERT OR REPLACE on the payloads of a table: the rows with the new row's key go, the new
  row comes last. After a run of such inserts a key holds the payload inserted for it last.
\<close>

definition upsert :: "('p \<Rightarrow> 'k) \<Rightarrow> 'p \<Rightarrow> 'p list \<Rightarrow> 'p list" where
  "upsert kp p P = filter (\<lambda>q. kp q \<noteq> kp p) P @ [p]"

fun last_by_key :: "('p \<Rightarrow> 'k) \<Rightarrow> 'p list \<Rightarrow> 'p list" where
  "last_by_key kp [] = []"
| "last_by_key kp (p # ps) =
     (if kp p \<in> kp ` set ps then last_by_key kp ps else p # last_by_key kp ps)"

section \<open>Concrete inputs\<close>

text \<open>A stand-in for the library's number reader: it reads the strings of decimal digits.\<close>

definition digits_value :: "string \<Rightarrow> nat" where
  "digits_value s = foldl (\<lambda>n c. 10 * n + (of_char c - 48)) 0 s"

definition parse_digits :: "string \<Rightarrow> fnum option" where
  "parse_digits s =
     (if s \<noteq> [] \<and> (\<forall>c \<in> set s. CHR ''0'' \<le> c \<and> c \<le> CHR ''9'')
      then Some (Fin (real (digits_value s))) else None)"

definition example_row ::
  "nat \<Rightarrow> string \<Rightarrow> cell \<Rightarrow> cell \<Rightarrow> cell \<Rightarrow> cell \<Rightarrow> cell \<Rightarrow> row" where
  "example_row i name rade eqt orbper year dst =
     \<lparr>idx = i,
      cells = (\<lambda>c. Null)(''pl_name'' := Str name, ''pl_rade'' := rade, ''pl_eqt'' := eqt,
                ''pl_orbper'' := orbper, ''disc_year'' := year, ''sy_dist'' := dst)\<rparr>"

definition example_columns :: "string list" where
  "example_columns =
     [''pl_name'', ''pl_rade'', ''pl_eqt'', ''pl_orbper'', ''disc_year'', ''sy_dist'']"

definition example_frame :: frame where
  "example_frame =
     \<lparr>columns = example_columns,
      rows = [example_row 0 ''Kepler-452 b'' (Num (Fin 1.63)) (Num (Fin 265)) (Num (Fin 384.8))
                (Num (Fin 2015)) (Num (Fin 551.7)),
              example_row 1 ''51 Peg b'' (Num (Fin 14.2)) Null (Num (Fin 4.23))
                (Num (Fin 1995)) (Num (Fin 15.5))]\<rparr>"

definition example_duplicates :: frame where
  "example_duplicates =
     \<lparr>columns = example_columns,
      rows = [example_row 0 ''Kepler-22 b'' (Num (Fin 2.1)) (Num (Fin 279)) (Num (Fin 289.9))
                (Num (Fin 2011)) (Num (Fin 194.6)),
              example_row 1 ''51 Peg b'' (Num (Fin 14.2)) (Num (Fin 1284)) (Num (Fin 4.23))
                (Num (Fin 1995)) (Num (Fin 15.5)),
              example_row 2 ''Kepler-22 b'' (Num (Fin 2.4)) (Num (Fin 262)) (Num (Fin 289.9))
                (Num (Fin 2012)) (Num (Fin 190))]\<rparr>"

definition example_non_numeric :: frame where
  "example_non_numeric =
     \<lparr>columns = example_columns,
      rows = [example_row 0 ''Kepler-22 b'' (Str ''unknown'') (Num (Fin 279)) (Num (Fin 289.9))
                (Num (Fin 2011)) (Num (Fin 194.6))]\<rparr>"

text \<open>Two worlds: one where the request times out, one where the archive answers.\<close>

definition example_http_timeout :: "(nat, nat) http" where
  "example_http_timeout =
     \<lparr>requests_get = Inl Timeout, raise_for_status = (\<lambda>r. Inr ()),
      response_json = (\<lambda>r. Inr 0), len_data = (\<lambda>d. Inr 0),
      pd_DataFrame = (\<lambda>d. Inr empty_frame)\<rparr>"

definition example_http_ok :: "(nat, nat) http" where
  "example_http_ok =
     \<lparr>requests_get = Inr 200,
      raise_for_status = (\<lambda>r. if 400 \<le> r \<and> r < 600 then Inl (RequestException ''HTTPError'')
                              else Inr ()),
      response_json = (\<lambda>r. Inr 2), len_data = (\<lambda>d. Inr d),
      pd_DataFrame = (\<lambda>d. Inr example_frame)\<rparr>"

text \<open>A CSV of three planets around two stars, and a store's text rendering and clock.\<close>

definition example_csv_row :: "nat \<Rightarrow> string \<Rightarrow> string \<Rightarrow> cell \<Rightarrow> cell \<Rightarrow> row" where
  "example_csv_row i name host teff dst =
     \<lparr>idx = i,
      cells = (\<lambda>c. Null)(''pl_name'' := Str name, ''hostname'' := Str host,
                ''st_teff'' := teff, ''sy_dist'' := dst)\<rparr>"

definition example_csv :: frame where
  "example_csv =
     \<lparr>columns = [''pl_name'', ''hostname'', ''st_teff'', ''st_rad'', ''st_mass'', ''st_met'',
                 ''st_logg'', ''st_age'', ''sy_snum'', ''sy_pnum'', ''sy_dist'', ''sy_gaiamag''],
      rows = [example_csv_row 0 ''TRAPPIST-1 b'' ''TRAPPIST-1'' Null (Num (Fin 12.43)),
              example_csv_row 1 ''Kepler-22 b'' ''Kepler-22'' (Num (Fin 5596)) (Num (Fin 194.6)),
              example_csv_row 2 ''TRAPPIST-1 c'' ''TRAPPIST-1'' (Num (Fin 2566)) Null]\<rparr>"

definition example_txt :: "fnum \<Rightarrow> string" where
  "example_txt x = ''0.0''"

definition example_stamp :: "string \<Rightarrow> nat \<Rightarrow> string" where
  "example_stamp table i = ''2026-01-01 00:00:00''"

text \<open>Two filter selections of the Explorer page: the defaults, and a narrower one.\<close>

definition example_filters_default :: filters where
  "example_filters_default =
     \<lparr>selected_methods = [], year_range = (2000, 2025), radius_range = (0, 50),
      temp_range = (0, 3000), selected_types = [], min_habitability = 0\<rparr>"

definition example_filters_transit :: filters where
  "example_filters_transit =
     \<lparr>selected_methods = [''Transit'', ''Radial Velocity''], year_range = (2010, 2020),
      radius_range = (1, 4), temp_range = (200, 350), selected_types = [''Super-Earth''],
      min_habitability = 50\<rparr>"

section \<open>Series arithmetic on numeric columns\<close>

lemma mapE_Inr: "(\<And>x. x \<in> set xs \<Longrightarrow> f x = Inr (g x)) \<Longrightarrow> mapE f xs = Inr (map g xs)"
  by (induction xs) auto

lemma mapE_length: "mapE f xs = Inr ys \<Longrightarrow> length ys = length xs"
  by (induction xs arbitrary: ys) (auto split: sum.splits)

lemma mapE_nth: "mapE f xs = Inr ys \<Longrightarrow> i < length xs \<Longrightarrow> f (xs ! i) = Inr (ys ! i)"
proof (induction xs arbitrary: ys i)
  case Nil
  then show ?case by simp
next
  case (Cons x xs)
  then show ?case
    by (cases i) (auto split: sum.splits)
qed

lemma cell_ge_numeric: "\<not> is_Str c \<Longrightarrow> cell_ge t c = Inr (\<exists>x. c = Num x \<and> t \<le> x)"
  by (cases c) auto

lemma cell_le_numeric: "\<not> is_Str c \<Longrightarrow> cell_le t c = Inr (\<exists>x. c = Num x \<and> x \<le> t)"
  by (cases c) auto

lemma cell_lt_numeric: "\<not> is_Str c \<Longrightarrow> cell_lt t c = Inr (\<exists>x. c = Num x \<and> x < t)"
  by (cases c) auto

lemma series_ge_numeric:
  assumes "numeric_col df c" and "c \<in> set (columns df)"
  shows "series_ge (map (\<lambda>r. cells r c) (rows df)) t =
     Inr (map (\<lambda>r. \<exists>x. cells r c = Num x \<and> t \<le> x) (rows df))"
  using assms unfolding series_ge_def numeric_col_def
  by (subst mapE_Inr [where g = "\<lambda>v. \<exists>x. v = Num x \<and> t \<le> x"])
     (auto simp: cell_ge_numeric comp_def)

lemma series_le_numeric:
  assumes "numeric_col df c" and "c \<in> set (columns df)"
  shows "series_le (map (\<lambda>r. cells r c) (rows df)) t =
     Inr (map (\<lambda>r. \<exists>x. cells r c = Num x \<and> x \<le> t) (rows df))"
  using assms unfolding series_le_def numeric_col_def
  by (subst mapE_Inr [where g = "\<lambda>v. \<exists>x. v = Num x \<and> x \<le> t"])
     (auto simp: cell_le_numeric comp_def)

lemma series_lt_numeric:
  assumes "numeric_col df c" and "c \<in> set (columns df)"
  shows "series_lt (map (\<lambda>r. cells r c) (rows df)) t =
     Inr (map (\<lambda>r. \<exists>x. cells r c = Num x \<and> x < t) (rows df))"
  using assms unfolding series_lt_def numeric_col_def
  by (subst mapE_Inr [where g = "\<lambda>v. \<exists>x. v = Num x \<and> x < t"])
     (auto simp: cell_lt_numeric comp_def)

lemma map2_map_same: "map2 f (map g xs) (map h xs) = map (\<lambda>x. f (g x) (h x)) xs"
  by (induction xs) auto

lemma where_not_map:
  "where_not (map f xs) (Inr (map g xs)) other = Inr (map (\<lambda>x. if g x then other else f x) xs)"
  by (simp add: where_not_def map2_map_same)

lemma mask_and_map:
  "mask_and (Inr (map f xs)) (Inr (map g xs)) = Inr (map (\<lambda>x. f x \<and> g x) xs)"
  by (simp add: mask_and_def map2_map_same)

lemma notna_map: "notna (map f xs) = map (\<lambda>x. f x \<noteq> Null) xs"
  by (simp add: notna_def comp_def)

section \<open>The habitability score\<close>

lemma criterion_numeric:
  assumes "numeric_col df c"
  shows "criterion df c lo hi pts (map f (rows df)) =
     Inr (map (\<lambda>r. f r + (if \<exists>x. val df r c = Num x \<and> lo \<le> x \<and> x \<le> hi then pts else 0))
            (rows df))"
proof (cases "c \<in> set (columns df)")
  case True
  then show ?thesis
    by (auto simp: criterion_def series_ge_numeric [OF assms] series_le_numeric [OF assms]
        mask_and_map add_points_def map2_map_same val_def)
next
  case False
  then show ?thesis
    by (simp add: criterion_def val_def)
qed

lemma calculate_habitability_score_numeric:
  assumes "numeric_col df ''pl_rade''" and "numeric_col df ''pl_eqt''"
    and "numeric_col df ''pl_orbper''"
  shows "calculate_habitability_score df =
     Inr (map (\<lambda>r.
            (if \<exists>x. val df r ''pl_rade'' = Num x \<and> Fin 0.5 \<le> x \<and> x \<le> Fin 2.0 then 35 else 0)
          + (if \<exists>x. val df r ''pl_eqt'' = Num x \<and> Fin 200 \<le> x \<and> x \<le> Fin 350 then 40 else 0)
          + (if \<exists>x. val df r ''pl_orbper'' = Num x \<and> Fin 200 \<le> x \<and> x \<le> Fin 500 then 25 else 0))
        (rows df))"
  unfolding calculate_habitability_score_def
  by (simp add: criterion_numeric [OF assms(1)] criterion_numeric [OF assms(2)]
      criterion_numeric [OF assms(3)])

text \<open>
  C2, as stated for every input frame, fails: on a frame with a string in the radius
  column the comparison raises TypeError and no row gets a score.
\<close>

theorem habitability_score_raises_on_string:
  "calculate_habitability_score example_non_numeric = Inl TypeError"
  by (simp add: calculate_habitability_score_def criterion_def example_non_numeric_def
      example_columns_def example_row_def series_ge_def series_le_def mask_and_def)

text \<open>
  C2, amended. On a frame whose \<open>pl_rade\<close>, \<open>pl_eqt\<close> and \<open>pl_orbper\<close> columns each are
  absent or hold only numbers and NaN or None values (what the coercion of the cleaning
  pass leaves), \<open>calculate_habitability_score\<close> returns one score per row, and the score
  of a row is the sum of three independent awards: 35 exactly when
  0.5 \<le> pl\_rade \<le> 2.0, 40 exactly when 200 \<le> pl\_eqt \<le> 350, 25 exactly when
  200 \<le> pl\_orbper \<le> 500. A value missing as NaN or None, or a column that is absent,
  earns its criterion 0, and every score is one of 0, 25, 35, 40, 60, 65, 75, 100.
\<close>

theorem habitability_score_three_criteria:
  assumes "numeric_col df ''pl_rade''" and "numeric_col df ''pl_eqt''"
    and "numeric_col df ''pl_orbper''"
  shows "\<exists>score. calculate_habitability_score df = Inr score \<and>
     length score = length (rows df) \<and>
     (\<forall>i < length (rows df).
        score ! i =
          (if \<exists>x. val df (rows df ! i) ''pl_rade'' = Num x \<and> Fin 0.5 \<le> x \<and> x \<le> Fin 2.0
           then 35 else 0)
        + (if \<exists>x. val df (rows df ! i) ''pl_eqt'' = Num x \<and> Fin 200 \<le> x \<and> x \<le> Fin 350
           then 40 else 0)
        + (if \<exists>x. val df (rows df ! i) ''pl_orbper'' = Num x \<and> Fin 200 \<le> x \<and> x \<le> Fin 500
           then 25 else 0)
        \<and> score ! i \<in> {0, 25, 35, 40, 60, 65, 75, 100})"
  unfolding calculate_habitability_score_numeric [OF assms]
  by (rule exI, intro conjI, rule refl, simp, simp)

theorem habitability_score_three_criteria_witness:
  "numeric_col example_frame ''pl_rade'' \<and> numeric_col example_frame ''pl_eqt'' \<and>
   numeric_col example_frame ''pl_orbper'' \<and>
   calculate_habitability_score example_frame = Inr [100, 0]"
proof -
  have h: "numeric_col example_frame ''pl_rade''" "numeric_col example_frame ''pl_eqt''"
    "numeric_col example_frame ''pl_orbper''"
    by (simp_all add: numeric_col_def example_frame_def example_row_def)
  from habitability_score_three_criteria [OF h] obtain score where
    s: "calculate_habitability_score example_frame = Inr score"
    and l: "length score = length (rows example_frame)"
    and v: "\<forall>i < length (rows example_frame).
        score ! i =
          (if \<exists>x. val example_frame (rows example_frame ! i) ''pl_rade'' = Num x \<and>
                Fin 0.5 \<le> x \<and> x \<le> Fin 2.0 then 35 else 0)
        + (if \<exists>x. val example_frame (rows example_frame ! i) ''pl_eqt'' = Num x \<and>
                Fin 200 \<le> x \<and> x \<le> Fin 350 then 40 else 0)
        + (if \<exists>x. val example_frame (rows example_frame ! i) ''pl_orbper'' = Num x \<and>
                Fin 200 \<le> x \<and> x \<le> Fin 500 then 25 else 0)
        \<and> score ! i \<in> {0, 25, 35, 40, 60, 65, 75, 100}"
    by blast
  from v have "score ! 0 = 100" "score ! 1 = 0"
    by (simp_all add: example_frame_def example_row_def example_columns_def val_def)
  moreover from l have "length score = 2"
    by (simp add: example_frame_def)
  ultimately have "score = [100, 0]"
    by (cases score; cases "tl score"; cases "tl (tl score)") auto
  with s h show ?thesis by simp
qed

section \<open>The planet type\<close>

lemma classify_planet_type_numeric:
  assumes "numeric_col df ''pl_rade''" and "''pl_rade'' \<in> set (columns df)"
  shows "classify_planet_type df =
     Inr (map (\<lambda>r.
        if \<exists>x. cells r ''pl_rade'' = Num x \<and> Fin 10.0 \<le> x then ''Jupiter-like''
        else if (\<exists>x. cells r ''pl_rade'' = Num x \<and> Fin 4.0 \<le> x) \<and>
                (\<exists>x. cells r ''pl_rade'' = Num x \<and> x < Fin 10.0) then ''Neptune-like''
        else if (\<exists>x. cells r ''pl_rade'' = Num x \<and> Fin 2.0 \<le> x) \<and>
                (\<exists>x. cells r ''pl_rade'' = Num x \<and> x < Fin 4.0) then ''Mini-Neptune''
        else if (\<exists>x. cells r ''pl_rade'' = Num x \<and> Fin 1.25 \<le> x) \<and>
                (\<exists>x. cells r ''pl_rade'' = Num x \<and> x < Fin 2.0) then ''Super-Earth''
        else if (\<exists>x. cells r ''pl_rade'' = Num x \<and> x < Fin 1.25) \<and>
                cells r ''pl_rade'' \<noteq> Null then ''Rocky (Earth-like)''
        else ''Unknown'') (rows df))"
  using assms(2)
  unfolding classify_planet_type_def Let_def
  by (simp only: series_ge_numeric [OF assms] series_lt_numeric [OF assms]
     notna_map mask_and_map where_not_map if_True sum.case)

lemma label_cases:
  fixes l0 l1 l2 l3 l4 l5 :: string
  assumes "t =
       (if \<exists>x. v = Num x \<and> Fin 10.0 \<le> x then l5
        else if (\<exists>x. v = Num x \<and> Fin 4.0 \<le> x) \<and> (\<exists>x. v = Num x \<and> x < Fin 10.0) then l4
        else if (\<exists>x. v = Num x \<and> Fin 2.0 \<le> x) \<and> (\<exists>x. v = Num x \<and> x < Fin 4.0) then l3
        else if (\<exists>x. v = Num x \<and> Fin 1.25 \<le> x) \<and> (\<exists>x. v = Num x \<and> x < Fin 2.0) then l2
        else if (\<exists>x. v = Num x \<and> x < Fin 1.25) \<and> v \<noteq> Null then l1
        else l0)"
  shows "(v = Null \<longrightarrow> t = l0) \<and>
     (\<forall>x. v = Num x \<longrightarrow>
        (x < Fin 1.25 \<longrightarrow> t = l1) \<and>
        (Fin 1.25 \<le> x \<and> x < Fin 2.0 \<longrightarrow> t = l2) \<and>
        (Fin 2.0 \<le> x \<and> x < Fin 4.0 \<longrightarrow> t = l3) \<and>
        (Fin 4.0 \<le> x \<and> x < Fin 10.0 \<longrightarrow> t = l4) \<and>
        (Fin 10.0 \<le> x \<longrightarrow> t = l5))"
proof (cases v)
  case Null
  then show ?thesis using assms by simp
next
  case (Num y)
  then show ?thesis using assms by (cases y) auto
next
  case (Str s)
  then show ?thesis using assms by simp
qed

text \<open>
  C3, as stated for every row of every frame, fails: on a frame with a string in the radius
  column the comparison raises TypeError and no row gets a type.
\<close>

theorem classify_planet_type_raises_on_string:
  "classify_planet_type example_non_numeric = Inl TypeError"
  by (simp add: classify_planet_type_def where_not_def example_non_numeric_def
      example_columns_def example_row_def series_lt_def mask_and_def)

text \<open>
  C3, amended. On a frame whose \<open>pl_rade\<close> column is absent or holds only numbers and NaN
  or None values (what the coercion of the cleaning pass leaves), \<open>classify_planet_type\<close>
  returns one label per row, fixed by the row's radius alone: below 1.25 Rocky
  (Earth-like), from 1.25 to below 2.0 Super-Earth, from 2.0 to below 4.0 Mini-Neptune, from
  4.0 to below 10.0 Neptune-like, from 10.0 on Jupiter-like, and Unknown for a radius missing
  as NaN or None or for an absent column. The five ranges cover every number and exclude
  each other.
\<close>

theorem classify_planet_type_six_categories:
  assumes "numeric_col df ''pl_rade''"
  shows "\<exists>ptype. classify_planet_type df = Inr ptype \<and>
     length ptype = length (rows df) \<and>
     (\<forall>i < length (rows df).
        (val df (rows df ! i) ''pl_rade'' = Null \<longrightarrow> ptype ! i = ''Unknown'') \<and>
        (\<forall>x. val df (rows df ! i) ''pl_rade'' = Num x \<longrightarrow>
           (x < Fin 1.25 \<longrightarrow> ptype ! i = ''Rocky (Earth-like)'') \<and>
           (Fin 1.25 \<le> x \<and> x < Fin 2.0 \<longrightarrow> ptype ! i = ''Super-Earth'') \<and>
           (Fin 2.0 \<le> x \<and> x < Fin 4.0 \<longrightarrow> ptype ! i = ''Mini-Neptune'') \<and>
           (Fin 4.0 \<le> x \<and> x < Fin 10.0 \<longrightarrow> ptype ! i = ''Neptune-like'') \<and>
           (Fin 10.0 \<le> x \<longrightarrow> ptype ! i = ''Jupiter-like'')))"
proof (cases "''pl_rade'' \<in> set (columns df)")
  case True
  have v: "val df r ''pl_rade'' = cells r ''pl_rade''" for r
    using True by (simp only: val_def if_True)
  show ?thesis
    unfolding classify_planet_type_numeric [OF assms True] v
    apply (rule exI, intro conjI, rule refl)
     apply (simp only: length_map)
    apply (intro allI impI)
    apply (simp only: nth_map)
    apply (rule label_cases)
    apply (rule refl)
    done
next
  case False
  have v: "val df r ''pl_rade'' = Null" for r
    using False by (simp only: val_def if_False)
  have c: "classify_planet_type df = Inr (map (\<lambda>r. ''Unknown'') (rows df))"
    using False unfolding classify_planet_type_def Let_def by (simp only: if_False)
  show ?thesis
    unfolding c v
    by (rule exI, intro conjI, rule refl) simp_all
qed

theorem classify_planet_type_six_categories_witness:
  "numeric_col example_frame ''pl_rade'' \<and>
   classify_planet_type example_frame = Inr [''Super-Earth'', ''Jupiter-like'']"
proof -
  have h: "numeric_col example_frame ''pl_rade''"
    by (simp add: numeric_col_def example_frame_def example_row_def)
  from classify_planet_type_six_categories [OF h] obtain ptype where
    s: "classify_planet_type example_frame = Inr ptype"
    and l: "length ptype = length (rows example_frame)"
    and v: "\<forall>i < length (rows example_frame).
        (val example_frame (rows example_frame ! i) ''pl_rade'' = Null \<longrightarrow>
           ptype ! i = ''Unknown'') \<and>
        (\<forall>x. val example_frame (rows example_frame ! i) ''pl_rade'' = Num x \<longrightarrow>
           (x < Fin 1.25 \<longrightarrow> ptype ! i = ''Rocky (Earth-like)'') \<and>
           (Fin 1.25 \<le> x \<and> x < Fin 2.0 \<longrightarrow> ptype ! i = ''Super-Earth'') \<and>
           (Fin 2.0 \<le> x \<and> x < Fin 4.0 \<longrightarrow> ptype ! i = ''Mini-Neptune'') \<and>
           (Fin 4.0 \<le> x \<and> x < Fin 10.0 \<longrightarrow> ptype ! i = ''Neptune-like'') \<and>
           (Fin 10.0 \<le> x \<longrightarrow> ptype ! i = ''Jupiter-like''))"
    by blast
  have r0: "val example_frame (rows example_frame ! 0) ''pl_rade'' = Num (Fin 1.63)"
    and r1: "val example_frame (rows example_frame ! 1) ''pl_rade'' = Num (Fin 14.2)"
    by (simp_all add: example_frame_def example_row_def example_columns_def val_def)
  from v have "\<forall>x. val example_frame (rows example_frame ! 0) ''pl_rade'' = Num x \<longrightarrow>
      (Fin 1.25 \<le> x \<and> x < Fin 2.0 \<longrightarrow> ptype ! 0 = ''Super-Earth'')"
    by (simp add: example_frame_def)
  with r0 have p0: "ptype ! 0 = ''Super-Earth''" by simp
  from v have "\<forall>x. val example_frame (rows example_frame ! 1) ''pl_rade'' = Num x \<longrightarrow>
      (Fin 10.0 \<le> x \<longrightarrow> ptype ! 1 = ''Jupiter-like'')"
    by (simp add: example_frame_def)
  with r1 have p1: "ptype ! 1 = ''Jupiter-like''" by simp
  from l have "length ptype = 2"
    by (simp add: example_frame_def)
  with p0 p1 have "ptype = [''Super-Earth'', ''Jupiter-like'']"
    by (cases ptype; cases "tl ptype"; cases "tl (tl ptype)") auto
  with s h show ?thesis by simp
qed

section \<open>Frame operations\<close>

lemma coerce_idem: "coerce parse (coerce parse v) = coerce parse v"
  by (cases v) (auto simp: coerce_def split: option.splits)

lemma coerce_not_Str: "\<not> is_Str (coerce parse v)"
  by (cases v) (auto simp: coerce_def split: option.splits)

lemma rows_setcol_map:
  "rows (setcol c (map g (rows df)) df) = map (\<lambda>r. r\<lparr>cells := (cells r)(c := g r)\<rparr>) (rows df)"
  by (simp add: setcol_def zip_map2 zip_same_conv_map)

lemma columns_setcol:
  "columns (setcol c s df) = (if c \<in> set (columns df) then columns df else columns df @ [c])"
  by (simp add: setcol_def)

lemma setcol_map_eq:
  "setcol c (map g (rows df)) df =
    \<lparr>columns = (if c \<in> set (columns df) then columns df else columns df @ [c]),
     rows = map (\<lambda>r. r\<lparr>cells := (cells r)(c := g r)\<rparr>) (rows df)\<rparr>"
  by (simp add: setcol_def zip_map2 zip_same_conv_map)

lemma coerce_columns_Cons:
  "coerce_columns parse (c # cs) df =
     coerce_columns parse cs
       (if c \<in> set (columns df)
        then setcol c (to_numeric parse (map (\<lambda>r. cells r c) (rows df))) df else df)"
  by (simp add: coerce_columns_def)

lemma coerce_columns_eq:
  "coerce_columns parse cs df =
     df\<lparr>rows := map (coerce_row parse (set cs \<inter> set (columns df))) (rows df)\<rparr>"
proof (induction cs arbitrary: df)
  case Nil
  have "coerce_row parse {} = (\<lambda>r. r)"
    by (rule ext) (simp add: coerce_row_def)
  then show ?case by (simp add: coerce_columns_def)
next
  case (Cons c cs)
  show ?case
  proof (cases "c \<in> set (columns df)")
    case True
    let ?d = "setcol c (to_numeric parse (map (\<lambda>r. cells r c) (rows df))) df"
    have d: "?d = \<lparr>columns = columns df,
        rows = map (\<lambda>r. r\<lparr>cells := (cells r)(c := coerce parse (cells r c))\<rparr>) (rows df)\<rparr>"
      using True by (simp add: to_numeric_def setcol_map_eq [of c "\<lambda>r. coerce parse (cells r c)" df, simplified] comp_def)
    have "coerce_row parse (set cs \<inter> set (columns df))
            (r\<lparr>cells := (cells r)(c := coerce parse (cells r c))\<rparr>) =
          coerce_row parse (set (c # cs) \<inter> set (columns df)) r" for r
      using True by (intro row.equality) (auto simp: coerce_row_def coerce_idem intro!: ext)
    then show ?thesis
      using True by (simp add: coerce_columns_Cons Cons.IH d comp_def)
  next
    case False
    then have "set (c # cs) \<inter> set (columns df) = set cs \<inter> set (columns df)"
      by auto
    then show ?thesis
      using False by (simp add: coerce_columns_Cons Cons.IH)
  qed
qed


lemma cut_cell_numeric:
  "\<not> is_Str v \<Longrightarrow> cut_cell bins labels v = Inr (projr (cut_cell bins labels v))"
  by (cases v) (simp_all add: Let_def)

lemma cut_numeric:
  assumes "\<forall>r \<in> set rs. \<not> is_Str (f r)"
  shows "cut (map f rs) bins labels = Inr (map (\<lambda>r. projr (cut_cell bins labels (f r))) rs)"
proof -
  have "mapE (cut_cell bins labels) (map f rs) =
      Inr (map (\<lambda>v. projr (cut_cell bins labels v)) (map f rs))"
    using assms by (intro mapE_Inr) (auto intro: cut_cell_numeric)
  then show ?thesis
    by (simp add: cut_def comp_def)
qed

lemma calculate_habitability_score_returns:
  assumes "numeric_col df ''pl_rade''" and "numeric_col df ''pl_eqt''"
    and "numeric_col df ''pl_orbper''"
  shows "\<exists>g. calculate_habitability_score df = Inr (map g (rows df))"
  unfolding calculate_habitability_score_numeric [OF assms] by blast

lemma classify_planet_type_returns:
  assumes "numeric_col df ''pl_rade''"
  shows "\<exists>g. classify_planet_type df = Inr (map g (rows df))"
proof (cases "''pl_rade'' \<in> set (columns df)")
  case True
  show ?thesis
    unfolding classify_planet_type_numeric [OF assms True] by blast
next
  case False
  then have "classify_planet_type df = Inr (map (\<lambda>r. ''Unknown'') (rows df))"
    unfolding classify_planet_type_def Let_def by (simp only: if_False)
  then show ?thesis by blast
qed

lemma numeric_col_setcol_other:
  assumes "numeric_col df c" and "c \<noteq> c'"
  shows "numeric_col (setcol c' (map g (rows df)) df) c"
  using assms by (auto simp: numeric_col_def setcol_map_eq)

lemma getcol_present: "c \<in> set (columns df) \<Longrightarrow> getcol df c = Inr (map (\<lambda>r. cells r c) (rows df))"
  by (simp add: getcol_def)

lemma getcol_absent: "c \<notin> set (columns df) \<Longrightarrow> getcol df c = Inl (KeyError c)"
  by (simp add: getcol_def)

lemma rows_setcol_over:
  "rows (setcol c (map g (rows d)) d) = map (\<lambda>r. r\<lparr>cells := (cells r)(c := g r)\<rparr>) (rows d)"
  by (simp add: rows_setcol_map)

lemma set_columns_setcol: "set (columns (setcol c s df)) = insert c (set (columns df))"
  by (auto simp: setcol_def)

lemma insert_chain5:
  "insert e (insert d (insert c (insert b (insert a S)))) = S \<union> {a, b, c, d, e}"
  by auto

lemma add_derived_rows:
  assumes n1: "numeric_col df ''pl_rade''" and n2: "numeric_col df ''pl_eqt''"
    and n3: "numeric_col df ''pl_orbper''" and n4: "numeric_col df ''disc_year''"
    and n5: "numeric_col df ''sy_dist''"
    and p1: "''disc_year'' \<in> set (columns df)" and p2: "''sy_dist'' \<in> set (columns df)"
  shows "\<exists>D cs. add_derived now df = Inr \<lparr>columns = cs, rows = map D (rows df)\<rparr> \<and>
      (\<forall>r. idx (D r) = idx r \<and>
           (\<forall>c. c \<notin> {''habitability_score'', ''planet_type'', ''discovery_era'',
                      ''distance_category'', ''data_fetched_at''} \<longrightarrow> cells (D r) c = cells r c) \<and>
           cells (D r) ''discovery_era'' =
             projr (cut_cell era_bins era_labels (cells r ''disc_year'')) \<and>
           cells (D r) ''distance_category'' =
             projr (cut_cell distance_bins distance_labels (cells r ''sy_dist''))) \<and>
      set cs = set (columns df) \<union> {''habitability_score'', ''planet_type'', ''discovery_era'',
         ''distance_category'', ''data_fetched_at''}"
proof -
  obtain g1 where s1: "calculate_habitability_score df = Inr (map g1 (rows df))"
    using calculate_habitability_score_returns [OF n1 n2 n3] by blast
  define df1 where "df1 = setcol ''habitability_score'' (map (\<lambda>r. Num (Fin (of_int (g1 r)))) (rows df)) df"
  have m1: "numeric_col df1 ''pl_rade''" "numeric_col df1 ''disc_year''" "numeric_col df1 ''sy_dist''"
    unfolding df1_def using n1 n4 n5 by (auto intro!: numeric_col_setcol_other)
  have c1: "''disc_year'' \<in> set (columns df1)" "''sy_dist'' \<in> set (columns df1)"
    unfolding df1_def using p1 p2 by (simp_all add: columns_setcol)
  obtain g2 where s2: "classify_planet_type df1 = Inr (map g2 (rows df1))"
    using classify_planet_type_returns [OF m1(1)] by blast
  define df2 where "df2 = setcol ''planet_type'' (map (\<lambda>r. Str (g2 r)) (rows df1)) df1"
  have m2: "numeric_col df2 ''disc_year''" "numeric_col df2 ''sy_dist''"
    unfolding df2_def using m1 by (auto intro!: numeric_col_setcol_other)
  have c2: "''disc_year'' \<in> set (columns df2)" "''sy_dist'' \<in> set (columns df2)"
    unfolding df2_def using c1 by (simp_all add: columns_setcol)
  have s3: "getcol df2 ''disc_year'' = Inr (map (\<lambda>r. cells r ''disc_year'') (rows df2))"
    using c2 by (simp add: getcol_present)
  have s4: "cut (map (\<lambda>r. cells r ''disc_year'') (rows df2)) era_bins era_labels =
      Inr (map (\<lambda>r. projr (cut_cell era_bins era_labels (cells r ''disc_year''))) (rows df2))"
    using m2(1) c2(1) by (intro cut_numeric) (simp add: numeric_col_def)
  define df3 where "df3 = setcol ''discovery_era''
     (map (\<lambda>r. projr (cut_cell era_bins era_labels (cells r ''disc_year''))) (rows df2)) df2"
  have m3: "numeric_col df3 ''sy_dist''"
    unfolding df3_def using m2 by (auto intro!: numeric_col_setcol_other)
  have c3: "''sy_dist'' \<in> set (columns df3)"
    unfolding df3_def using c2 by (simp_all add: columns_setcol)
  have s5: "getcol df3 ''sy_dist'' = Inr (map (\<lambda>r. cells r ''sy_dist'') (rows df3))"
    using c3 by (simp add: getcol_present)
  have s6: "cut (map (\<lambda>r. cells r ''sy_dist'') (rows df3)) distance_bins distance_labels =
      Inr (map (\<lambda>r. projr (cut_cell distance_bins distance_labels (cells r ''sy_dist''))) (rows df3))"
    using m3 c3 by (intro cut_numeric) (simp add: numeric_col_def)
  define df4 where "df4 = setcol ''distance_category''
     (map (\<lambda>r. projr (cut_cell distance_bins distance_labels (cells r ''sy_dist''))) (rows df3)) df3"
  define df5 where "df5 = setcol ''data_fetched_at'' (map (\<lambda>r. Str now) (rows df4)) df4"
  have res: "add_derived now df = Inr df5"
    unfolding add_derived_def df5_def
    by (simp add: s1 df1_def [symmetric] comp_def s2 df2_def [symmetric] s3 s4 df3_def [symmetric]
        s5 s6 df4_def [symmetric] Let_def)
  define U1 where "U1 = (\<lambda>r. r\<lparr>cells := (cells r)(''habitability_score'' := Num (Fin (of_int (g1 r))))\<rparr>)"
  define U2 where "U2 = (\<lambda>r. r\<lparr>cells := (cells r)(''planet_type'' := Str (g2 r))\<rparr>)"
  define U3 where "U3 = (\<lambda>r::row. r\<lparr>cells := (cells r)(''discovery_era'' :=
      projr (cut_cell era_bins era_labels (cells r ''disc_year'')))\<rparr>)"
  define U4 where "U4 = (\<lambda>r::row. r\<lparr>cells := (cells r)(''distance_category'' :=
      projr (cut_cell distance_bins distance_labels (cells r ''sy_dist'')))\<rparr>)"
  define U5 where "U5 = (\<lambda>r::row. r\<lparr>cells := (cells r)(''data_fetched_at'' := Str now)\<rparr>)"
  define D where "D = (\<lambda>r. U5 (U4 (U3 (U2 (U1 r)))))"
  have r1: "rows df1 = map U1 (rows df)"
    unfolding df1_def U1_def by (rule rows_setcol_over)
  have "rows df2 = map U2 (rows df1)"
    unfolding df2_def U2_def by (rule rows_setcol_over)
  then have r2: "rows df2 = map (\<lambda>r. U2 (U1 r)) (rows df)"
    by (simp add: r1 comp_def)
  have "rows df3 = map U3 (rows df2)"
    unfolding df3_def U3_def by (rule rows_setcol_over)
  then have r3: "rows df3 = map (\<lambda>r. U3 (U2 (U1 r))) (rows df)"
    by (simp add: r2 comp_def)
  have "rows df4 = map U4 (rows df3)"
    unfolding df4_def U4_def by (rule rows_setcol_over)
  then have r4: "rows df4 = map (\<lambda>r. U4 (U3 (U2 (U1 r)))) (rows df)"
    by (simp add: r3 comp_def)
  have "rows df5 = map U5 (rows df4)"
    unfolding df5_def U5_def by (rule rows_setcol_over)
  then have r5: "rows df5 = map D (rows df)"
    by (simp add: r4 comp_def D_def)
  have k1: "set (columns df1) = insert ''habitability_score'' (set (columns df))"
    unfolding df1_def by (rule set_columns_setcol)
  have k2: "set (columns df2) = insert ''planet_type'' (set (columns df1))"
    unfolding df2_def by (rule set_columns_setcol)
  have k3: "set (columns df3) = insert ''discovery_era'' (set (columns df2))"
    unfolding df3_def by (rule set_columns_setcol)
  have k4: "set (columns df4) = insert ''distance_category'' (set (columns df3))"
    unfolding df4_def by (rule set_columns_setcol)
  have k5: "set (columns df5) = insert ''data_fetched_at'' (set (columns df4))"
    unfolding df5_def by (rule set_columns_setcol)
  have cs: "set (columns df5) = set (columns df) \<union> {''habitability_score'', ''planet_type'',
      ''discovery_era'', ''distance_category'', ''data_fetched_at''}"
    unfolding k5 k4 k3 k2 k1 by (rule insert_chain5)
  have i: "idx (U1 x) = idx x" "idx (U2 x) = idx x" "idx (U3 x) = idx x" "idx (U4 x) = idx x"
    "idx (U5 x) = idx x" for x
    by (simp_all add: U1_def U2_def U3_def U4_def U5_def)
  have o1: "c \<noteq> ''habitability_score'' \<Longrightarrow> cells (U1 x) c = cells x c" for x c
    by (simp add: U1_def)
  have o2: "c \<noteq> ''planet_type'' \<Longrightarrow> cells (U2 x) c = cells x c" for x c
    by (simp add: U2_def)
  have o3: "c \<noteq> ''discovery_era'' \<Longrightarrow> cells (U3 x) c = cells x c" for x c
    by (simp add: U3_def)
  have o4: "c \<noteq> ''distance_category'' \<Longrightarrow> cells (U4 x) c = cells x c" for x c
    by (simp add: U4_def)
  have o5: "c \<noteq> ''data_fetched_at'' \<Longrightarrow> cells (U5 x) c = cells x c" for x c
    by (simp add: U5_def)
  have e3: "cells (U3 x) ''discovery_era'' =
      projr (cut_cell era_bins era_labels (cells x ''disc_year''))" for x
    by (simp add: U3_def)
  have e4: "cells (U4 x) ''distance_category'' =
      projr (cut_cell distance_bins distance_labels (cells x ''sy_dist''))" for x
    by (simp add: U4_def)
  have d1: "idx (D r) = idx r" for r
    by (simp only: D_def i)
  have d2: "cells (D r) c = cells r c"
    if "c \<notin> {''habitability_score'', ''planet_type'', ''discovery_era'',
       ''distance_category'', ''data_fetched_at''}" for r c
  proof -
    from that have h: "c \<noteq> ''habitability_score''" "c \<noteq> ''planet_type''" "c \<noteq> ''discovery_era''"
      "c \<noteq> ''distance_category''" "c \<noteq> ''data_fetched_at''"
      by simp_all
    show ?thesis
      by (simp only: D_def o1 [OF h(1)] o2 [OF h(2)] o3 [OF h(3)] o4 [OF h(4)] o5 [OF h(5)])
  qed
  have d3: "cells (D r) ''discovery_era'' =
      projr (cut_cell era_bins era_labels (cells r ''disc_year''))" for r
  proof -
    have "cells (D r) ''discovery_era'' = cells (U3 (U2 (U1 r))) ''discovery_era''"
      unfolding D_def by (subst o5, simp, subst o4, simp, rule refl)
    also have "\<dots> = projr (cut_cell era_bins era_labels (cells (U2 (U1 r)) ''disc_year''))"
      by (rule e3)
    also have "cells (U2 (U1 r)) ''disc_year'' = cells r ''disc_year''"
      by (subst o2, simp, subst o1, simp, rule refl)
    finally show ?thesis .
  qed
  have d4: "cells (D r) ''distance_category'' =
      projr (cut_cell distance_bins distance_labels (cells r ''sy_dist''))" for r
  proof -
    have "cells (D r) ''distance_category'' = cells (U4 (U3 (U2 (U1 r)))) ''distance_category''"
      unfolding D_def by (subst o5, simp, rule refl)
    also have "\<dots> = projr (cut_cell distance_bins distance_labels
        (cells (U3 (U2 (U1 r))) ''sy_dist''))"
      by (rule e4)
    also have "cells (U3 (U2 (U1 r))) ''sy_dist'' = cells r ''sy_dist''"
      by (subst o3, simp, subst o2, simp, subst o1, simp, rule refl)
    finally show ?thesis .
  qed
  have eq: "df5 = \<lparr>columns = columns df5, rows = map D (rows df)\<rparr>"
    using r5 by (cases df5) simp
  have r: "add_derived now df = Inr \<lparr>columns = columns df5, rows = map D (rows df)\<rparr>"
    using res eq by simp
  have props: "\<forall>r. idx (D r) = idx r \<and>
           (\<forall>c. c \<notin> {''habitability_score'', ''planet_type'', ''discovery_era'',
                      ''distance_category'', ''data_fetched_at''} \<longrightarrow> cells (D r) c = cells r c) \<and>
           cells (D r) ''discovery_era'' =
             projr (cut_cell era_bins era_labels (cells r ''disc_year'')) \<and>
           cells (D r) ''distance_category'' =
             projr (cut_cell distance_bins distance_labels (cells r ''sy_dist''))"
    using d1 d2 d3 d4 by (intro allI conjI impI)
  show ?thesis
    by (rule exI [of _ D], rule exI [of _ "columns df5"], intro conjI, rule r, rule props, rule cs)
qed

lemma drop_duplicates_present:
  assumes "c \<in> set (columns df)"
  shows "drop_duplicates c df = Inr (df\<lparr>rows := keep_first (\<lambda>r. cells r c) [] (rows df)\<rparr>)"
proof (cases "empty_df df")
  case True
  with assms have "rows df = []" by (auto simp: empty_df_def)
  then have "df\<lparr>rows := keep_first (\<lambda>r. cells r c) [] (rows df)\<rparr> = df"
    by (cases df) simp
  with True show ?thesis by (simp add: drop_duplicates_def)
next
  case False
  with assms show ?thesis by (simp add: drop_duplicates_def)
qed

section \<open>Keeping first occurrences\<close>

lemma keep_first_subseq: "subseq (keep_first k seen xs) xs"
  by (induction xs arbitrary: seen) auto

lemma keep_first_keys: "e \<in> set (keep_first k seen xs) \<Longrightarrow> k e \<notin> set seen \<and> e \<in> set xs"
proof (induction xs arbitrary: seen)
  case Nil
  then show ?case by simp
next
  case (Cons x xs)
  show ?case
  proof (cases "k x \<in> set seen")
    case True
    with Cons.prems Cons.IH [of seen] show ?thesis by simp
  next
    case False
    with Cons.prems have "e = x \<or> e \<in> set (keep_first k (k x # seen) xs)" by simp
    then show ?thesis
      using False Cons.IH [of "k x # seen"] by auto
  qed
qed

lemma keep_first_distinct: "distinct (map k (keep_first k seen xs))"
proof (induction xs arbitrary: seen)
  case Nil
  then show ?case by simp
next
  case (Cons x xs)
  then show ?case
    by (auto dest: keep_first_keys)
qed

lemma keep_first_first:
  "e \<in> set (keep_first k seen xs) \<Longrightarrow>
     \<exists>as bs. xs = as @ e # bs \<and> (\<forall>a \<in> set as. k a \<noteq> k e)"
proof (induction xs arbitrary: seen)
  case Nil
  then show ?case by simp
next
  case (Cons x xs)
  show ?case
  proof (cases "k x \<in> set seen")
    case True
    with Cons.prems have e: "e \<in> set (keep_first k seen xs)" by simp
    from Cons.IH [OF e] obtain as bs where s: "xs = as @ e # bs" "\<forall>a \<in> set as. k a \<noteq> k e"
      by blast
    from keep_first_keys [OF e] True have "k x \<noteq> k e" by auto
    with s have "x # xs = (x # as) @ e # bs \<and> (\<forall>a \<in> set (x # as). k a \<noteq> k e)" by simp
    then show ?thesis by blast
  next
    case False
    with Cons.prems have "e = x \<or> e \<in> set (keep_first k (k x # seen) xs)" by simp
    then show ?thesis
    proof
      assume "e = x"
      then have "x # xs = [] @ e # xs \<and> (\<forall>a \<in> set []. k a \<noteq> k e)" by simp
      then show ?thesis by blast
    next
      assume e: "e \<in> set (keep_first k (k x # seen) xs)"
      from Cons.IH [OF e] obtain as bs where s: "xs = as @ e # bs" "\<forall>a \<in> set as. k a \<noteq> k e"
        by blast
      from keep_first_keys [OF e] have "k x \<noteq> k e" by auto
      with s have "x # xs = (x # as) @ e # bs \<and> (\<forall>a \<in> set (x # as). k a \<noteq> k e)" by simp
      then show ?thesis by blast
    qed
  qed
qed

lemma keep_first_map: "keep_first k seen (map h xs) = map h (keep_first (\<lambda>x. k (h x)) seen xs)"
  by (induction xs arbitrary: seen) auto

lemma filter_split_first:
  assumes "filter P xs = as @ e # bs"
  shows "\<exists>as' bs'. xs = as' @ e # bs' \<and> filter P as' = as"
  using assms
proof (induction xs arbitrary: as)
  case Nil
  then show ?case by simp
next
  case (Cons x xs)
  show ?case
  proof (cases "P x")
    case False
    with Cons.prems have "filter P xs = as @ e # bs" by simp
    from Cons.IH [OF this] obtain as' bs' where "xs = as' @ e # bs'" "filter P as' = as" by blast
    with False have "x # xs = (x # as') @ e # bs' \<and> filter P (x # as') = as" by simp
    then show ?thesis by blast
  next
    case True
    show ?thesis
    proof (cases as)
      case Nil
      with True Cons.prems have "x = e" by simp
      then have "x # xs = [] @ e # xs \<and> filter P [] = as" using Nil by simp
      then show ?thesis by blast
    next
      case (Cons a as2)
      with True Cons.prems have x: "x = a" and "filter P xs = as2 @ e # bs" by simp_all
      from Cons.IH [OF this(2)] obtain as' bs' where "xs = as' @ e # bs'" "filter P as' = as2" by blast
      with True x Cons have "x # xs = (x # as') @ e # bs' \<and> filter P (x # as') = as" by simp
      then show ?thesis by blast
    qed
  qed
qed

section \<open>The cleaning pass of data\_fetcher.py\<close>

lemma cells_coerce_row:
  "cells (coerce_row parse S r) c = (if c \<in> S then coerce parse (cells r c) else cells r c)"
  by (simp add: coerce_row_def)

lemma idx_coerce_row: "idx (coerce_row parse S r) = idx r"
  by (simp add: coerce_row_def)

lemma pl_name_not_numeric: "''pl_name'' \<notin> set numeric_columns"
  by (simp add: numeric_columns_def)

lemma core_coerce_row: "''pl_name'' \<notin> S \<Longrightarrow> core (coerce_row parse S r) = core r"
  by (simp add: core_def coerce_row_def)

lemma clean_prefix:
  assumes "''pl_name'' \<in> set (columns df)"
  shows "dropna_subset [''pl_name''] (dropna_all (coerce_columns parse numeric_columns df)) =
     Inr (df\<lparr>rows := filter (\<lambda>r. cells r ''pl_name'' \<noteq> Null)
              (map (coerce_row parse (set numeric_columns \<inter> set (columns df))) (rows df))\<rparr>)"
proof -
  have "(\<lambda>r. (\<exists>c \<in> set (columns df). cells r c \<noteq> Null) \<and> cells r ''pl_name'' \<noteq> Null) =
        (\<lambda>r::row. cells r ''pl_name'' \<noteq> Null)"
    using assms by (intro ext) blast
  then show ?thesis
    using assms
    by (simp add: coerce_columns_eq dropna_all_def dropna_subset_def)
qed

lemma clean_exoplanet_data_unfold:
  assumes "\<not> empty_df df" and "''pl_name'' \<in> set (columns df)"
  shows "clean_exoplanet_data parse now df =
     add_derived now (df\<lparr>rows := keep_first (\<lambda>r. cells r ''pl_name'') []
        (filter (\<lambda>r. cells r ''pl_name'' \<noteq> Null)
           (map (coerce_row parse (set numeric_columns \<inter> set (columns df))) (rows df)))\<rparr>)"
  using assms
  by (simp add: clean_exoplanet_data_def Let_def clean_prefix drop_duplicates_present)

lemma clean_exoplanet_data_no_name:
  assumes "\<not> empty_df df" and "''pl_name'' \<notin> set (columns df)"
  shows "clean_exoplanet_data parse now df = Inl (KeyError ''pl_name'')"
  using assms
  by (simp add: clean_exoplanet_data_def Let_def coerce_columns_eq dropna_all_def dropna_subset_def)

lemma numeric_after_coercion:
  assumes "c \<in> set numeric_columns"
    and "set (rows d) \<subseteq> coerce_row parse (set numeric_columns \<inter> set (columns d)) ` R"
  shows "numeric_col d c"
  using assms
  by (auto simp: numeric_col_def cells_coerce_row coerce_not_Str)

lemma add_derived_Inr_columns:
  assumes "add_derived now df = Inr out"
  shows "''disc_year'' \<in> set (columns df) \<and> ''sy_dist'' \<in> set (columns df)"
proof -
  from assms obtain score where
    a1: "calculate_habitability_score df = Inr score"
    by (cases "calculate_habitability_score df") (simp_all add: add_derived_def)
  define df1 where "df1 = setcol ''habitability_score'' (map (\<lambda>n. Num (Fin (of_int n))) score) df"
  from assms a1 obtain ptype where a2: "classify_planet_type df1 = Inr ptype"
    by (cases "classify_planet_type df1") (simp_all add: add_derived_def df1_def Let_def)
  define df2 where "df2 = setcol ''planet_type'' (map Str ptype) df1"
  from assms a1 a2 obtain years where a3: "getcol df2 ''disc_year'' = Inr years"
    by (cases "getcol df2 ''disc_year''")
       (simp_all add: add_derived_def df1_def [symmetric] Let_def df2_def [symmetric])
  from assms a1 a2 a3 obtain era where a4: "cut years era_bins era_labels = Inr era"
    by (cases "cut years era_bins era_labels")
       (simp_all add: add_derived_def df1_def [symmetric] Let_def df2_def [symmetric])
  define df3 where "df3 = setcol ''discovery_era'' era df2"
  from assms a1 a2 a3 a4 obtain dists where a5: "getcol df3 ''sy_dist'' = Inr dists"
    by (cases "getcol df3 ''sy_dist''")
       (simp_all add: add_derived_def df1_def [symmetric] Let_def df2_def [symmetric]
          df3_def [symmetric])
  from a3 have "''disc_year'' \<in> set (columns df2)"
    by (auto simp: getcol_def split: if_splits)
  then have 1: "''disc_year'' \<in> set (columns df)"
    by (simp add: df2_def df1_def set_columns_setcol)
  from a5 have "''sy_dist'' \<in> set (columns df3)"
    by (auto simp: getcol_def split: if_splits)
  then have 2: "''sy_dist'' \<in> set (columns df)"
    by (simp add: df3_def df2_def df1_def set_columns_setcol)
  from 1 2 show ?thesis ..
qed


lemma clean_exoplanet_data_rows:
  assumes ne: "\<not> empty_df df" and p0: "''pl_name'' \<in> set (columns df)"
    and p1: "''disc_year'' \<in> set (columns df)" and p2: "''sy_dist'' \<in> set (columns df)"
  shows "\<exists>D cs. clean_exoplanet_data parse now df =
        Inr \<lparr>columns = cs,
             rows = map D (keep_first (\<lambda>r. cells r ''pl_name'') []
               (filter (\<lambda>r. cells r ''pl_name'' \<noteq> Null)
                 (map (coerce_row parse (set numeric_columns \<inter> set (columns df))) (rows df))))\<rparr> \<and>
      (\<forall>r. idx (D r) = idx r \<and>
           (\<forall>c. c \<notin> {''habitability_score'', ''planet_type'', ''discovery_era'',
                      ''distance_category'', ''data_fetched_at''} \<longrightarrow> cells (D r) c = cells r c) \<and>
           cells (D r) ''discovery_era'' =
             projr (cut_cell era_bins era_labels (cells r ''disc_year'')) \<and>
           cells (D r) ''distance_category'' =
             projr (cut_cell distance_bins distance_labels (cells r ''sy_dist''))) \<and>
      set cs = set (columns df) \<union> {''habitability_score'', ''planet_type'', ''discovery_era'',
         ''distance_category'', ''data_fetched_at''}"
proof -
  define K where "K = keep_first (\<lambda>r. cells r ''pl_name'') []
      (filter (\<lambda>r. cells r ''pl_name'' \<noteq> Null)
         (map (coerce_row parse (set numeric_columns \<inter> set (columns df))) (rows df)))"
  define d4 where "d4 = df\<lparr>rows := K\<rparr>"
  have c4: "columns d4 = columns df" and r4: "rows d4 = K"
    by (simp_all add: d4_def)
  have sub: "set (rows d4) \<subseteq>
      coerce_row parse (set numeric_columns \<inter> set (columns d4)) ` set (rows df)"
    unfolding r4 c4 K_def by (auto dest!: keep_first_keys)
  have n: "numeric_col d4 ''pl_rade''" "numeric_col d4 ''pl_eqt''" "numeric_col d4 ''pl_orbper''"
    "numeric_col d4 ''disc_year''" "numeric_col d4 ''sy_dist''"
    by (rule numeric_after_coercion [OF _ sub], simp add: numeric_columns_def)+
  have u: "clean_exoplanet_data parse now df = add_derived now d4"
    unfolding d4_def K_def by (rule clean_exoplanet_data_unfold [OF ne p0])
  from add_derived_rows [OF n, of now] p1 p2 show ?thesis
    unfolding u c4 r4 K_def by simp
qed

lemma clean_exoplanet_data_Inr_columns:
  assumes "clean_exoplanet_data parse now df = Inr out" and "\<not> empty_df df"
  shows "''pl_name'' \<in> set (columns df) \<and> ''disc_year'' \<in> set (columns df) \<and>
     ''sy_dist'' \<in> set (columns df)"
proof -
  have p0: "''pl_name'' \<in> set (columns df)"
    using assms clean_exoplanet_data_no_name [of df parse now] by auto
  from assms have "add_derived now (df\<lparr>rows := keep_first (\<lambda>r. cells r ''pl_name'') []
        (filter (\<lambda>r. cells r ''pl_name'' \<noteq> Null)
           (map (coerce_row parse (set numeric_columns \<inter> set (columns df))) (rows df)))\<rparr>) = Inr out"
    by (simp only: clean_exoplanet_data_unfold [OF assms(2) p0])
  from add_derived_Inr_columns [OF this] p0 show ?thesis
    by simp
qed

lemma clean_exoplanet_data_empty: "empty_df df \<Longrightarrow> clean_exoplanet_data parse now df = Inr df"
  by (simp add: clean_exoplanet_data_def)

lemma clean_exoplanet_data_derived_cells:
  assumes "clean_exoplanet_data parse now df = Inr out" and "r \<in> set (rows out)"
  shows "\<not> is_Str (val out r ''disc_year'') \<and> \<not> is_Str (val out r ''sy_dist'') \<and>
     val out r ''discovery_era'' = projr (cut_cell era_bins era_labels (val out r ''disc_year'')) \<and>
     val out r ''distance_category'' =
       projr (cut_cell distance_bins distance_labels (val out r ''sy_dist''))"
proof (cases "empty_df df")
  case True
  with assms have o: "out = df" by (simp add: clean_exoplanet_data_empty)
  with assms(2) True have "columns out = []" by (auto simp: empty_df_def)
  then show ?thesis by (simp add: val_def)
next
  case False
  from clean_exoplanet_data_Inr_columns [OF assms(1) False]
  have p: "''pl_name'' \<in> set (columns df)" "''disc_year'' \<in> set (columns df)"
    "''sy_dist'' \<in> set (columns df)" by simp_all
  let ?h = "coerce_row parse (set numeric_columns \<inter> set (columns df))"
  from clean_exoplanet_data_rows [OF False p, of parse now] assms(1)
  obtain D cs where
    o: "out = \<lparr>columns = cs, rows = map D (keep_first (\<lambda>r. cells r ''pl_name'') []
               (filter (\<lambda>r. cells r ''pl_name'' \<noteq> Null) (map ?h (rows df))))\<rparr>"
    and i: "\<And>c r. c \<notin> {''habitability_score'', ''planet_type'', ''discovery_era'',
                      ''distance_category'', ''data_fetched_at''} \<Longrightarrow> cells (D r) c = cells r c"
    and e: "\<And>r. cells (D r) ''discovery_era'' =
             projr (cut_cell era_bins era_labels (cells r ''disc_year''))"
    and d: "\<And>r. cells (D r) ''distance_category'' =
             projr (cut_cell distance_bins distance_labels (cells r ''sy_dist''))"
    and cs: "set cs = set (columns df) \<union> {''habitability_score'', ''planet_type'',
         ''discovery_era'', ''distance_category'', ''data_fetched_at''}"
    by auto
  from assms(2) o obtain r0 where r: "r = D (?h r0)"
    by (auto dest!: keep_first_keys)
  have y: "val out r ''disc_year'' = coerce parse (cells r0 ''disc_year'')"
    using p(2) by (simp add: val_def o cs r i cells_coerce_row numeric_columns_def)
  have s: "val out r ''sy_dist'' = coerce parse (cells r0 ''sy_dist'')"
    using p(3) by (simp add: val_def o cs r i cells_coerce_row numeric_columns_def)
  have y': "cells (?h r0) ''disc_year'' = coerce parse (cells r0 ''disc_year'')"
    using p(2) by (simp add: cells_coerce_row numeric_columns_def)
  have s': "cells (?h r0) ''sy_dist'' = coerce parse (cells r0 ''sy_dist'')"
    using p(3) by (simp add: cells_coerce_row numeric_columns_def)
  have "val out r ''discovery_era'' = cells (D (?h r0)) ''discovery_era''"
    by (simp add: val_def o cs r)
  then have E: "val out r ''discovery_era'' =
      projr (cut_cell era_bins era_labels (val out r ''disc_year''))"
    by (simp only: e y y')
  have "val out r ''distance_category'' = cells (D (?h r0)) ''distance_category''"
    by (simp add: val_def o cs r)
  then have C: "val out r ''distance_category'' =
      projr (cut_cell distance_bins distance_labels (val out r ''sy_dist''))"
    by (simp only: d s s')
  from E C show ?thesis
    by (simp add: y s coerce_not_Str)
qed

section \<open>Discovery era and distance category\<close>

lemma searchsorted_era:
  "searchsorted era_bins (Fin a) =
     (if a \<le> 0 then 0 else if a \<le> 2000 then 1 else if a \<le> 2010 then 2
      else if a \<le> 2015 then 3 else if a \<le> 2020 then 4 else if a \<le> 2030 then 5 else 6)"
  by (simp add: searchsorted_def era_bins_def)

lemma searchsorted_distance:
  "searchsorted distance_bins (Fin a) =
     (if a \<le> 0 then 0 else if a \<le> 50 then 1 else if a \<le> 100 then 2
      else if a \<le> 500 then 3 else if a \<le> 10000 then 4 else 5)"
  by (simp add: searchsorted_def distance_bins_def)

lemma searchsorted_inf:
  "searchsorted era_bins NegInf = 0" "searchsorted era_bins PosInf = 6"
  "searchsorted distance_bins NegInf = 0" "searchsorted distance_bins PosInf = 5"
  by (simp_all add: searchsorted_def era_bins_def distance_bins_def)

lemma era_cases:
  fixes l1 l2 l3 l4 l5 :: string
  assumes "t = projr (cut_cell era_bins [l1, l2, l3, l4, l5] v)"
  shows "(v = Null \<longrightarrow> t = Null) \<and>
     (\<forall>x. v = Num x \<longrightarrow>
        (Fin 0 < x \<and> x \<le> Fin 2000 \<longrightarrow> t = Str l1) \<and>
        (Fin 2000 < x \<and> x \<le> Fin 2010 \<longrightarrow> t = Str l2) \<and>
        (Fin 2010 < x \<and> x \<le> Fin 2015 \<longrightarrow> t = Str l3) \<and>
        (Fin 2015 < x \<and> x \<le> Fin 2020 \<longrightarrow> t = Str l4) \<and>
        (Fin 2020 < x \<and> x \<le> Fin 2030 \<longrightarrow> t = Str l5) \<and>
        (x \<le> Fin 0 \<or> Fin 2030 < x \<longrightarrow> t = Null))"
proof (cases v)
  case Null
  then show ?thesis using assms by simp
next
  case (Num y)
  have len: "length era_bins = 6" by (simp add: era_bins_def)
  show ?thesis
  proof (cases y)
    case NegInf
    then show ?thesis using assms Num by (simp add: searchsorted_inf)
  next
    case (Fin a)
    then show ?thesis using assms Num by (simp add: searchsorted_era len)
  next
    case PosInf
    then show ?thesis using assms Num by (simp add: searchsorted_inf len)
  qed
next
  case (Str s)
  then show ?thesis using assms by simp
qed

lemma distance_cases:
  fixes l1 l2 l3 l4 :: string
  assumes "t = projr (cut_cell distance_bins [l1, l2, l3, l4] v)"
  shows "(v = Null \<longrightarrow> t = Null) \<and>
     (\<forall>x. v = Num x \<longrightarrow>
        (Fin 0 < x \<and> x \<le> Fin 50 \<longrightarrow> t = Str l1) \<and>
        (Fin 50 < x \<and> x \<le> Fin 100 \<longrightarrow> t = Str l2) \<and>
        (Fin 100 < x \<and> x \<le> Fin 500 \<longrightarrow> t = Str l3) \<and>
        (Fin 500 < x \<and> x \<le> Fin 10000 \<longrightarrow> t = Str l4) \<and>
        (x \<le> Fin 0 \<or> Fin 10000 < x \<longrightarrow> t = Null))"
proof (cases v)
  case Null
  then show ?thesis using assms by simp
next
  case (Num y)
  have len: "length distance_bins = 5" by (simp add: distance_bins_def)
  show ?thesis
  proof (cases y)
    case NegInf
    then show ?thesis using assms Num by (simp add: searchsorted_inf)
  next
    case (Fin a)
    then show ?thesis using assms Num by (simp add: searchsorted_distance len)
  next
    case PosInf
    then show ?thesis using assms Num by (simp add: searchsorted_inf len)
  qed
next
  case (Str s)
  then show ?thesis using assms by simp
qed

lemma clean_exoplanet_data_returns:
  assumes "''pl_name'' \<in> set (columns df)" and "''disc_year'' \<in> set (columns df)"
    and "''sy_dist'' \<in> set (columns df)"
  shows "\<exists>out. clean_exoplanet_data parse now df = Inr out"
proof (cases "empty_df df")
  case True
  then show ?thesis by (simp add: clean_exoplanet_data_empty)
next
  case False
  from clean_exoplanet_data_rows [OF False assms, of parse now] show ?thesis by blast
qed

text \<open>
  C7. In every frame \<open>clean_exoplanet_data\<close> returns, a row's \<open>discovery_era\<close> is fixed by
  its \<open>disc_year\<close>: (0, 2000] Pre-2000, (2000, 2010] 2000s, (2010, 2015] 2010-2015,
  (2015, 2020] 2015-2020, (2020, 2030] 2020+; and its \<open>distance_category\<close> by its
  \<open>sy_dist\<close>: (0, 50] Very Close, (50, 100] Close, (100, 500] Moderate, (500, 10000] Far. A
  value outside the bins or missing gets no category. Both columns hold numbers or missing
  values only, so these cases are all there are. The pass returns a frame whenever the
  input has the columns \<open>pl_name\<close>, \<open>disc_year\<close> and \<open>sy_dist\<close>.
\<close>

theorem clean_bins_year_and_distance:
  "(\<forall>out. clean_exoplanet_data parse now df = Inr out \<longrightarrow>
      (\<forall>r \<in> set (rows out).
         \<not> is_Str (val out r ''disc_year'') \<and> \<not> is_Str (val out r ''sy_dist'') \<and>
         (val out r ''disc_year'' = Null \<longrightarrow> val out r ''discovery_era'' = Null) \<and>
         (\<forall>x. val out r ''disc_year'' = Num x \<longrightarrow>
            (Fin 0 < x \<and> x \<le> Fin 2000 \<longrightarrow> val out r ''discovery_era'' = Str ''Pre-2000'') \<and>
            (Fin 2000 < x \<and> x \<le> Fin 2010 \<longrightarrow> val out r ''discovery_era'' = Str ''2000s'') \<and>
            (Fin 2010 < x \<and> x \<le> Fin 2015 \<longrightarrow> val out r ''discovery_era'' = Str ''2010-2015'') \<and>
            (Fin 2015 < x \<and> x \<le> Fin 2020 \<longrightarrow> val out r ''discovery_era'' = Str ''2015-2020'') \<and>
            (Fin 2020 < x \<and> x \<le> Fin 2030 \<longrightarrow> val out r ''discovery_era'' = Str ''2020+'') \<and>
            (x \<le> Fin 0 \<or> Fin 2030 < x \<longrightarrow> val out r ''discovery_era'' = Null)) \<and>
         (val out r ''sy_dist'' = Null \<longrightarrow> val out r ''distance_category'' = Null) \<and>
         (\<forall>x. val out r ''sy_dist'' = Num x \<longrightarrow>
            (Fin 0 < x \<and> x \<le> Fin 50 \<longrightarrow>
               val out r ''distance_category'' = Str ''Very Close (<50pc)'') \<and>
            (Fin 50 < x \<and> x \<le> Fin 100 \<longrightarrow>
               val out r ''distance_category'' = Str ''Close (50-100pc)'') \<and>
            (Fin 100 < x \<and> x \<le> Fin 500 \<longrightarrow>
               val out r ''distance_category'' = Str ''Moderate (100-500pc)'') \<and>
            (Fin 500 < x \<and> x \<le> Fin 10000 \<longrightarrow>
               val out r ''distance_category'' = Str ''Far (>500pc)'') \<and>
            (x \<le> Fin 0 \<or> Fin 10000 < x \<longrightarrow> val out r ''distance_category'' = Null)))) \<and>
   (''pl_name'' \<in> set (columns df) \<and> ''disc_year'' \<in> set (columns df) \<and>
    ''sy_dist'' \<in> set (columns df) \<longrightarrow>
      (\<exists>out. clean_exoplanet_data parse now df = Inr out))"
proof (rule conjI)
  show "\<forall>out. clean_exoplanet_data parse now df = Inr out \<longrightarrow>
      (\<forall>r \<in> set (rows out).
         \<not> is_Str (val out r ''disc_year'') \<and> \<not> is_Str (val out r ''sy_dist'') \<and>
         (val out r ''disc_year'' = Null \<longrightarrow> val out r ''discovery_era'' = Null) \<and>
         (\<forall>x. val out r ''disc_year'' = Num x \<longrightarrow>
            (Fin 0 < x \<and> x \<le> Fin 2000 \<longrightarrow> val out r ''discovery_era'' = Str ''Pre-2000'') \<and>
            (Fin 2000 < x \<and> x \<le> Fin 2010 \<longrightarrow> val out r ''discovery_era'' = Str ''2000s'') \<and>
            (Fin 2010 < x \<and> x \<le> Fin 2015 \<longrightarrow> val out r ''discovery_era'' = Str ''2010-2015'') \<and>
            (Fin 2015 < x \<and> x \<le> Fin 2020 \<longrightarrow> val out r ''discovery_era'' = Str ''2015-2020'') \<and>
            (Fin 2020 < x \<and> x \<le> Fin 2030 \<longrightarrow> val out r ''discovery_era'' = Str ''2020+'') \<and>
            (x \<le> Fin 0 \<or> Fin 2030 < x \<longrightarrow> val out r ''discovery_era'' = Null)) \<and>
         (val out r ''sy_dist'' = Null \<longrightarrow> val out r ''distance_category'' = Null) \<and>
         (\<forall>x. val out r ''sy_dist'' = Num x \<longrightarrow>
            (Fin 0 < x \<and> x \<le> Fin 50 \<longrightarrow>
               val out r ''distance_category'' = Str ''Very Close (<50pc)'') \<and>
            (Fin 50 < x \<and> x \<le> Fin 100 \<longrightarrow>
               val out r ''distance_category'' = Str ''Close (50-100pc)'') \<and>
            (Fin 100 < x \<and> x \<le> Fin 500 \<longrightarrow>
               val out r ''distance_category'' = Str ''Moderate (100-500pc)'') \<and>
            (Fin 500 < x \<and> x \<le> Fin 10000 \<longrightarrow>
               val out r ''distance_category'' = Str ''Far (>500pc)'') \<and>
            (x \<le> Fin 0 \<or> Fin 10000 < x \<longrightarrow> val out r ''distance_category'' = Null)))"
  proof (rule allI, rule impI, rule ballI)
    fix out r
    assume c: "clean_exoplanet_data parse now df = Inr out" and r: "r \<in> set (rows out)"
    note d = clean_exoplanet_data_derived_cells [OF c r]
    from d have a1: "\<not> is_Str (val out r ''disc_year'')" by (rule conjunct1)
    from d have a2: "\<not> is_Str (val out r ''sy_dist'')" by (elim conjE)
    from d have e: "val out r ''discovery_era'' =
        projr (cut_cell era_bins [''Pre-2000'', ''2000s'', ''2010-2015'', ''2015-2020'', ''2020+'']
          (val out r ''disc_year''))"
      unfolding era_labels_def by (elim conjE)
    from d have k: "val out r ''distance_category'' =
        projr (cut_cell distance_bins [''Very Close (<50pc)'', ''Close (50-100pc)'',
          ''Moderate (100-500pc)'', ''Far (>500pc)''] (val out r ''sy_dist''))"
      unfolding distance_labels_def by (elim conjE)
    note E = era_cases [OF e] and K = distance_cases [OF k]
    show "\<not> is_Str (val out r ''disc_year'') \<and> \<not> is_Str (val out r ''sy_dist'') \<and>
         (val out r ''disc_year'' = Null \<longrightarrow> val out r ''discovery_era'' = Null) \<and>
         (\<forall>x. val out r ''disc_year'' = Num x \<longrightarrow>
            (Fin 0 < x \<and> x \<le> Fin 2000 \<longrightarrow> val out r ''discovery_era'' = Str ''Pre-2000'') \<and>
            (Fin 2000 < x \<and> x \<le> Fin 2010 \<longrightarrow> val out r ''discovery_era'' = Str ''2000s'') \<and>
            (Fin 2010 < x \<and> x \<le> Fin 2015 \<longrightarrow> val out r ''discovery_era'' = Str ''2010-2015'') \<and>
            (Fin 2015 < x \<and> x \<le> Fin 2020 \<longrightarrow> val out r ''discovery_era'' = Str ''2015-2020'') \<and>
            (Fin 2020 < x \<and> x \<le> Fin 2030 \<longrightarrow> val out r ''discovery_era'' = Str ''2020+'') \<and>
            (x \<le> Fin 0 \<or> Fin 2030 < x \<longrightarrow> val out r ''discovery_era'' = Null)) \<and>
         (val out r ''sy_dist'' = Null \<longrightarrow> val out r ''distance_category'' = Null) \<and>
         (\<forall>x. val out r ''sy_dist'' = Num x \<longrightarrow>
            (Fin 0 < x \<and> x \<le> Fin 50 \<longrightarrow>
               val out r ''distance_category'' = Str ''Very Close (<50pc)'') \<and>
            (Fin 50 < x \<and> x \<le> Fin 100 \<longrightarrow>
               val out r ''distance_category'' = Str ''Close (50-100pc)'') \<and>
            (Fin 100 < x \<and> x \<le> Fin 500 \<longrightarrow>
               val out r ''distance_category'' = Str ''Moderate (100-500pc)'') \<and>
            (Fin 500 < x \<and> x \<le> Fin 10000 \<longrightarrow>
               val out r ''distance_category'' = Str ''Far (>500pc)'') \<and>
            (x \<le> Fin 0 \<or> Fin 10000 < x \<longrightarrow> val out r ''distance_category'' = Null))"
      by (rule conjI [OF a1], rule conjI [OF a2], rule conjI [OF conjunct1 [OF E]],
          rule conjI [OF conjunct2 [OF E]], rule K)
  qed
next
  show "''pl_name'' \<in> set (columns df) \<and> ''disc_year'' \<in> set (columns df) \<and>
      ''sy_dist'' \<in> set (columns df) \<longrightarrow>
      (\<exists>out. clean_exoplanet_data parse now df = Inr out)"
    by (rule impI, elim conjE) (rule clean_exoplanet_data_returns)
qed

lemma example_kept:
  "keep_first (\<lambda>r. cells r ''pl_name'') []
     (filter (\<lambda>r. cells r ''pl_name'' \<noteq> Null)
        (map (coerce_row parse_digits (set numeric_columns \<inter> set (columns example_frame)))
           (rows example_frame))) =
   map (coerce_row parse_digits (set numeric_columns \<inter> set (columns example_frame)))
     (rows example_frame)"
  by (simp add: example_frame_def example_row_def cells_coerce_row numeric_columns_def
      example_columns_def)

theorem clean_bins_year_and_distance_witness:
  "\<exists>out. clean_exoplanet_data parse_digits ''2026-01-01 00:00:00'' example_frame = Inr out \<and>
     map (\<lambda>r. val out r ''disc_year'') (rows out) = [Num (Fin 2015), Num (Fin 1995)] \<and>
     map (\<lambda>r. val out r ''discovery_era'') (rows out) = [Str ''2010-2015'', Str ''Pre-2000''] \<and>
     map (\<lambda>r. val out r ''sy_dist'') (rows out) = [Num (Fin 551.7), Num (Fin 15.5)] \<and>
     map (\<lambda>r. val out r ''distance_category'') (rows out) =
       [Str ''Far (>500pc)'', Str ''Very Close (<50pc)'']"
proof -
  let ?now = "''2026-01-01 00:00:00''"
  let ?h = "coerce_row parse_digits (set numeric_columns \<inter> set (columns example_frame))"
  have ne: "\<not> empty_df example_frame"
    by (simp add: empty_df_def example_frame_def example_columns_def)
  have p: "''pl_name'' \<in> set (columns example_frame)" "''disc_year'' \<in> set (columns example_frame)"
    "''sy_dist'' \<in> set (columns example_frame)"
    by (simp_all add: example_frame_def example_columns_def)
  from clean_exoplanet_data_rows [OF ne p, of parse_digits ?now]
  obtain D cs where
    o: "clean_exoplanet_data parse_digits ?now example_frame =
          Inr \<lparr>columns = cs, rows = map D (map ?h (rows example_frame))\<rparr>"
    and i: "\<And>c r. c \<notin> {''habitability_score'', ''planet_type'', ''discovery_era'',
                      ''distance_category'', ''data_fetched_at''} \<Longrightarrow> cells (D r) c = cells r c"
    and cs: "set cs = set (columns example_frame) \<union> {''habitability_score'', ''planet_type'',
         ''discovery_era'', ''distance_category'', ''data_fetched_at''}"
    unfolding example_kept by auto
  define out where "out = \<lparr>columns = cs, rows = map D (map ?h (rows example_frame))\<rparr>"
  have c: "clean_exoplanet_data parse_digits ?now example_frame = Inr out"
    by (simp only: o out_def)
  have rs: "rows out = [D (?h (rows example_frame ! 0)), D (?h (rows example_frame ! 1))]"
    by (simp add: out_def example_frame_def)
  have y: "val out (D (?h (rows example_frame ! 0))) ''disc_year'' = Num (Fin 2015)"
    "val out (D (?h (rows example_frame ! 1))) ''disc_year'' = Num (Fin 1995)"
    using p(2) by (simp_all add: val_def out_def cs i cells_coerce_row)
       (simp_all add: example_frame_def example_row_def coerce_def)
  have s: "val out (D (?h (rows example_frame ! 0))) ''sy_dist'' = Num (Fin 551.7)"
    "val out (D (?h (rows example_frame ! 1))) ''sy_dist'' = Num (Fin 15.5)"
    using p(3) by (simp_all add: val_def out_def cs i cells_coerce_row)
       (simp_all add: example_frame_def example_row_def coerce_def)
  note t = clean_bins_year_and_distance [of parse_digits ?now example_frame,
      THEN conjunct1, rule_format, OF c]
  have "val out (D (?h (rows example_frame ! 0))) ''discovery_era'' = Str ''2010-2015''"
    using t [of "D (?h (rows example_frame ! 0))"] y(1) by (simp add: rs)
  moreover have "val out (D (?h (rows example_frame ! 1))) ''discovery_era'' = Str ''Pre-2000''"
    using t [of "D (?h (rows example_frame ! 1))"] y(2) by (simp add: rs)
  moreover have "val out (D (?h (rows example_frame ! 0))) ''distance_category'' =
      Str ''Far (>500pc)''"
    using t [of "D (?h (rows example_frame ! 0))"] s(1) by (simp add: rs)
  moreover have "val out (D (?h (rows example_frame ! 1))) ''distance_category'' =
      Str ''Very Close (<50pc)''"
    using t [of "D (?h (rows example_frame ! 1))"] s(2) by (simp add: rs)
  ultimately show ?thesis
    using c y s by (intro exI [of _ out]) (simp add: rs)
qed

section \<open>Deduplication on the planet name\<close>

lemma core_eq_name: "core a = core b \<Longrightarrow> cells a ''pl_name'' = cells b ''pl_name''"
  by (simp add: core_def)

lemma core_coerce_row_numeric:
  "core (coerce_row parse (set numeric_columns \<inter> C) r) = core r"
  by (rule core_coerce_row) (simp add: numeric_columns_def)

lemma core_coerce_row_numeric_cols:
  "core (coerce_row parse (set numeric_cols \<inter> C) r) = core r"
  by (rule core_coerce_row) (simp add: numeric_cols_def)

text \<open>The three properties of a deduplicated list, in terms of the key and the identity.\<close>

lemma keep_first_props:
  assumes k: "\<And>a b. c a = c b \<Longrightarrow> k a = k b"
  shows "distinct (map k (keep_first k [] xs))"
    and "subseq (map c (keep_first k [] xs)) (map c xs)"
    and "e \<in> set (keep_first k [] xs) \<Longrightarrow>
       \<exists>as b bs. xs = as @ b # bs \<and> c b = c e \<and> (\<forall>a \<in> set as. k a \<noteq> k e)"
proof -
  show "distinct (map k (keep_first k [] xs))"
    by (rule keep_first_distinct)
  show "subseq (map c (keep_first k [] xs)) (map c xs)"
    by (rule subseq_map) (rule keep_first_subseq)
  assume "e \<in> set (keep_first k [] xs)"
  from keep_first_first [OF this] show
    "\<exists>as b bs. xs = as @ b # bs \<and> c b = c e \<and> (\<forall>a \<in> set as. k a \<noteq> k e)"
    by blast
qed

lemma first_occurrence_through_filter:
  assumes e: "e \<in> set (keep_first k [] (filter P xs))"
    and P: "\<And>a. a \<in> set xs \<Longrightarrow> k a = k e \<Longrightarrow> P a"
  shows "\<exists>as bs. xs = as @ e # bs \<and> (\<forall>a \<in> set as. k a \<noteq> k e)"
proof -
  from keep_first_first [OF e] obtain as bs where
    s: "filter P xs = as @ e # bs" and n: "\<forall>a \<in> set as. k a \<noteq> k e"
    by blast
  from filter_split_first [OF s] obtain as' bs' where
    x: "xs = as' @ e # bs'" and f: "filter P as' = as"
    by blast
  have "k a \<noteq> k e" if a: "a \<in> set as'" for a
  proof
    assume eq: "k a = k e"
    from a x have "a \<in> set xs" by simp
    from P [OF this eq] a f have "a \<in> set as" by auto
    with n eq show False by blast
  qed
  with x show ?thesis by blast
qed

lemma first_occurrence_through_map:
  assumes s: "map h xs = as @ e # bs" and n: "\<forall>a \<in> set as. k a \<noteq> k e"
    and c: "\<And>a. c (h a) = c a" and k: "\<And>a. k (h a) = k a"
  shows "\<exists>as' b bs'. xs = as' @ b # bs' \<and> h b = e \<and> c b = c e \<and>
     (\<forall>a \<in> set as'. k a \<noteq> k e)"
proof -
  from s obtain as' rest where x: "xs = as' @ rest" and a: "map h as' = as"
    and r: "map h rest = e # bs"
    by (auto simp: map_eq_append_conv)
  from r obtain b bs' where rest: "rest = b # bs'" and b: "h b = e"
    by (auto simp: map_eq_Cons_conv)
  have "k a' \<noteq> k e" if "a' \<in> set as'" for a'
  proof -
    from that a have "h a' \<in> set as" by auto
    with n have "k (h a') \<noteq> k e" by blast
    then show ?thesis by (simp add: k)
  qed
  moreover have "c b = c e" using b c [of b] by simp
  ultimately show ?thesis using x rest b by blast
qed

lemma keep_first_complete:
  assumes "xs = as @ e # bs" and "\<forall>a \<in> set as. k a \<noteq> k e" and "k e \<notin> set seen"
  shows "e \<in> set (keep_first k seen xs)"
  using assms
proof (induction as arbitrary: xs seen)
  case Nil
  then show ?case by simp
next
  case (Cons a as)
  from Cons.prems have x: "xs = a # (as @ e # bs)" and n: "\<forall>a' \<in> set as. k a' \<noteq> k e"
    and ae: "k a \<noteq> k e" by simp_all
  have 1: "e \<in> set (keep_first k seen (as @ e # bs))"
    by (rule Cons.IH [OF refl n Cons.prems(3)])
  have 2: "e \<in> set (keep_first k (k a # seen) (as @ e # bs))"
    using ae Cons.prems(3) by (intro Cons.IH [OF refl n]) auto
  from 1 2 show ?case
    unfolding x by simp
qed


lemma clean_exoplanet_data_dedup:
  assumes c: "clean_exoplanet_data parse now df = Inr out"
    and p: "''pl_name'' \<in> set (columns df)"
  shows "distinct (map (\<lambda>r. cells r ''pl_name'') (rows out)) \<and>
     subseq (map core (rows out)) (map core (rows df)) \<and>
     (\<forall>r \<in> set (rows out). \<exists>as b bs. rows df = as @ b # bs \<and> core b = core r \<and>
        (\<forall>a \<in> set as. cells a ''pl_name'' \<noteq> cells r ''pl_name'') \<and>
        (\<forall>c. c \<notin> {''habitability_score'', ''planet_type'', ''discovery_era'',
                  ''distance_category'', ''data_fetched_at''} \<longrightarrow>
           cells r c =
             cells (coerce_row parse (set numeric_columns \<inter> set (columns df)) b) c)) \<and>
     (\<forall>as b bs. rows df = as @ b # bs \<and>
        (\<forall>a \<in> set as. cells a ''pl_name'' \<noteq> cells b ''pl_name'') \<and>
        cells b ''pl_name'' \<noteq> Null \<longrightarrow>
        (\<exists>r \<in> set (rows out). core r = core b \<and>
           (\<forall>c. c \<notin> {''habitability_score'', ''planet_type'', ''discovery_era'',
                     ''distance_category'', ''data_fetched_at''} \<longrightarrow>
              cells r c =
                cells (coerce_row parse (set numeric_columns \<inter> set (columns df)) b) c)))"
proof (cases "empty_df df")
  case True
  with p have "rows df = []" by (auto simp: empty_df_def)
  moreover from c True have "out = df" by (simp add: clean_exoplanet_data_empty)
  ultimately show ?thesis by simp
next
  case False
  let ?k = "\<lambda>r::row. cells r ''pl_name''"
  let ?h = "coerce_row parse (set numeric_columns \<inter> set (columns df))"
  let ?F = "filter (\<lambda>r. ?k r \<noteq> Null) (map ?h (rows df))"
  from clean_exoplanet_data_Inr_columns [OF c False]
  have q: "''disc_year'' \<in> set (columns df)" "''sy_dist'' \<in> set (columns df)" by simp_all
  from clean_exoplanet_data_rows [OF False p q, of parse now] c
  obtain D cs where
    o: "out = \<lparr>columns = cs, rows = map D (keep_first ?k [] ?F)\<rparr>"
    and ix: "\<And>r. idx (D r) = idx r"
    and i: "\<And>c r. c \<notin> {''habitability_score'', ''planet_type'', ''discovery_era'',
                      ''distance_category'', ''data_fetched_at''} \<Longrightarrow> cells (D r) c = cells r c"
    by auto
  have kD: "?k (D r) = ?k r" for r
    by (rule i) simp
  have cD: "core (D r) = core r" for r
    by (simp add: core_def ix kD)
  have ch: "core (?h r) = core r" for r
    by (rule core_coerce_row_numeric)
  have kh: "?k (?h r) = ?k r" for r
    by (rule core_eq_name) (rule ch)
  have ro: "rows out = map D (keep_first ?k [] ?F)"
    by (simp add: o)
  have 1: "distinct (map ?k (rows out))"
    unfolding ro by (simp add: comp_def kD keep_first_distinct)
  have "subseq (map core (keep_first ?k [] ?F)) (map core ?F)"
    by (rule subseq_map) (rule keep_first_subseq)
  moreover have "subseq (map core ?F) (map core (map ?h (rows df)))"
    by (rule subseq_map) simp
  ultimately have "subseq (map core (keep_first ?k [] ?F)) (map core (map ?h (rows df)))"
    by (rule subseq_order.order_trans)
  then have 2: "subseq (map core (rows out)) (map core (rows df))"
    unfolding ro by (simp add: comp_def cD ch)
  have 3: "\<exists>as b bs. rows df = as @ b # bs \<and> core b = core r \<and>
        (\<forall>a \<in> set as. ?k a \<noteq> ?k r) \<and>
        (\<forall>c. c \<notin> {''habitability_score'', ''planet_type'', ''discovery_era'',
                  ''distance_category'', ''data_fetched_at''} \<longrightarrow>
           cells r c = cells (?h b) c)" if r: "r \<in> set (rows out)" for r
  proof -
    from r ro obtain e where e: "e \<in> set (keep_first ?k [] ?F)" and re: "r = D e"
      by auto
    from keep_first_keys [OF e] have nn: "?k e \<noteq> Null" by simp
    have "\<exists>as bs. map ?h (rows df) = as @ e # bs \<and> (\<forall>a \<in> set as. ?k a \<noteq> ?k e)"
      using nn
      by (intro first_occurrence_through_filter [where P = "\<lambda>r. ?k r \<noteq> Null", OF e]) simp
    then obtain as bs where s: "map ?h (rows df) = as @ e # bs"
      and n: "\<forall>a \<in> set as. ?k a \<noteq> ?k e"
      by blast
    from first_occurrence_through_map [where c = core and k = ?k, OF s n ch kh]
    obtain as' b bs' where x: "rows df = as' @ b # bs'" and hb: "?h b = e"
      and cb: "core b = core e" and na: "\<forall>a \<in> set as'. ?k a \<noteq> ?k e"
      by blast
    have "cells r c = cells (?h b) c"
      if "c \<notin> {''habitability_score'', ''planet_type'', ''discovery_era'',
                  ''distance_category'', ''data_fetched_at''}" for c
      unfolding re hb by (rule i [OF that])
    with x cb na show ?thesis
      unfolding re cD kD by blast
  qed
  have 4: "\<exists>r \<in> set (rows out). core r = core b \<and>
           (\<forall>c. c \<notin> {''habitability_score'', ''planet_type'', ''discovery_era'',
                     ''distance_category'', ''data_fetched_at''} \<longrightarrow>
              cells r c = cells (?h b) c)"
    if x: "rows df = as @ b # bs" and na: "\<forall>a \<in> set as. ?k a \<noteq> ?k b"
      and nn: "?k b \<noteq> Null" for as b bs
  proof -
    have F: "?F = filter (\<lambda>r. ?k r \<noteq> Null) (map ?h as) @ ?h b #
        filter (\<lambda>r. ?k r \<noteq> Null) (map ?h bs)"
      using nn by (simp add: x kh)
    have "\<forall>a \<in> set (filter (\<lambda>r. ?k r \<noteq> Null) (map ?h as)). ?k a \<noteq> ?k (?h b)"
      using na by (auto simp: kh)
    then have "?h b \<in> set (keep_first ?k [] ?F)"
      by (intro keep_first_complete [OF F]) simp_all
    then have "D (?h b) \<in> set (rows out)"
      unfolding ro by simp
    moreover have "core (D (?h b)) = core b"
      by (simp only: cD ch)
    moreover have "cells (D (?h b)) c = cells (?h b) c"
      if "c \<notin> {''habitability_score'', ''planet_type'', ''discovery_era'',
                  ''distance_category'', ''data_fetched_at''}" for c
      by (rule i [OF that])
    ultimately show ?thesis by blast
  qed
  show ?thesis
  proof (intro conjI ballI allI impI)
    show "distinct (map ?k (rows out))" by (rule 1)
    show "subseq (map core (rows out)) (map core (rows df))" by (rule 2)
    show "\<exists>as b bs. rows df = as @ b # bs \<and> core b = core r \<and>
        (\<forall>a \<in> set as. ?k a \<noteq> ?k r) \<and>
        (\<forall>c. c \<notin> {''habitability_score'', ''planet_type'', ''discovery_era'',
                  ''distance_category'', ''data_fetched_at''} \<longrightarrow>
           cells r c = cells (?h b) c)" if "r \<in> set (rows out)" for r
      by (rule 3 [OF that])
    show "\<exists>r \<in> set (rows out). core r = core b \<and>
           (\<forall>c. c \<notin> {''habitability_score'', ''planet_type'', ''discovery_era'',
                     ''distance_category'', ''data_fetched_at''} \<longrightarrow>
              cells r c = cells (?h b) c)"
      if "rows df = as @ b # bs \<and> (\<forall>a \<in> set as. ?k a \<noteq> ?k b) \<and> ?k b \<noteq> Null"
      for as b bs
      using that by (elim conjE) (rule 4)
  qed
qed

lemma setcol_to_numeric:
  assumes "c \<in> set (columns df)"
  shows "setcol c (to_numeric parse (map (\<lambda>r. cells r c) (rows df))) df =
     df\<lparr>rows := map (\<lambda>r. r\<lparr>cells := (cells r)(c := coerce parse (cells r c))\<rparr>) (rows df)\<rparr>"
proof -
  have "to_numeric parse (map (\<lambda>r. cells r c) (rows df)) =
      map (\<lambda>r. coerce parse (cells r c)) (rows df)"
    by (simp add: to_numeric_def comp_def)
  then show ?thesis
    using assms by (simp add: setcol_map_eq)
qed

lemma extraction_clean_unfold:
  assumes "''pl_name'' \<in> set (columns df)" and "''disc_year'' \<in> set (columns df)"
    and "''pl_rade'' \<in> set (columns df)" and "''pl_eqt'' \<in> set (columns df)"
    and "''pl_orbper'' \<in> set (columns df)"
  shows "extraction_clean_exoplanet_data parse df =
     Inr (df\<lparr>rows := map (coerce_row parse (set numeric_cols \<inter> set (columns df)))
        (filter (\<lambda>r. \<forall>c \<in> set [''pl_rade'', ''pl_eqt'', ''pl_orbper'']. cells r c \<noteq> Null)
           (map (\<lambda>r. r\<lparr>cells := (cells r)(''disc_year'' := coerce parse (cells r ''disc_year''))\<rparr>)
              (keep_first (\<lambda>r. cells r ''pl_name'') [] (rows df))))\<rparr>)"
proof -
  define df1 where "df1 = df\<lparr>rows := keep_first (\<lambda>r. cells r ''pl_name'') [] (rows df)\<rparr>"
  have c1: "columns df1 = columns df" by (simp add: df1_def)
  have d1: "drop_duplicates ''pl_name'' df = Inr df1"
    unfolding df1_def by (rule drop_duplicates_present [OF assms(1)])
  have g: "getcol df1 ''disc_year'' = Inr (map (\<lambda>r. cells r ''disc_year'') (rows df1))"
    using assms(2) by (simp add: getcol_def c1)
  define df2 where "df2 = df1\<lparr>rows := map (\<lambda>r. r\<lparr>cells := (cells r)(''disc_year'' :=
      coerce parse (cells r ''disc_year''))\<rparr>) (rows df1)\<rparr>"
  have s: "setcol ''disc_year'' (to_numeric parse (map (\<lambda>r. cells r ''disc_year'') (rows df1))) df1 = df2"
    unfolding df2_def using assms(2) by (intro setcol_to_numeric) (simp add: c1)
  have c2: "columns df2 = columns df" by (simp add: df2_def c1)
  define df3 where "df3 = df2\<lparr>rows := filter
      (\<lambda>r. \<forall>c \<in> set [''pl_rade'', ''pl_eqt'', ''pl_orbper'']. cells r c \<noteq> Null) (rows df2)\<rparr>"
  have d3: "dropna_subset [''pl_rade'', ''pl_eqt'', ''pl_orbper''] df2 = Inr df3"
    using assms(3-5) by (simp add: dropna_subset_def c2 df3_def)
  have "extraction_clean_exoplanet_data parse df = Inr (coerce_columns parse numeric_cols df3)"
    by (simp add: extraction_clean_exoplanet_data_def d1 g s d3)
  then show ?thesis
    by (simp add: coerce_columns_eq df3_def df2_def df1_def)
qed

lemma dropna_subset_Inr_columns:
  "dropna_subset cs df = Inr out \<Longrightarrow> set cs \<subseteq> set (columns df)"
  by (auto simp: dropna_subset_def filter_empty_conv split: list.splits)

lemma drop_duplicates_Inr_columns:
  "drop_duplicates c df = Inr df1 \<Longrightarrow> columns df1 = columns df"
  by (auto simp: drop_duplicates_def split: if_splits)

lemma extraction_clean_Inr_columns:
  assumes "extraction_clean_exoplanet_data parse df = Inr out"
  shows "''disc_year'' \<in> set (columns df) \<and>
     ''pl_rade'' \<in> set (columns df) \<and> ''pl_eqt'' \<in> set (columns df) \<and>
     ''pl_orbper'' \<in> set (columns df)"
proof -
  from assms obtain df1 where d1: "drop_duplicates ''pl_name'' df = Inr df1"
    by (cases "drop_duplicates ''pl_name'' df")
       (simp_all add: extraction_clean_exoplanet_data_def)
  then have c1: "columns df1 = columns df"
    by (rule drop_duplicates_Inr_columns)
  from assms d1 obtain years where g: "getcol df1 ''disc_year'' = Inr years"
    by (cases "getcol df1 ''disc_year''")
       (simp_all add: extraction_clean_exoplanet_data_def)
  then have y: "''disc_year'' \<in> set (columns df)"
    by (auto simp: getcol_def c1 split: if_splits)
  define df2 where "df2 = setcol ''disc_year'' (to_numeric parse years) df1"
  from y have c2: "set (columns df2) = set (columns df)"
    by (auto simp: df2_def set_columns_setcol c1)
  from assms d1 g obtain df3 where
    "dropna_subset [''pl_rade'', ''pl_eqt'', ''pl_orbper''] df2 = Inr df3"
    by (cases "dropna_subset [''pl_rade'', ''pl_eqt'', ''pl_orbper''] df2")
       (simp_all add: extraction_clean_exoplanet_data_def df2_def Let_def)
  from dropna_subset_Inr_columns [OF this] c2 y show ?thesis
    by simp
qed

lemma extraction_clean_dedup:
  assumes c: "extraction_clean_exoplanet_data parse df = Inr out"
    and p0: "''pl_name'' \<in> set (columns df)"
  shows "distinct (map (\<lambda>r. cells r ''pl_name'') (rows out)) \<and>
     subseq (map core (rows out)) (map core (rows df)) \<and>
     (\<forall>r \<in> set (rows out). \<exists>as b bs. rows df = as @ b # bs \<and> core b = core r \<and>
        (\<forall>a \<in> set as. cells a ''pl_name'' \<noteq> cells r ''pl_name'') \<and>
        r = coerce_row parse (set numeric_cols \<inter> set (columns df))
              (b\<lparr>cells := (cells b)(''disc_year'' := coerce parse (cells b ''disc_year''))\<rparr>)) \<and>
     (\<forall>as b bs. rows df = as @ b # bs \<and>
        (\<forall>a \<in> set as. cells a ''pl_name'' \<noteq> cells b ''pl_name'') \<and>
        cells b ''pl_rade'' \<noteq> Null \<and> cells b ''pl_eqt'' \<noteq> Null \<and>
        cells b ''pl_orbper'' \<noteq> Null \<longrightarrow>
        coerce_row parse (set numeric_cols \<inter> set (columns df))
          (b\<lparr>cells := (cells b)(''disc_year'' := coerce parse (cells b ''disc_year''))\<rparr>)
          \<in> set (rows out))"
proof -
  let ?k = "\<lambda>r::row. cells r ''pl_name''"
  let ?h = "coerce_row parse (set numeric_cols \<inter> set (columns df))"
  let ?u = "\<lambda>r::row. r\<lparr>cells := (cells r)(''disc_year'' := coerce parse (cells r ''disc_year''))\<rparr>"
  let ?P = "\<lambda>r::row. \<forall>c \<in> set [''pl_rade'', ''pl_eqt'', ''pl_orbper'']. cells r c \<noteq> Null"
  let ?K = "keep_first ?k [] (rows df)"
  from extraction_clean_Inr_columns [OF c]
  have p: "''disc_year'' \<in> set (columns df)"
    "''pl_rade'' \<in> set (columns df)" "''pl_eqt'' \<in> set (columns df)"
    "''pl_orbper'' \<in> set (columns df)" by simp_all
  from c have ro: "rows out = map ?h (filter ?P (map ?u ?K))"
    unfolding extraction_clean_unfold [OF p0 p] by auto
  have cu: "core (?u r) = core r" for r
    by (simp add: core_def)
  have ch: "core (?h r) = core r" for r
    by (rule core_coerce_row_numeric_cols)
  have ku: "?k (?u r) = ?k r" for r
    by simp
  have kh: "?k (?h r) = ?k r" for r
    by (rule core_eq_name) (rule ch)
  have "distinct (map ?k (map ?u ?K))"
    by (simp add: comp_def keep_first_distinct)
  then have "distinct (map ?k (filter ?P (map ?u ?K)))"
    by (rule distinct_map_filter)
  then have 1: "distinct (map ?k (rows out))"
    unfolding ro by (simp add: comp_def kh)
  have "subseq (map core (filter ?P (map ?u ?K))) (map core (map ?u ?K))"
    by (rule subseq_map) simp
  moreover have "subseq (map core ?K) (map core (rows df))"
    by (rule subseq_map) (rule keep_first_subseq)
  ultimately have "subseq (map core (filter ?P (map ?u ?K))) (map core (rows df))"
    by (simp add: comp_def cu)
  then have 2: "subseq (map core (rows out)) (map core (rows df))"
    unfolding ro by (simp add: comp_def ch)
  have 3: "\<exists>as b bs. rows df = as @ b # bs \<and> core b = core r \<and>
        (\<forall>a \<in> set as. ?k a \<noteq> ?k r) \<and> r = ?h (?u b)" if r: "r \<in> set (rows out)" for r
  proof -
    from r ro obtain e where e: "e \<in> set ?K" and re: "r = ?h (?u e)"
      by auto
    from keep_first_first [OF e] obtain as bs where
      "rows df = as @ e # bs" "\<forall>a \<in> set as. ?k a \<noteq> ?k e" by blast
    moreover have "core e = core r" "?k r = ?k e"
      unfolding re by (simp_all only: ch cu kh ku)
    ultimately show ?thesis using re by auto
  qed
  have 4: "?h (?u b) \<in> set (rows out)"
    if x: "rows df = as @ b # bs" and na: "\<forall>a \<in> set as. ?k a \<noteq> ?k b"
      and v: "cells b ''pl_rade'' \<noteq> Null" "cells b ''pl_eqt'' \<noteq> Null"
        "cells b ''pl_orbper'' \<noteq> Null" for as b bs
  proof -
    have "b \<in> set ?K"
      by (rule keep_first_complete [OF x na]) simp
    moreover have "?P (?u b)"
      using v by simp
    ultimately show ?thesis
      unfolding ro by simp
  qed
  show ?thesis
  proof (intro conjI ballI allI impI)
    show "distinct (map ?k (rows out))" by (rule 1)
    show "subseq (map core (rows out)) (map core (rows df))" by (rule 2)
    show "\<exists>as b bs. rows df = as @ b # bs \<and> core b = core r \<and>
        (\<forall>a \<in> set as. ?k a \<noteq> ?k r) \<and> r = ?h (?u b)" if "r \<in> set (rows out)" for r
      by (rule 3 [OF that])
    show "?h (?u b) \<in> set (rows out)"
      if "rows df = as @ b # bs \<and> (\<forall>a \<in> set as. ?k a \<noteq> ?k b) \<and>
        cells b ''pl_rade'' \<noteq> Null \<and> cells b ''pl_eqt'' \<noteq> Null \<and>
        cells b ''pl_orbper'' \<noteq> Null" for as b bs
      using that by (elim conjE) (rule 4)
  qed
qed

text \<open>
  C4. For a frame with a \<open>pl_name\<close> column, both cleaning passes deduplicate on the planet
  name. In the frame either pass returns, no two rows have the same \<open>pl_name\<close>; the rows
  are, by index label and name, a subsequence of the input rows, so they keep their relative
  order; and every row comes from the first row of the input that carries its name: the
  input splits into the rows before it, none of which has the name, the row itself, and the
  rest, and the output row holds that row's entries, coerced where the pass coerces. No
  name is lost in data\_fetcher.py: the first row of every name that is not missing has its
  row in the output. In data\_extraction.py the first row of every name (the missing name
  too) has its row in the output whenever its three critical values are not missing. The
  pass of data\_fetcher.py returns a frame when \<open>disc_year\<close> and \<open>sy_dist\<close> are columns
  too, the pass of data\_extraction.py when \<open>disc_year\<close>, \<open>pl_rade\<close>, \<open>pl_eqt\<close> and
  \<open>pl_orbper\<close> are.
\<close>

theorem deduplicates_on_planet_name:
  assumes "''pl_name'' \<in> set (columns df)"
  shows "(\<forall>out. clean_exoplanet_data parse now df = Inr out \<longrightarrow>
       distinct (map (\<lambda>r. cells r ''pl_name'') (rows out)) \<and>
       subseq (map core (rows out)) (map core (rows df)) \<and>
       (\<forall>r \<in> set (rows out). \<exists>as b bs. rows df = as @ b # bs \<and> core b = core r \<and>
          (\<forall>a \<in> set as. cells a ''pl_name'' \<noteq> cells r ''pl_name'') \<and>
          (\<forall>c. c \<notin> {''habitability_score'', ''planet_type'', ''discovery_era'',
                    ''distance_category'', ''data_fetched_at''} \<longrightarrow>
             cells r c =
               cells (coerce_row parse (set numeric_columns \<inter> set (columns df)) b) c)) \<and>
       (\<forall>as b bs. rows df = as @ b # bs \<and>
          (\<forall>a \<in> set as. cells a ''pl_name'' \<noteq> cells b ''pl_name'') \<and>
          cells b ''pl_name'' \<noteq> Null \<longrightarrow>
          (\<exists>r \<in> set (rows out). core r = core b \<and>
             (\<forall>c. c \<notin> {''habitability_score'', ''planet_type'', ''discovery_era'',
                       ''distance_category'', ''data_fetched_at''} \<longrightarrow>
                cells r c =
                  cells (coerce_row parse (set numeric_columns \<inter> set (columns df)) b) c)))) \<and>
     (\<forall>out. extraction_clean_exoplanet_data parse df = Inr out \<longrightarrow>
       distinct (map (\<lambda>r. cells r ''pl_name'') (rows out)) \<and>
       subseq (map core (rows out)) (map core (rows df)) \<and>
       (\<forall>r \<in> set (rows out). \<exists>as b bs. rows df = as @ b # bs \<and> core b = core r \<and>
          (\<forall>a \<in> set as. cells a ''pl_name'' \<noteq> cells r ''pl_name'') \<and>
          r = coerce_row parse (set numeric_cols \<inter> set (columns df))
                (b\<lparr>cells := (cells b)(''disc_year'' := coerce parse (cells b ''disc_year''))\<rparr>)) \<and>
       (\<forall>as b bs. rows df = as @ b # bs \<and>
          (\<forall>a \<in> set as. cells a ''pl_name'' \<noteq> cells b ''pl_name'') \<and>
          cells b ''pl_rade'' \<noteq> Null \<and> cells b ''pl_eqt'' \<noteq> Null \<and>
          cells b ''pl_orbper'' \<noteq> Null \<longrightarrow>
          coerce_row parse (set numeric_cols \<inter> set (columns df))
            (b\<lparr>cells := (cells b)(''disc_year'' := coerce parse (cells b ''disc_year''))\<rparr>)
            \<in> set (rows out))) \<and>
     (''disc_year'' \<in> set (columns df) \<and> ''sy_dist'' \<in> set (columns df) \<longrightarrow>
       (\<exists>out. clean_exoplanet_data parse now df = Inr out)) \<and>
     (''disc_year'' \<in> set (columns df) \<and> ''pl_rade'' \<in> set (columns df) \<and>
      ''pl_eqt'' \<in> set (columns df) \<and> ''pl_orbper'' \<in> set (columns df) \<longrightarrow>
       (\<exists>out. extraction_clean_exoplanet_data parse df = Inr out))"
  apply (rule conjI)
   apply (rule allI, rule impI)
   apply (erule clean_exoplanet_data_dedup [OF _ assms])
  apply (rule conjI)
   apply (rule allI, rule impI)
   apply (erule extraction_clean_dedup [OF _ assms])
  apply (rule conjI)
   apply (rule impI, elim conjE)
   apply (rule clean_exoplanet_data_returns [OF assms], assumption, assumption)
  apply (rule impI, elim conjE)
  apply (rule exI)
  apply (rule extraction_clean_unfold [OF assms], assumption+)
  done

lemma example_duplicates_kept:
  "keep_first (\<lambda>r. cells r ''pl_name'') []
     (filter (\<lambda>r. cells r ''pl_name'' \<noteq> Null)
        (map (coerce_row parse_digits (set numeric_columns \<inter> set (columns example_duplicates)))
           (rows example_duplicates))) =
   map (coerce_row parse_digits (set numeric_columns \<inter> set (columns example_duplicates)))
     [rows example_duplicates ! 0, rows example_duplicates ! 1]"
  by (simp add: example_duplicates_def example_row_def cells_coerce_row numeric_columns_def
      example_columns_def)

lemma example_duplicates_kept_extraction:
  "filter (\<lambda>r. \<forall>c \<in> set [''pl_rade'', ''pl_eqt'', ''pl_orbper'']. cells r c \<noteq> Null)
     (map (\<lambda>r. r\<lparr>cells := (cells r)(''disc_year'' := coerce parse_digits (cells r ''disc_year''))\<rparr>)
        (keep_first (\<lambda>r. cells r ''pl_name'') [] (rows example_duplicates))) =
   map (\<lambda>r. r\<lparr>cells := (cells r)(''disc_year'' := coerce parse_digits (cells r ''disc_year''))\<rparr>)
     [rows example_duplicates ! 0, rows example_duplicates ! 1]"
  by (simp add: example_duplicates_def example_row_def)

theorem deduplicates_on_planet_name_witness:
  "''pl_name'' \<in> set (columns example_duplicates) \<and>
   (\<exists>out. clean_exoplanet_data parse_digits ''2026-01-01 00:00:00'' example_duplicates = Inr out \<and>
      map core (rows out) = [(0, Str ''Kepler-22 b''), (1, Str ''51 Peg b'')] \<and>
      distinct (map (\<lambda>r. cells r ''pl_name'') (rows out)) \<and>
      subseq (map core (rows out)) (map core (rows example_duplicates))) \<and>
   (\<exists>out. extraction_clean_exoplanet_data parse_digits example_duplicates = Inr out \<and>
      map core (rows out) = [(0, Str ''Kepler-22 b''), (1, Str ''51 Peg b'')] \<and>
      distinct (map (\<lambda>r. cells r ''pl_name'') (rows out)) \<and>
      subseq (map core (rows out)) (map core (rows example_duplicates)))"
proof -
  let ?now = "''2026-01-01 00:00:00''"
  let ?h = "coerce_row parse_digits (set numeric_columns \<inter> set (columns example_duplicates))"
  let ?h2 = "coerce_row parse_digits (set numeric_cols \<inter> set (columns example_duplicates))"
  let ?u = "\<lambda>r::row. r\<lparr>cells := (cells r)(''disc_year'' := coerce parse_digits (cells r ''disc_year''))\<rparr>"
  have ne: "\<not> empty_df example_duplicates"
    by (simp add: empty_df_def example_duplicates_def example_columns_def)
  have p: "''pl_name'' \<in> set (columns example_duplicates)"
    "''disc_year'' \<in> set (columns example_duplicates)"
    "''sy_dist'' \<in> set (columns example_duplicates)"
    "''pl_rade'' \<in> set (columns example_duplicates)"
    "''pl_eqt'' \<in> set (columns example_duplicates)"
    "''pl_orbper'' \<in> set (columns example_duplicates)"
    by (simp_all add: example_duplicates_def example_columns_def)
  note t = deduplicates_on_planet_name [OF p(1), of parse_digits ?now]
  have c01: "map core [rows example_duplicates ! 0, rows example_duplicates ! 1] =
      [(0, Str ''Kepler-22 b''), (1, Str ''51 Peg b'')]"
    by (simp add: core_def example_duplicates_def example_row_def)
  from clean_exoplanet_data_rows [OF ne p(1-3), of parse_digits ?now]
  obtain D cs where
    o: "clean_exoplanet_data parse_digits ?now example_duplicates =
          Inr \<lparr>columns = cs, rows = map D (map ?h
            [rows example_duplicates ! 0, rows example_duplicates ! 1])\<rparr>"
    and ix: "\<And>r. idx (D r) = idx r"
    and i: "\<And>c r. c \<notin> {''habitability_score'', ''planet_type'', ''discovery_era'',
                      ''distance_category'', ''data_fetched_at''} \<Longrightarrow> cells (D r) c = cells r c"
    unfolding example_duplicates_kept by auto
  define out1 where "out1 = \<lparr>columns = cs, rows = map D (map ?h
            [rows example_duplicates ! 0, rows example_duplicates ! 1])\<rparr>"
  have c1: "clean_exoplanet_data parse_digits ?now example_duplicates = Inr out1"
    by (simp only: o out1_def)
  have cD: "core (D r) = core r" for r
    by (simp add: core_def ix i)
  have m1: "map core (rows out1) = [(0, Str ''Kepler-22 b''), (1, Str ''51 Peg b'')]"
    using c01 by (simp add: out1_def cD core_coerce_row_numeric)
  note t1 = t [THEN conjunct1, rule_format, OF c1]
  have d1: "distinct (map (\<lambda>r. cells r ''pl_name'') (rows out1))"
    by (rule t1 [THEN conjunct1])
  have s1: "subseq (map core (rows out1)) (map core (rows example_duplicates))"
    by (rule t1 [THEN conjunct2, THEN conjunct1])
  define out2 where "out2 = example_duplicates\<lparr>rows := map ?h2 (map ?u
            [rows example_duplicates ! 0, rows example_duplicates ! 1])\<rparr>"
  have c2: "extraction_clean_exoplanet_data parse_digits example_duplicates = Inr out2"
    unfolding extraction_clean_unfold [OF p(1,2,4,5,6)] example_duplicates_kept_extraction out2_def
    by (rule refl)
  have cu: "core (?u r) = core r" for r
    by (simp add: core_def)
  have m2: "map core (rows out2) = [(0, Str ''Kepler-22 b''), (1, Str ''51 Peg b'')]"
    using c01 by (simp add: out2_def cu core_coerce_row_numeric_cols)
  note t2 = t [THEN conjunct2, THEN conjunct1, rule_format, OF c2]
  have d2: "distinct (map (\<lambda>r. cells r ''pl_name'') (rows out2))"
    by (rule t2 [THEN conjunct1])
  have s2: "subseq (map core (rows out2)) (map core (rows example_duplicates))"
    by (rule t2 [THEN conjunct2, THEN conjunct1])
  from p(1) c1 m1 d1 s1 c2 m2 d2 s2 show ?thesis
    by (intro conjI exI [of _ out1] exI [of _ out2])
qed

section \<open>The cleaning pass of data\_extraction.py and missing critical values\<close>

text \<open>
  C10. The pass of data\_extraction.py drops the rows with a missing critical value before it
  coerces the critical columns. On the frame with the one row whose \<open>pl_rade\<close> is the
  string \<open>unknown\<close>, the row is not missing anything when the rows are dropped, and the
  coercion then turns its radius into a missing value: the frame returned has a row with a
  missing \<open>pl_rade\<close>.
\<close>

theorem extraction_clean_leaves_missing_radius:
  "\<exists>out. extraction_clean_exoplanet_data parse_digits example_non_numeric = Inr out \<and>
     map (\<lambda>r. val out r ''pl_name'') (rows out) = [Str ''Kepler-22 b''] \<and>
     map (\<lambda>r. val out r ''pl_rade'') (rows out) = [Null]"
proof -
  have p: "''pl_name'' \<in> set (columns example_non_numeric)"
    "''disc_year'' \<in> set (columns example_non_numeric)"
    "''pl_rade'' \<in> set (columns example_non_numeric)"
    "''pl_eqt'' \<in> set (columns example_non_numeric)"
    "''pl_orbper'' \<in> set (columns example_non_numeric)"
    by (simp_all add: example_non_numeric_def example_columns_def)
  have u: "parse_digits ''unknown'' = None"
    by (simp add: parse_digits_def)
  show ?thesis
    unfolding extraction_clean_unfold [OF p]
    by (rule exI, rule conjI, rule refl)
       (simp add: example_non_numeric_def example_row_def example_columns_def val_def
          cells_coerce_row numeric_cols_def coerce_def u)
qed

section \<open>Fetching\<close>

text \<open>
  C5. \<open>fetch_exoplanet_data\<close> always returns a frame. Whichever step fails (the request,
  the status check, the JSON decoding, \<open>len\<close>, the frame constructor), the exception is
  caught, the last line printed reports it (the timeout line for a timeout, the error line
  otherwise) and the frame returned is the empty frame. When every step succeeds the frame
  returned is the constructor's. So a frame that is not empty is returned only when the
  request succeeded, and then it is the frame built from the response.
\<close>

theorem fetch_catches_every_failure:
  "(\<forall>e. requests_get w = Inl e \<longrightarrow>
      fetch_exoplanet_data w =
        ([MsgFetching, MsgRule, MsgConnecting,
          (case e of Timeout \<Rightarrow> MsgTimeout | _ \<Rightarrow> MsgFetchError e)], empty_frame)) \<and>
   (\<forall>response e. requests_get w = Inr response \<and> raise_for_status w response = Inl e \<longrightarrow>
      fetch_exoplanet_data w =
        ([MsgFetching, MsgRule, MsgConnecting,
          (case e of Timeout \<Rightarrow> MsgTimeout | _ \<Rightarrow> MsgFetchError e)], empty_frame)) \<and>
   (\<forall>response u e. requests_get w = Inr response \<and> raise_for_status w response = Inr u \<and>
      response_json w response = Inl e \<longrightarrow>
      fetch_exoplanet_data w =
        ([MsgFetching, MsgRule, MsgConnecting,
          (case e of Timeout \<Rightarrow> MsgTimeout | _ \<Rightarrow> MsgFetchError e)], empty_frame)) \<and>
   (\<forall>response u data e. requests_get w = Inr response \<and> raise_for_status w response = Inr u \<and>
      response_json w response = Inr data \<and> len_data w data = Inl e \<longrightarrow>
      fetch_exoplanet_data w =
        ([MsgFetching, MsgRule, MsgConnecting,
          (case e of Timeout \<Rightarrow> MsgTimeout | _ \<Rightarrow> MsgFetchError e)], empty_frame)) \<and>
   (\<forall>response u data n e. requests_get w = Inr response \<and> raise_for_status w response = Inr u \<and>
      response_json w response = Inr data \<and> len_data w data = Inr n \<and>
      pd_DataFrame w data = Inl e \<longrightarrow>
      fetch_exoplanet_data w =
        ([MsgFetching, MsgRule, MsgConnecting, MsgSuccess n, MsgRule,
          (case e of Timeout \<Rightarrow> MsgTimeout | _ \<Rightarrow> MsgFetchError e)], empty_frame)) \<and>
   (\<forall>response u data n df. requests_get w = Inr response \<and>
      raise_for_status w response = Inr u \<and> response_json w response = Inr data \<and>
      len_data w data = Inr n \<and> pd_DataFrame w data = Inr df \<longrightarrow>
      fetch_exoplanet_data w =
        ([MsgFetching, MsgRule, MsgConnecting, MsgSuccess n, MsgRule], df)) \<and>
   (\<not> empty_df (snd (fetch_exoplanet_data w)) \<longrightarrow>
      (\<exists>response data. requests_get w = Inr response \<and>
         raise_for_status w response = Inr () \<and> response_json w response = Inr data \<and>
         pd_DataFrame w data = Inr (snd (fetch_exoplanet_data w))))"
proof -
  have e: "empty_df empty_frame"
    by (simp add: empty_df_def empty_frame_def)
  show ?thesis
    by (intro conjI allI impI)
       (auto simp: fetch_exoplanet_data_def fetch_try_def e split: sum.splits exc.splits)
qed

theorem fetch_catches_every_failure_witness:
  "requests_get example_http_timeout = Inl Timeout \<and>
   fetch_exoplanet_data example_http_timeout =
     ([MsgFetching, MsgRule, MsgConnecting, MsgTimeout], empty_frame) \<and>
   \<not> empty_df (snd (fetch_exoplanet_data example_http_ok)) \<and>
   fetch_exoplanet_data example_http_ok =
     ([MsgFetching, MsgRule, MsgConnecting, MsgSuccess 2, MsgRule], example_frame)"
proof -
  have g: "requests_get example_http_timeout = Inl Timeout"
    by (simp add: example_http_timeout_def)
  have t: "fetch_exoplanet_data example_http_timeout =
     ([MsgFetching, MsgRule, MsgConnecting, MsgTimeout], empty_frame)"
    using fetch_catches_every_failure [of example_http_timeout, THEN conjunct1, rule_format, OF g]
    by simp
  have s: "requests_get example_http_ok = Inr 200 \<and>
      raise_for_status example_http_ok 200 = Inr () \<and>
      response_json example_http_ok 200 = Inr 2 \<and> len_data example_http_ok 2 = Inr 2 \<and>
      pd_DataFrame example_http_ok 2 = Inr example_frame"
    by (simp add: example_http_ok_def)
  have ok: "fetch_exoplanet_data example_http_ok =
     ([MsgFetching, MsgRule, MsgConnecting, MsgSuccess 2, MsgRule], example_frame)"
    using fetch_catches_every_failure [of example_http_ok, THEN conjunct2, THEN conjunct2,
        THEN conjunct2, THEN conjunct2, THEN conjunct2, THEN conjunct1, rule_format, OF s]
    by simp
  have ne: "\<not> empty_df (snd (fetch_exoplanet_data example_http_ok))"
    by (simp add: ok empty_df_def example_frame_def example_columns_def)
  from g t ne ok show ?thesis by simp
qed

section \<open>The fetch script\<close>

text \<open>
  C8. One run of the script enters its stages in the fixed order fetch, clean, save, one
  after the other, and stops early on an empty dataset: the stages entered are a prefix of
  fetch, clean, save. When the fetched frame is empty only the fetch stage runs and no
  file changes. When the cleaned frame is empty (or the cleaning raises) the run stops
  after the clean stage and no file changes. Only when both frames are non-empty is the
  cleaned frame saved, to \<open>exoplanet_data.csv\<close>, and no other file changes.
\<close>

theorem main_runs_stages_in_order:
  "prefix (trace (main w parse now files)) [Fetch, Clean, Save] \<and>
   trace (main w parse now files) \<noteq> [] \<and>
   (empty_df (snd (fetch_exoplanet_data w)) \<longrightarrow>
      trace (main w parse now files) = [Fetch] \<and>
      files_after (main w parse now files) = files) \<and>
   (\<forall>clean_df. \<not> empty_df (snd (fetch_exoplanet_data w)) \<and>
      clean_exoplanet_data parse now (snd (fetch_exoplanet_data w)) = Inr clean_df \<and>
      empty_df clean_df \<longrightarrow>
        trace (main w parse now files) = [Fetch, Clean] \<and>
        files_after (main w parse now files) = files) \<and>
   (\<forall>e. \<not> empty_df (snd (fetch_exoplanet_data w)) \<and>
      clean_exoplanet_data parse now (snd (fetch_exoplanet_data w)) = Inl e \<longrightarrow>
        trace (main w parse now files) = [Fetch, Clean] \<and>
        files_after (main w parse now files) = files \<and>
        raised (main w parse now files) = Some e) \<and>
   (\<forall>clean_df. \<not> empty_df (snd (fetch_exoplanet_data w)) \<and>
      clean_exoplanet_data parse now (snd (fetch_exoplanet_data w)) = Inr clean_df \<and>
      \<not> empty_df clean_df \<longrightarrow>
        trace (main w parse now files) = [Fetch, Clean, Save] \<and>
        files_after (main w parse now files) = files(''exoplanet_data.csv'' \<mapsto> clean_df))"
proof -
  obtain out raw_df where f: "fetch_exoplanet_data w = (out, raw_df)"
    by (cases "fetch_exoplanet_data w")
  show ?thesis
  proof (cases "empty_df raw_df")
    case True
    then show ?thesis
      by (simp add: main_def f)
  next
    case False
    show ?thesis
    proof (cases "clean_exoplanet_data parse now raw_df")
      case (Inl e)
      with False show ?thesis
        by (simp add: main_def f)
    next
      case (Inr clean_df)
      with False show ?thesis
        by (cases "empty_df clean_df") (simp_all add: main_def f save_to_csv_def)
    qed
  qed
qed


lemma fetch_example_http_timeout:
  "fetch_exoplanet_data example_http_timeout =
     ([MsgFetching, MsgRule, MsgConnecting, MsgTimeout], empty_frame)"
  by (simp add: fetch_exoplanet_data_def fetch_try_def example_http_timeout_def)

lemma fetch_example_http_ok:
  "fetch_exoplanet_data example_http_ok =
     ([MsgFetching, MsgRule, MsgConnecting, MsgSuccess 2, MsgRule], example_frame)"
  by (simp add: fetch_exoplanet_data_def fetch_try_def example_http_ok_def)

lemma example_frame_cleaned:
  "\<exists>out. clean_exoplanet_data parse_digits now example_frame = Inr out \<and> \<not> empty_df out \<and>
     length (rows out) = 2"
proof -
  have ne: "\<not> empty_df example_frame"
    by (simp add: empty_df_def example_frame_def example_columns_def)
  have p: "''pl_name'' \<in> set (columns example_frame)" "''disc_year'' \<in> set (columns example_frame)"
    "''sy_dist'' \<in> set (columns example_frame)"
    by (simp_all add: example_frame_def example_columns_def)
  from clean_exoplanet_data_rows [OF ne p, of parse_digits now]
  obtain D cs where
    o: "clean_exoplanet_data parse_digits now example_frame =
          Inr \<lparr>columns = cs, rows = map D
            (map (coerce_row parse_digits (set numeric_columns \<inter> set (columns example_frame)))
               (rows example_frame))\<rparr>"
    and cs: "set cs = set (columns example_frame) \<union> {''habitability_score'', ''planet_type'',
         ''discovery_era'', ''distance_category'', ''data_fetched_at''}"
    unfolding example_kept by auto
  have "''pl_name'' \<in> set cs"
    unfolding cs using p(1) by (rule UnI1)
  then have n: "cs \<noteq> []" by (cases cs) simp_all
  show ?thesis
    unfolding o
    by (rule exI, rule conjI, rule refl) (simp add: empty_df_def n example_frame_def)
qed


theorem main_runs_stages_in_order_witness:
  "empty_df (snd (fetch_exoplanet_data example_http_timeout)) \<and>
   trace (main example_http_timeout parse_digits ''2026-01-01 00:00:00'' Map.empty) = [Fetch] \<and>
   files_after (main example_http_timeout parse_digits ''2026-01-01 00:00:00'' Map.empty) =
     Map.empty \<and>
   (\<exists>clean_df. \<not> empty_df (snd (fetch_exoplanet_data example_http_ok)) \<and>
      clean_exoplanet_data parse_digits ''2026-01-01 00:00:00''
        (snd (fetch_exoplanet_data example_http_ok)) = Inr clean_df \<and>
      \<not> empty_df clean_df \<and>
      trace (main example_http_ok parse_digits ''2026-01-01 00:00:00'' Map.empty) =
        [Fetch, Clean, Save] \<and>
      files_after (main example_http_ok parse_digits ''2026-01-01 00:00:00'' Map.empty) =
        [''exoplanet_data.csv'' \<mapsto> clean_df])"
proof -
  let ?now = "''2026-01-01 00:00:00''"
  have e: "empty_df (snd (fetch_exoplanet_data example_http_timeout))"
    by (simp add: fetch_example_http_timeout empty_df_def empty_frame_def)
  note t1 = main_runs_stages_in_order [of example_http_timeout parse_digits ?now Map.empty,
      THEN conjunct2, THEN conjunct2, THEN conjunct1, rule_format, OF e]
  have ne: "\<not> empty_df (snd (fetch_exoplanet_data example_http_ok))"
    by (simp add: fetch_example_http_ok empty_df_def example_frame_def example_columns_def)
  from example_frame_cleaned [of ?now] obtain clean_df where
    c: "clean_exoplanet_data parse_digits ?now (snd (fetch_exoplanet_data example_http_ok)) =
          Inr clean_df"
    and nc: "\<not> empty_df clean_df"
    by (auto simp: fetch_example_http_ok)
  from ne c nc have h: "\<not> empty_df (snd (fetch_exoplanet_data example_http_ok)) \<and>
      clean_exoplanet_data parse_digits ?now (snd (fetch_exoplanet_data example_http_ok)) =
        Inr clean_df \<and> \<not> empty_df clean_df"
    by simp
  note t2 = main_runs_stages_in_order [of example_http_ok parse_digits ?now Map.empty,
      THEN conjunct2, THEN conjunct2, THEN conjunct2, THEN conjunct2, THEN conjunct2,
      rule_format, OF h]
  from e t1 ne c nc t2 show ?thesis
    by (intro conjI exI [of _ clean_df]) simp_all
qed

section \<open>The loader\<close>

lemma fold_invariant:
  assumes "\<And>x s. P s \<Longrightarrow> P (f x s)" and "P s0"
  shows "P (fold f xs s0)"
  using assms(2) by (induction xs arbitrary: s0) (auto intro: assms(1))

lemma keys_last_by_key: "kp ` set (last_by_key kp ps) = kp ` set ps"
  by (induction ps) auto

lemma fold_upsert:
  "fold (upsert kp) ps P = filter (\<lambda>q. kp q \<notin> kp ` set ps) P @ last_by_key kp ps"
proof (induction ps arbitrary: P)
  case Nil
  then show ?case by simp
next
  case (Cons p ps)
  have "fold (upsert kp) (p # ps) P =
      filter (\<lambda>q. kp q \<notin> kp ` set ps) (upsert kp p P) @ last_by_key kp ps"
    by (simp add: Cons.IH)
  also have "filter (\<lambda>q. kp q \<notin> kp ` set ps) (upsert kp p P) @ last_by_key kp ps =
      filter (\<lambda>q. kp q \<notin> kp ` set (p # ps)) P @ last_by_key kp (p # ps)"
    by (auto simp: upsert_def intro!: filter_cong)
  finally show ?case .
qed

lemma fold_upsert_twice:
  "fold (upsert kp) ps (fold (upsert kp) ps P) = fold (upsert kp) ps P"
proof -
  have "filter (\<lambda>q. kp q \<notin> kp ` set ps) (last_by_key kp ps) = []"
    using keys_last_by_key [of kp ps] by (auto simp: filter_empty_conv)
  then show ?thesis
    by (simp add: fold_upsert)
qed

lemma fold_option_steps:
  "fold (\<lambda>x P. case f x of None \<Rightarrow> P | Some p \<Rightarrow> U p P) xs P = fold U (List.map_filter f xs) P"
  by (induction xs arbitrary: P) (auto simp: List.map_filter_simps split: option.splits)


lemma fold_abstraction:
  assumes "\<And>x s. g (F x s) = H x (g s)"
  shows "g (fold F xs s) = fold H xs (g s)"
  by (induction xs arbitrary: s) (simp_all add: assms)

lemma fold_unchanged:
  assumes "\<And>x s. g (F x s) = g s"
  shows "g (fold F xs s) = g s"
  by (induction xs arbitrary: s) (simp_all add: assms)

subsection \<open>The planets loop\<close>

lemma planet_columns_head:
  "(case map (val df r) planet_columns of [] \<Rightarrow> Null | v # _ \<Rightarrow> v) = val df r ''pl_name''"
  by (simp add: planet_columns_def)

lemma insert_or_ignore_planet_others:
  "stars (fst (insert_or_ignore_planet txt stamp vals d)) = stars d"
  "systems (fst (insert_or_ignore_planet txt stamp vals d)) = systems d"
  by (simp_all add: insert_or_ignore_planet_def Let_def split: option.splits)

lemma insert_or_ignore_planet_unique:
  "distinct (map pl_name (planets d)) \<Longrightarrow>
   distinct (map pl_name (planets (fst (insert_or_ignore_planet txt stamp vals d))))"
  by (simp add: insert_or_ignore_planet_def Let_def split: option.splits)

lemma insert_or_ignore_planet_present:
  "sql_text txt (case vals of [] \<Rightarrow> Null | v # _ \<Rightarrow> v) = Some n \<Longrightarrow>
   n \<in> set (map pl_name (planets d)) \<Longrightarrow>
   insert_or_ignore_planet txt stamp vals d =
     (d\<lparr>seq_planets := next_id (map planet_id (planets d)) (seq_planets d)\<rparr>, 0)"
  by (simp add: insert_or_ignore_planet_def Let_def)

lemma insert_or_ignore_planet_null:
  "sql_text txt (case vals of [] \<Rightarrow> Null | v # _ \<Rightarrow> v) = None \<Longrightarrow>
   insert_or_ignore_planet txt stamp vals d =
     (d\<lparr>seq_planets := next_id (map planet_id (planets d)) (seq_planets d)\<rparr>, 0)"
  by (simp add: insert_or_ignore_planet_def Let_def)

lemma insert_or_ignore_planet_names:
  "set (map pl_name (planets (fst (insert_or_ignore_planet txt stamp vals d)))) =
     set (map pl_name (planets d)) \<union>
     (case sql_text txt (case vals of [] \<Rightarrow> Null | v # _ \<Rightarrow> v) of None \<Rightarrow> {} | Some n \<Rightarrow> {n})"
  by (auto simp: insert_or_ignore_planet_def Let_def split: option.splits)

lemma fst_insert_planets:
  "fst (insert_planets txt stamp df d) =
     fold (\<lambda>r d. fst (insert_or_ignore_planet txt stamp (map (val df r) planet_columns) d))
       (rows df) d"
proof -
  have "fst (fold (\<lambda>r (d, inserted, skipped).
             case insert_or_ignore_planet txt stamp (map (val df r) planet_columns) d of
               (d', rowcount) \<Rightarrow>
                 if rowcount > 0 then (d', inserted + 1, skipped)
                 else (d', inserted, skipped + 1)) xs s) =
     fold (\<lambda>r d. fst (insert_or_ignore_planet txt stamp (map (val df r) planet_columns) d))
       xs (fst s)" for xs and s :: "db \<times> nat \<times> nat"
    by (rule fold_abstraction) (auto split: prod.splits)
  then show ?thesis
    by (simp add: insert_planets_def)
qed

lemma insert_planets_others:
  "stars (fst (insert_planets txt stamp df d)) = stars d"
  "systems (fst (insert_planets txt stamp df d)) = systems d"
  unfolding fst_insert_planets
  by (rule fold_unchanged, rule insert_or_ignore_planet_others)+

lemma insert_planets_unique:
  "distinct (map pl_name (planets d)) \<Longrightarrow>
   distinct (map pl_name (planets (fst (insert_planets txt stamp df d))))"
  unfolding fst_insert_planets
  by (rule fold_invariant [where P = "\<lambda>d. distinct (map pl_name (planets d))"])
     (rule insert_or_ignore_planet_unique)

lemma fold_planets_names:
  "set (map pl_name (planets
      (fold (\<lambda>r d. fst (insert_or_ignore_planet txt stamp (map (val df r) planet_columns) d))
         xs d))) =
   set (map pl_name (planets d)) \<union> {n. \<exists>r \<in> set xs. sql_text txt (val df r ''pl_name'') = Some n}"
proof (induction xs arbitrary: d)
  case Nil
  then show ?case by simp
next
  case (Cons x xs)
  show ?case
    by (simp only: fold_simps Cons.IH insert_or_ignore_planet_names planet_columns_head)
       (auto split: option.splits)
qed

lemma fold_planets_noop:
  assumes "\<And>r n. r \<in> set xs \<Longrightarrow> sql_text txt (val df r ''pl_name'') = Some n \<Longrightarrow>
      n \<in> set (map pl_name (planets d))"
  shows "planets (fold (\<lambda>r d. fst (insert_or_ignore_planet txt stamp
      (map (val df r) planet_columns) d)) xs d) = planets d"
  using assms
proof (induction xs arbitrary: d)
  case Nil
  then show ?case by simp
next
  case (Cons x xs)
  let ?d = "d\<lparr>seq_planets := next_id (map planet_id (planets d)) (seq_planets d)\<rparr>"
  have "insert_or_ignore_planet txt stamp (map (val df x) planet_columns) d = (?d, 0)"
  proof (cases "sql_text txt (val df x ''pl_name'')")
    case None
    then show ?thesis
      by (intro insert_or_ignore_planet_null) (simp only: planet_columns_head)
  next
    case (Some n)
    with Cons.prems [of x n] have "n \<in> set (map pl_name (planets d))" by simp
    with Some show ?thesis
      by (intro insert_or_ignore_planet_present [where n = n]) (simp_all only: planet_columns_head)
  qed
  moreover have "planets (fold (\<lambda>r d. fst (insert_or_ignore_planet txt stamp
      (map (val df r) planet_columns) d)) xs ?d) = planets ?d"
  proof (rule Cons.IH)
    fix r n
    assume "r \<in> set xs" and "sql_text txt (val df r ''pl_name'') = Some n"
    with Cons.prems [of r n] show "n \<in> set (map pl_name (planets ?d))" by simp
  qed
  ultimately show ?case by simp
qed

lemma insert_planets_again:
  assumes "planets d' = planets (fst (insert_planets txt stamp df d))"
  shows "planets (fst (insert_planets txt stamp' df d')) = planets d'"
  unfolding fst_insert_planets
proof (rule fold_planets_noop)
  fix r n
  assume "r \<in> set (rows df)" and "sql_text txt (val df r ''pl_name'') = Some n"
  then have "n \<in> set (map pl_name (planets (fst (insert_planets txt stamp df d))))"
    unfolding fst_insert_planets fold_planets_names by blast
  then show "n \<in> set (map pl_name (planets d'))"
    by (simp only: assms)
qed


subsection \<open>The stars loop and the systems loop\<close>

lemma insert_or_replace_star_others:
  "planets (fst (insert_or_replace_star txt stamp k vals n d)) = planets d"
  "systems (fst (insert_or_replace_star txt stamp k vals n d)) = systems d"
  by (simp_all add: insert_or_replace_star_def Let_def split: option.splits)

lemma insert_or_replace_system_others:
  "planets (fst (insert_or_replace_system txt stamp k vals d)) = planets d"
  "stars (fst (insert_or_replace_system txt stamp k vals d)) = stars d"
  by (simp_all add: insert_or_replace_system_def Let_def split: option.splits)

lemma insert_or_replace_star_unique:
  "distinct (map star_hostname (stars d)) \<Longrightarrow>
   distinct (map star_hostname (stars (fst (insert_or_replace_star txt stamp k vals n d))))"
  by (auto simp: insert_or_replace_star_def Let_def distinct_map_filter split: option.splits)

lemma insert_or_replace_system_unique:
  "distinct (map system_hostname (systems d)) \<Longrightarrow>
   distinct (map system_hostname (systems (fst (insert_or_replace_system txt stamp k vals d))))"
  by (auto simp: insert_or_replace_system_def Let_def distinct_map_filter split: option.splits)

lemma insert_or_replace_star_payload:
  "map star_payload (stars (fst (insert_or_replace_star txt stamp k vals n d))) =
     (case sql_text txt k of
        None \<Rightarrow> map star_payload (stars d)
      | Some h \<Rightarrow> upsert fst (h, vals, n) (map star_payload (stars d)))"
  by (simp add: insert_or_replace_star_def Let_def upsert_def filter_map comp_def
      star_payload_def split: option.splits)

lemma insert_or_replace_system_payload:
  "map system_payload (systems (fst (insert_or_replace_system txt stamp k vals d))) =
     (case sql_text txt k of
        None \<Rightarrow> map system_payload (systems d)
      | Some h \<Rightarrow> upsert fst (h, vals) (map system_payload (systems d)))"
  by (simp add: insert_or_replace_system_def Let_def upsert_def filter_map comp_def
      system_payload_def split: option.splits)

lemma fst_insert_stars:
  "fst (insert_stars txt stamp sd d) =
     fold (\<lambda>(k, vals, ns) d.
            fst (insert_or_replace_star txt stamp k vals (case ns of [] \<Rightarrow> 0 | n # _ \<Rightarrow> n) d))
       sd d"
proof -
  have "fst (fold (\<lambda>(k, vals, ns) (d, inserted).
             case insert_or_replace_star txt stamp k vals (case ns of [] \<Rightarrow> 0 | n # _ \<Rightarrow> n) d of
               (d', ok) \<Rightarrow> (d', if ok then inserted + 1 else inserted)) xs s) =
     fold (\<lambda>(k, vals, ns) d.
            fst (insert_or_replace_star txt stamp k vals (case ns of [] \<Rightarrow> 0 | n # _ \<Rightarrow> n) d))
       xs (fst s)" for xs and s :: "db \<times> nat"
    by (rule fold_abstraction) (auto split: prod.splits)
  then show ?thesis
    by (simp add: insert_stars_def)
qed

lemma fst_insert_systems:
  "fst (insert_systems txt stamp yd d) =
     fold (\<lambda>(k, vals, ns) d. fst (insert_or_replace_system txt stamp k vals d)) yd d"
proof -
  have "fst (fold (\<lambda>(k, vals, ns) (d, inserted).
             case insert_or_replace_system txt stamp k vals d of
               (d', ok) \<Rightarrow> (d', if ok then inserted + 1 else inserted)) xs s) =
     fold (\<lambda>(k, vals, ns) d. fst (insert_or_replace_system txt stamp k vals d))
       xs (fst s)" for xs :: "(cell \<times> cell list \<times> int list) list" and s :: "db \<times> nat"
    by (rule fold_abstraction) (auto split: prod.splits)
  then show ?thesis
    by (simp add: insert_systems_def)
qed

lemma insert_stars_others:
  "planets (fst (insert_stars txt stamp sd d)) = planets d"
  "systems (fst (insert_stars txt stamp sd d)) = systems d"
  unfolding fst_insert_stars
  by (rule fold_unchanged, simp add: insert_or_replace_star_others split: prod.splits)+

lemma insert_systems_others:
  "planets (fst (insert_systems txt stamp yd d)) = planets d"
  "stars (fst (insert_systems txt stamp yd d)) = stars d"
  unfolding fst_insert_systems
  by (rule fold_unchanged, simp add: insert_or_replace_system_others split: prod.splits)+

lemma insert_stars_unique:
  "distinct (map star_hostname (stars d)) \<Longrightarrow>
   distinct (map star_hostname (stars (fst (insert_stars txt stamp sd d))))"
  unfolding fst_insert_stars
  by (rule fold_invariant [where P = "\<lambda>d. distinct (map star_hostname (stars d))"])
     (auto intro: insert_or_replace_star_unique)

lemma insert_systems_unique:
  "distinct (map system_hostname (systems d)) \<Longrightarrow>
   distinct (map system_hostname (systems (fst (insert_systems txt stamp yd d))))"
  unfolding fst_insert_systems
  by (rule fold_invariant [where P = "\<lambda>d. distinct (map system_hostname (systems d))"])
     (auto intro: insert_or_replace_system_unique)

lemma insert_stars_payload:
  "map star_payload (stars (fst (insert_stars txt stamp sd d))) =
     fold (upsert fst)
       (List.map_filter (\<lambda>(k, vals, ns). case sql_text txt k of None \<Rightarrow> None
            | Some h \<Rightarrow> Some (h, vals, case ns of [] \<Rightarrow> 0 | n # _ \<Rightarrow> n)) sd)
       (map star_payload (stars d))"
proof -
  have "map star_payload (stars (fst (insert_stars txt stamp sd d))) =
      fold (\<lambda>x P. case (case x of (k, vals, ns) \<Rightarrow> case sql_text txt k of None \<Rightarrow> None
            | Some h \<Rightarrow> Some (h, vals, case ns of [] \<Rightarrow> 0 | n # _ \<Rightarrow> n)) of
          None \<Rightarrow> P | Some p \<Rightarrow> upsert fst p P) sd (map star_payload (stars d))"
    unfolding fst_insert_stars
    by (rule fold_abstraction)
       (auto simp: insert_or_replace_star_payload split: prod.splits option.splits)
  then show ?thesis
    by (simp only: fold_option_steps)
qed

lemma insert_systems_payload:
  "map system_payload (systems (fst (insert_systems txt stamp yd d))) =
     fold (upsert fst)
       (List.map_filter (\<lambda>(k, vals, ns). case sql_text txt k of None \<Rightarrow> None
            | Some h \<Rightarrow> Some (h, vals)) yd)
       (map system_payload (systems d))"
proof -
  have "map system_payload (systems (fst (insert_systems txt stamp yd d))) =
      fold (\<lambda>x P. case (case x of (k, vals, ns) \<Rightarrow> case sql_text txt k of None \<Rightarrow> None
            | Some h \<Rightarrow> Some (h, vals)) of
          None \<Rightarrow> P | Some p \<Rightarrow> upsert fst p P) yd (map system_payload (systems d))"
    unfolding fst_insert_systems
    by (rule fold_abstraction)
       (auto simp: insert_or_replace_system_payload split: prod.splits option.splits)
  then show ?thesis
    by (simp only: fold_option_steps)
qed

subsection \<open>The whole load\<close>

lemma insert_data_from_csv_eq:
  assumes "groupby_agg df [''st_teff'', ''st_rad'', ''st_mass'', ''st_met'', ''st_logg'', ''st_age'']
             [''pl_name''] = Inr sd"
    and "groupby_agg df [''sy_snum'', ''sy_pnum'', ''sy_dist'', ''sy_gaiamag''] [] = Inr yd"
  shows "insert_data_from_csv txt stamp d df =
     Inr (fst (insert_systems txt stamp yd (fst (insert_stars txt stamp sd
        (fst (insert_planets txt stamp df d))))))"
  by (simp add: insert_data_from_csv_def assms split: prod.splits)

lemma insert_data_from_csv_Inr:
  assumes "insert_data_from_csv txt stamp d df = Inr d'"
  shows "\<exists>sd yd.
     groupby_agg df [''st_teff'', ''st_rad'', ''st_mass'', ''st_met'', ''st_logg'', ''st_age'']
             [''pl_name''] = Inr sd \<and>
     groupby_agg df [''sy_snum'', ''sy_pnum'', ''sy_dist'', ''sy_gaiamag''] [] = Inr yd \<and>
     d' = fst (insert_systems txt stamp yd (fst (insert_stars txt stamp sd
        (fst (insert_planets txt stamp df d)))))"
  using assms
  by (auto simp: insert_data_from_csv_def split: prod.splits sum.splits)

section \<open>Loading twice\<close>

text \<open>
  C9. When a run of \<open>insert_data_from_csv\<close> on a CSV has gone through, a second run on the
  same CSV goes through too and leaves the logical contents as they are: the planets table
  is the same list of rows, and the stars and systems tables hold the same payloads (all
  columns but \<open>id\<close> and \<open>created_at\<close>) in the same order, so the three row counts are the
  same as well. The timestamps of the second run may differ from those of the first.
\<close>

theorem load_is_idempotent:
  assumes "insert_data_from_csv txt stamp d df = Inr d1"
  shows "\<exists>d2. insert_data_from_csv txt stamp' d1 df = Inr d2 \<and>
     planets d2 = planets d1 \<and>
     map star_payload (stars d2) = map star_payload (stars d1) \<and>
     map system_payload (systems d2) = map system_payload (systems d1) \<and>
     length (planets d2) = length (planets d1) \<and>
     length (stars d2) = length (stars d1) \<and>
     length (systems d2) = length (systems d1)"
proof -
  from insert_data_from_csv_Inr [OF assms] obtain sd yd where
    g1: "groupby_agg df [''st_teff'', ''st_rad'', ''st_mass'', ''st_met'', ''st_logg'', ''st_age'']
             [''pl_name''] = Inr sd"
    and g2: "groupby_agg df [''sy_snum'', ''sy_pnum'', ''sy_dist'', ''sy_gaiamag''] [] = Inr yd"
    and d1: "d1 = fst (insert_systems txt stamp yd (fst (insert_stars txt stamp sd
        (fst (insert_planets txt stamp df d)))))"
    by blast
  define a where "a = fst (insert_planets txt stamp df d)"
  define b where "b = fst (insert_stars txt stamp sd a)"
  have d1': "d1 = fst (insert_systems txt stamp yd b)"
    by (simp add: d1 a_def b_def)
  define d2 where "d2 = fst (insert_systems txt stamp' yd (fst (insert_stars txt stamp' sd
        (fst (insert_planets txt stamp' df d1)))))"
  have r: "insert_data_from_csv txt stamp' d1 df = Inr d2"
    unfolding d2_def by (rule insert_data_from_csv_eq [OF g1 g2])
  define e where "e = fst (insert_planets txt stamp' df d1)"
  have "planets d1 = planets a"
    by (simp add: d1' b_def insert_systems_others insert_stars_others)
  then have p: "planets e = planets d1"
    unfolding a_def e_def by (rule insert_planets_again)
  have q: "stars e = stars d1" "systems e = systems d1"
    unfolding e_def by (rule insert_planets_others)+
  have d2': "d2 = fst (insert_systems txt stamp' yd (fst (insert_stars txt stamp' sd e)))"
    by (simp add: d2_def e_def)
  have 1: "planets d2 = planets d1"
    by (simp add: d2' insert_systems_others insert_stars_others p)
  have "map star_payload (stars d1) = map star_payload (stars b)"
    by (simp add: d1' insert_systems_others)
  also have "\<dots> = fold (upsert fst)
       (List.map_filter (\<lambda>(k, vals, ns). case sql_text txt k of None \<Rightarrow> None
            | Some h \<Rightarrow> Some (h, vals, case ns of [] \<Rightarrow> 0 | n # _ \<Rightarrow> n)) sd)
       (map star_payload (stars a))"
    unfolding b_def by (rule insert_stars_payload)
  finally have s1: "map star_payload (stars d1) = fold (upsert fst)
       (List.map_filter (\<lambda>(k, vals, ns). case sql_text txt k of None \<Rightarrow> None
            | Some h \<Rightarrow> Some (h, vals, case ns of [] \<Rightarrow> 0 | n # _ \<Rightarrow> n)) sd)
       (map star_payload (stars a))" .
  have "map star_payload (stars d2) =
      map star_payload (stars (fst (insert_stars txt stamp' sd e)))"
    by (simp add: d2' insert_systems_others)
  also have "\<dots> = map star_payload (stars d1)"
    by (simp only: insert_stars_payload q s1 fold_upsert_twice)
  finally have 2: "map star_payload (stars d2) = map star_payload (stars d1)" .
  have y1: "map system_payload (systems d1) = fold (upsert fst)
       (List.map_filter (\<lambda>(k, vals, ns). case sql_text txt k of None \<Rightarrow> None
            | Some h \<Rightarrow> Some (h, vals)) yd)
       (map system_payload (systems b))"
    unfolding d1' by (rule insert_systems_payload)
  have "map system_payload (systems d2) = fold (upsert fst)
       (List.map_filter (\<lambda>(k, vals, ns). case sql_text txt k of None \<Rightarrow> None
            | Some h \<Rightarrow> Some (h, vals)) yd)
       (map system_payload (systems (fst (insert_stars txt stamp' sd e))))"
    unfolding d2' by (rule insert_systems_payload)
  also have "systems (fst (insert_stars txt stamp' sd e)) = systems d1"
    by (simp only: insert_stars_others q)
  finally have 3: "map system_payload (systems d2) = map system_payload (systems d1)"
    by (simp only: y1 fold_upsert_twice)
  from 1 have 4: "length (planets d2) = length (planets d1)" by simp
  from 2 have 5: "length (stars d2) = length (stars d1)" by (rule map_eq_imp_length_eq)
  from 3 have 6: "length (systems d2) = length (systems d1)" by (rule map_eq_imp_length_eq)
  from r 1 2 3 4 5 6 show ?thesis by blast
qed

lemma example_group_keys: "group_keys example_csv = [Str ''Kepler-22'', Str ''TRAPPIST-1'']"
  by (simp add: group_keys_def example_csv_def example_csv_row_def less_eq_char_def)

lemma example_star_data:
  "groupby_agg example_csv [''st_teff'', ''st_rad'', ''st_mass'', ''st_met'', ''st_logg'', ''st_age'']
     [''pl_name''] =
   Inr [(Str ''Kepler-22'', [Num (Fin 5596), Null, Null, Null, Null, Null], [1]),
        (Str ''TRAPPIST-1'', [Num (Fin 2566), Null, Null, Null, Null, Null], [2])]"
  unfolding groupby_agg_def example_group_keys
  by (simp add: example_csv_def example_csv_row_def agg_first_def agg_count_def)

lemma example_system_data:
  "groupby_agg example_csv [''sy_snum'', ''sy_pnum'', ''sy_dist'', ''sy_gaiamag''] [] =
   Inr [(Str ''Kepler-22'', [Null, Null, Num (Fin 194.6), Null], []),
        (Str ''TRAPPIST-1'', [Null, Null, Num (Fin 12.43), Null], [])]"
  unfolding groupby_agg_def example_group_keys
  by (simp add: example_csv_def example_csv_row_def agg_first_def agg_count_def)


lemma example_load:
  "\<exists>d1. insert_data_from_csv example_txt example_stamp (create_database None) example_csv = Inr d1 \<and>
     map pl_name (planets d1) = [''TRAPPIST-1 b'', ''Kepler-22 b'', ''TRAPPIST-1 c''] \<and>
     map star_payload (stars d1) =
       [(''Kepler-22'', [Num (Fin 5596), Null, Null, Null, Null, Null], 1),
        (''TRAPPIST-1'', [Num (Fin 2566), Null, Null, Null, Null, Null], 2)] \<and>
     map system_payload (systems d1) =
       [(''Kepler-22'', [Null, Null, Num (Fin 194.6), Null]),
        (''TRAPPIST-1'', [Null, Null, Num (Fin 12.43), Null])]"
proof -
  let ?d0 = "create_database None"
  let ?a = "fst (insert_planets example_txt example_stamp example_csv ?d0)"
  let ?sd = "[(Str ''Kepler-22'', [Num (Fin 5596), Null, Null, Null, Null, Null], [1::int]),
        (Str ''TRAPPIST-1'', [Num (Fin 2566), Null, Null, Null, Null, Null], [2])]"
  let ?yd = "[(Str ''Kepler-22'', [Null, Null, Num (Fin 194.6), Null], []::int list),
        (Str ''TRAPPIST-1'', [Null, Null, Num (Fin 12.43), Null], [])]"
  let ?b = "fst (insert_stars example_txt example_stamp ?sd ?a)"
  let ?c = "fst (insert_systems example_txt example_stamp ?yd ?b)"
  have r: "insert_data_from_csv example_txt example_stamp ?d0 example_csv = Inr ?c"
    by (rule insert_data_from_csv_eq [OF example_star_data example_system_data])
  let ?r0 = "example_csv_row 0 ''TRAPPIST-1 b'' ''TRAPPIST-1'' Null (Num (Fin 12.43))"
  let ?r1 = "example_csv_row 1 ''Kepler-22 b'' ''Kepler-22'' (Num (Fin 5596)) (Num (Fin 194.6))"
  let ?r2 = "example_csv_row 2 ''TRAPPIST-1 c'' ''TRAPPIST-1'' (Num (Fin 2566)) Null"
  have v: "val example_csv (example_csv_row i name host teff dst) ''pl_name'' = Str name"
    for i name host teff dst
    by (simp add: val_def example_csv_def example_csv_row_def)
  have rs: "rows example_csv = [?r0, ?r1, ?r2]"
    by (simp add: example_csv_def)
  have "map pl_name (planets ?a) = [''TRAPPIST-1 b'', ''Kepler-22 b'', ''TRAPPIST-1 c'']"
    unfolding fst_insert_planets
    by (subst rs)
       (simp add: insert_or_ignore_planet_def planet_columns_head v create_database_def Let_def)
  then have 1: "map pl_name (planets ?c) = [''TRAPPIST-1 b'', ''Kepler-22 b'', ''TRAPPIST-1 c'']"
    by (simp only: insert_systems_others insert_stars_others)
  have "stars ?a = []"
    by (simp add: insert_planets_others create_database_def)
  then have "map star_payload (stars ?b) =
       [(''Kepler-22'', [Num (Fin 5596), Null, Null, Null, Null, Null], 1),
        (''TRAPPIST-1'', [Num (Fin 2566), Null, Null, Null, Null, Null], 2)]"
    by (simp add: insert_stars_payload List.map_filter_simps upsert_def)
  then have 2: "map star_payload (stars ?c) =
       [(''Kepler-22'', [Num (Fin 5596), Null, Null, Null, Null, Null], 1),
        (''TRAPPIST-1'', [Num (Fin 2566), Null, Null, Null, Null, Null], 2)]"
    by (simp only: insert_systems_others)
  have "systems ?b = []"
    by (simp add: insert_stars_others insert_planets_others create_database_def)
  then have 3: "map system_payload (systems ?c) =
       [(''Kepler-22'', [Null, Null, Num (Fin 194.6), Null]),
        (''TRAPPIST-1'', [Null, Null, Num (Fin 12.43), Null])]"
    by (simp add: insert_systems_payload List.map_filter_simps upsert_def)
  from r 1 2 3 show ?thesis
    by (intro exI [of _ ?c] conjI)
qed

theorem load_is_idempotent_witness:
  "\<exists>d1 d2.
     insert_data_from_csv example_txt example_stamp (create_database None) example_csv = Inr d1 \<and>
     insert_data_from_csv example_txt example_stamp d1 example_csv = Inr d2 \<and>
     map pl_name (planets d1) = [''TRAPPIST-1 b'', ''Kepler-22 b'', ''TRAPPIST-1 c''] \<and>
     planets d2 = planets d1 \<and>
     map star_payload (stars d1) =
       [(''Kepler-22'', [Num (Fin 5596), Null, Null, Null, Null, Null], 1),
        (''TRAPPIST-1'', [Num (Fin 2566), Null, Null, Null, Null, Null], 2)] \<and>
     map star_payload (stars d2) = map star_payload (stars d1) \<and>
     map system_payload (systems d2) = map system_payload (systems d1)"
proof -
  from example_load obtain d1 where
    l: "insert_data_from_csv example_txt example_stamp (create_database None) example_csv = Inr d1"
    and p: "map pl_name (planets d1) = [''TRAPPIST-1 b'', ''Kepler-22 b'', ''TRAPPIST-1 c'']"
    and s: "map star_payload (stars d1) =
       [(''Kepler-22'', [Num (Fin 5596), Null, Null, Null, Null, Null], 1),
        (''TRAPPIST-1'', [Num (Fin 2566), Null, Null, Null, Null, Null], 2)]"
    by (elim exE conjE)
  from load_is_idempotent [OF l, of example_stamp] obtain d2 where
    "insert_data_from_csv example_txt example_stamp d1 example_csv = Inr d2"
    "planets d2 = planets d1"
    "map star_payload (stars d2) = map star_payload (stars d1)"
    "map system_payload (systems d2) = map system_payload (systems d1)"
    by (elim exE conjE)
  with l p s show ?thesis
    by (intro exI [of _ d1] exI [of _ d2] conjI)
qed

section \<open>The key invariants of the store\<close>

lemma keys_unique_create: "keys_unique (create_database None)"
  by (simp add: keys_unique_def create_database_def)

lemma insert_or_ignore_planet_keys_unique:
  "keys_unique d \<Longrightarrow> keys_unique (fst (insert_or_ignore_planet txt stamp vals d))"
  by (simp add: keys_unique_def insert_or_ignore_planet_unique insert_or_ignore_planet_others)

lemma insert_or_replace_star_keys_unique:
  "keys_unique d \<Longrightarrow> keys_unique (fst (insert_or_replace_star txt stamp k vals n d))"
  by (simp add: keys_unique_def insert_or_replace_star_unique insert_or_replace_star_others)

lemma insert_or_replace_system_keys_unique:
  "keys_unique d \<Longrightarrow> keys_unique (fst (insert_or_replace_system txt stamp k vals d))"
  by (simp add: keys_unique_def insert_or_replace_system_unique insert_or_replace_system_others)

lemma insert_data_from_csv_keys_unique:
  assumes "keys_unique d" and "insert_data_from_csv txt stamp d df = Inr d'"
  shows "keys_unique d'"
proof -
  from insert_data_from_csv_Inr [OF assms(2)] obtain sd yd where
    d': "d' = fst (insert_systems txt stamp yd (fst (insert_stars txt stamp sd
        (fst (insert_planets txt stamp df d)))))"
    by blast
  from assms(1) show ?thesis
    unfolding d' keys_unique_def
    by (simp add: insert_systems_others insert_stars_others insert_planets_others
        insert_systems_unique insert_stars_unique insert_planets_unique)
qed

lemma insert_or_ignore_planet_ignored:
  assumes "sql_text txt (case vals of [] \<Rightarrow> Null | v # _ \<Rightarrow> v) = Some n"
    and "n \<in> set (map pl_name (planets d))"
  shows "planets (fst (insert_or_ignore_planet txt stamp vals d)) = planets d \<and>
     stars (fst (insert_or_ignore_planet txt stamp vals d)) = stars d \<and>
     systems (fst (insert_or_ignore_planet txt stamp vals d)) = systems d \<and>
     snd (insert_or_ignore_planet txt stamp vals d) = 0"
  by (simp add: insert_or_ignore_planet_present [OF assms])

lemma insert_or_ignore_planet_skipped:
  assumes "sql_text txt (case vals of [] \<Rightarrow> Null | v # _ \<Rightarrow> v) = None"
  shows "planets (fst (insert_or_ignore_planet txt stamp vals d)) = planets d \<and>
     stars (fst (insert_or_ignore_planet txt stamp vals d)) = stars d \<and>
     systems (fst (insert_or_ignore_planet txt stamp vals d)) = systems d \<and>
     snd (insert_or_ignore_planet txt stamp vals d) = 0"
  by (simp add: insert_or_ignore_planet_null [OF assms])

lemma insert_or_ignore_planet_new:
  assumes "sql_text txt (case vals of [] \<Rightarrow> Null | v # _ \<Rightarrow> v) = Some n"
    and "n \<notin> set (map pl_name (planets d))"
  shows "map planet_payload (planets (fst (insert_or_ignore_planet txt stamp vals d))) =
     map planet_payload (planets d) @ [(n, tl vals)] \<and>
     snd (insert_or_ignore_planet txt stamp vals d) = 1"
  using assms by (simp add: insert_or_ignore_planet_def Let_def planet_payload_def)

lemma insert_or_replace_star_row:
  assumes "sql_text txt k = Some h"
  shows "map star_payload (filter (\<lambda>s. star_hostname s = h)
        (stars (fst (insert_or_replace_star txt stamp k vals n d)))) = [(h, vals, n)] \<and>
     filter (\<lambda>s. star_hostname s \<noteq> h) (stars (fst (insert_or_replace_star txt stamp k vals n d))) =
       filter (\<lambda>s. star_hostname s \<noteq> h) (stars d)"
proof -
  have "filter (\<lambda>s. star_hostname s = h) (filter (\<lambda>s. star_hostname s \<noteq> h) (stars d)) = []"
    by (simp add: filter_empty_conv)
  then show ?thesis
    using assms by (simp add: insert_or_replace_star_def Let_def star_payload_def)
qed

lemma insert_or_replace_system_row:
  assumes "sql_text txt k = Some h"
  shows "map system_payload (filter (\<lambda>s. system_hostname s = h)
        (systems (fst (insert_or_replace_system txt stamp k vals d)))) = [(h, vals)] \<and>
     filter (\<lambda>s. system_hostname s \<noteq> h)
        (systems (fst (insert_or_replace_system txt stamp k vals d))) =
       filter (\<lambda>s. system_hostname s \<noteq> h) (systems d)"
proof -
  have "filter (\<lambda>s. system_hostname s = h)
      (filter (\<lambda>s. system_hostname s \<noteq> h) (systems d)) = []"
    by (simp add: filter_empty_conv)
  then show ?thesis
    using assms by (simp add: insert_or_replace_system_def Let_def system_payload_def)
qed

text \<open>
  C6. The store is the three tables planets, stars and systems, empty when created, and
  every insert of the loader keeps the keys unique: \<open>pl_name\<close> in planets, \<open>hostname\<close> in
  stars and in systems. An insert into planets under a name that is there already, or
  without a name, is ignored: the three tables stay as they are, so the row that is there
  is unchanged, and the row count reported is 0; under a new name it adds the row. An
  insert into stars or systems leaves exactly one row under its hostname, the new one, and
  the rows of the other hostnames as they were. A whole load keeps the keys unique as well.
\<close>

theorem store_keeps_keys_unique:
  assumes "keys_unique d"
  shows "planets (create_database None) = [] \<and> stars (create_database None) = [] \<and>
     systems (create_database None) = [] \<and> create_database (Some d) = d \<and>
     keys_unique (fst (insert_or_ignore_planet txt stamp vals d)) \<and>
     (\<forall>n. sql_text txt (case vals of [] \<Rightarrow> Null | v # _ \<Rightarrow> v) = Some n \<and>
          n \<in> set (map pl_name (planets d)) \<longrightarrow>
          planets (fst (insert_or_ignore_planet txt stamp vals d)) = planets d \<and>
          stars (fst (insert_or_ignore_planet txt stamp vals d)) = stars d \<and>
          systems (fst (insert_or_ignore_planet txt stamp vals d)) = systems d \<and>
          snd (insert_or_ignore_planet txt stamp vals d) = 0) \<and>
     (sql_text txt (case vals of [] \<Rightarrow> Null | v # _ \<Rightarrow> v) = None \<longrightarrow>
          planets (fst (insert_or_ignore_planet txt stamp vals d)) = planets d \<and>
          stars (fst (insert_or_ignore_planet txt stamp vals d)) = stars d \<and>
          systems (fst (insert_or_ignore_planet txt stamp vals d)) = systems d \<and>
          snd (insert_or_ignore_planet txt stamp vals d) = 0) \<and>
     (\<forall>n. sql_text txt (case vals of [] \<Rightarrow> Null | v # _ \<Rightarrow> v) = Some n \<and>
          n \<notin> set (map pl_name (planets d)) \<longrightarrow>
          map planet_payload (planets (fst (insert_or_ignore_planet txt stamp vals d))) =
            map planet_payload (planets d) @ [(n, tl vals)] \<and>
          snd (insert_or_ignore_planet txt stamp vals d) = 1) \<and>
     keys_unique (fst (insert_or_replace_star txt stamp k svals cnt d)) \<and>
     (\<forall>h. sql_text txt k = Some h \<longrightarrow>
          map star_payload (filter (\<lambda>s. star_hostname s = h)
            (stars (fst (insert_or_replace_star txt stamp k svals cnt d)))) = [(h, svals, cnt)] \<and>
          filter (\<lambda>s. star_hostname s \<noteq> h)
            (stars (fst (insert_or_replace_star txt stamp k svals cnt d))) =
          filter (\<lambda>s. star_hostname s \<noteq> h) (stars d)) \<and>
     keys_unique (fst (insert_or_replace_system txt stamp k yvals d)) \<and>
     (\<forall>h. sql_text txt k = Some h \<longrightarrow>
          map system_payload (filter (\<lambda>s. system_hostname s = h)
            (systems (fst (insert_or_replace_system txt stamp k yvals d)))) = [(h, yvals)] \<and>
          filter (\<lambda>s. system_hostname s \<noteq> h)
            (systems (fst (insert_or_replace_system txt stamp k yvals d))) =
          filter (\<lambda>s. system_hostname s \<noteq> h) (systems d)) \<and>
     (\<forall>d'. insert_data_from_csv txt stamp d df = Inr d' \<longrightarrow> keys_unique d')"
proof (intro conjI)
  show "planets (create_database None) = []" "stars (create_database None) = []"
    "systems (create_database None) = []" "create_database (Some d) = d"
    by (simp_all add: create_database_def)
  show "keys_unique (fst (insert_or_ignore_planet txt stamp vals d))"
    by (rule insert_or_ignore_planet_keys_unique [OF assms])
  show "\<forall>n. sql_text txt (case vals of [] \<Rightarrow> Null | v # _ \<Rightarrow> v) = Some n \<and>
          n \<in> set (map pl_name (planets d)) \<longrightarrow>
          planets (fst (insert_or_ignore_planet txt stamp vals d)) = planets d \<and>
          stars (fst (insert_or_ignore_planet txt stamp vals d)) = stars d \<and>
          systems (fst (insert_or_ignore_planet txt stamp vals d)) = systems d \<and>
          snd (insert_or_ignore_planet txt stamp vals d) = 0"
    by (intro allI impI, elim conjE) (rule insert_or_ignore_planet_ignored)
  show "sql_text txt (case vals of [] \<Rightarrow> Null | v # _ \<Rightarrow> v) = None \<longrightarrow>
          planets (fst (insert_or_ignore_planet txt stamp vals d)) = planets d \<and>
          stars (fst (insert_or_ignore_planet txt stamp vals d)) = stars d \<and>
          systems (fst (insert_or_ignore_planet txt stamp vals d)) = systems d \<and>
          snd (insert_or_ignore_planet txt stamp vals d) = 0"
    by (intro impI) (rule insert_or_ignore_planet_skipped)
  show "\<forall>n. sql_text txt (case vals of [] \<Rightarrow> Null | v # _ \<Rightarrow> v) = Some n \<and>
          n \<notin> set (map pl_name (planets d)) \<longrightarrow>
          map planet_payload (planets (fst (insert_or_ignore_planet txt stamp vals d))) =
            map planet_payload (planets d) @ [(n, tl vals)] \<and>
          snd (insert_or_ignore_planet txt stamp vals d) = 1"
    by (intro allI impI, elim conjE) (rule insert_or_ignore_planet_new)
  show "keys_unique (fst (insert_or_replace_star txt stamp k svals cnt d))"
    by (rule insert_or_replace_star_keys_unique [OF assms])
  show "\<forall>h. sql_text txt k = Some h \<longrightarrow>
          map star_payload (filter (\<lambda>s. star_hostname s = h)
            (stars (fst (insert_or_replace_star txt stamp k svals cnt d)))) = [(h, svals, cnt)] \<and>
          filter (\<lambda>s. star_hostname s \<noteq> h)
            (stars (fst (insert_or_replace_star txt stamp k svals cnt d))) =
          filter (\<lambda>s. star_hostname s \<noteq> h) (stars d)"
    by (intro allI impI) (rule insert_or_replace_star_row)
  show "keys_unique (fst (insert_or_replace_system txt stamp k yvals d))"
    by (rule insert_or_replace_system_keys_unique [OF assms])
  show "\<forall>h. sql_text txt k = Some h \<longrightarrow>
          map system_payload (filter (\<lambda>s. system_hostname s = h)
            (systems (fst (insert_or_replace_system txt stamp k yvals d)))) = [(h, yvals)] \<and>
          filter (\<lambda>s. system_hostname s \<noteq> h)
            (systems (fst (insert_or_replace_system txt stamp k yvals d))) =
          filter (\<lambda>s. system_hostname s \<noteq> h) (systems d)"
    by (intro allI impI) (rule insert_or_replace_system_row)
  show "\<forall>d'. insert_data_from_csv txt stamp d df = Inr d' \<longrightarrow> keys_unique d'"
    by (intro allI impI) (rule insert_data_from_csv_keys_unique [OF assms])
qed


theorem store_keeps_keys_unique_witness:
  "keys_unique (create_database None) \<and>
   (\<exists>d1. insert_data_from_csv example_txt example_stamp (create_database None) example_csv =
           Inr d1 \<and>
      keys_unique d1 \<and>
      map pl_name (planets d1) = [''TRAPPIST-1 b'', ''Kepler-22 b'', ''TRAPPIST-1 c''] \<and>
      planets (fst (insert_or_ignore_planet example_txt example_stamp
         [Str ''Kepler-22 b'', Str ''Kepler-22''] d1)) = planets d1 \<and>
      snd (insert_or_ignore_planet example_txt example_stamp
         [Str ''Kepler-22 b'', Str ''Kepler-22''] d1) = 0 \<and>
      map star_payload (filter (\<lambda>s. star_hostname s = ''Kepler-22'')
         (stars (fst (insert_or_replace_star example_txt example_stamp (Str ''Kepler-22'')
            [Num (Fin 5600)] 1 d1)))) = [(''Kepler-22'', [Num (Fin 5600)], 1)] \<and>
      keys_unique (fst (insert_or_replace_star example_txt example_stamp (Str ''Kepler-22'')
            [Num (Fin 5600)] 1 d1)))"
proof -
  have k0: "keys_unique (create_database None)"
    by (rule keys_unique_create)
  from example_load obtain d1 where
    l: "insert_data_from_csv example_txt example_stamp (create_database None) example_csv = Inr d1"
    and p: "map pl_name (planets d1) = [''TRAPPIST-1 b'', ''Kepler-22 b'', ''TRAPPIST-1 c'']"
    by (elim exE conjE)
  note t0 = store_keeps_keys_unique [OF k0, of example_txt example_stamp "[]" Null "[]" 0 "[]"
      example_csv]
  have k1: "keys_unique d1"
    by (rule t0 [THEN conjunct2, THEN conjunct2, THEN conjunct2, THEN conjunct2, THEN conjunct2, THEN conjunct2, THEN conjunct2, THEN conjunct2, THEN conjunct2, THEN conjunct2, THEN conjunct2, THEN conjunct2, rule_format, OF l])
  note t1 = store_keeps_keys_unique [OF k1, of example_txt example_stamp
      "[Str ''Kepler-22 b'', Str ''Kepler-22'']" "Str ''Kepler-22''" "[Num (Fin 5600)]" 1 "[]"
      example_csv]
  have n: "sql_text example_txt
      (case [Str ''Kepler-22 b'', Str ''Kepler-22''] of [] \<Rightarrow> Null | v # _ \<Rightarrow> v) =
        Some ''Kepler-22 b'' \<and> ''Kepler-22 b'' \<in> set (map pl_name (planets d1))"
    by (simp add: p)
  note i = t1 [THEN conjunct2, THEN conjunct2, THEN conjunct2, THEN conjunct2, THEN conjunct2, THEN conjunct1, rule_format, OF n]
  have i1: "planets (fst (insert_or_ignore_planet example_txt example_stamp
         [Str ''Kepler-22 b'', Str ''Kepler-22''] d1)) = planets d1"
    by (rule i [THEN conjunct1])
  have i2: "snd (insert_or_ignore_planet example_txt example_stamp
         [Str ''Kepler-22 b'', Str ''Kepler-22''] d1) = 0"
    by (rule i [THEN conjunct2, THEN conjunct2, THEN conjunct2])
  have h: "sql_text example_txt (Str ''Kepler-22'') = Some ''Kepler-22''"
    by simp
  have s: "map star_payload (filter (\<lambda>s. star_hostname s = ''Kepler-22'')
         (stars (fst (insert_or_replace_star example_txt example_stamp (Str ''Kepler-22'')
            [Num (Fin 5600)] 1 d1)))) = [(''Kepler-22'', [Num (Fin 5600)], 1)]"
    by (rule t1 [THEN conjunct2, THEN conjunct2, THEN conjunct2, THEN conjunct2, THEN conjunct2, THEN conjunct2, THEN conjunct2, THEN conjunct2, THEN conjunct2, THEN conjunct1, rule_format, OF h, THEN conjunct1])
  have k2: "keys_unique (fst (insert_or_replace_star example_txt example_stamp
      (Str ''Kepler-22'') [Num (Fin 5600)] 1 d1))"
    by (rule t1 [THEN conjunct2, THEN conjunct2, THEN conjunct2, THEN conjunct2, THEN conjunct2, THEN conjunct2, THEN conjunct2, THEN conjunct2, THEN conjunct1])
  from k0 l k1 p i1 i2 s k2 show ?thesis
    by (intro conjI exI [of _ d1])
qed

section \<open>The Explorer page's query\<close>

lemma conditions_not_empty: "conditions f \<noteq> []"
  by (simp add: conditions_def)

lemma show_explorer_query_eq:
  "show_explorer_query f =
     (query_head @ '' AND '' @ join '' AND '' (conditions f) @ query_tail, [])"
  by (simp add: show_explorer_query_def Let_def conditions_not_empty)

lemma string_of_nat_2000: "string_of_nat 2000 = ''2000''"
  by (simp add: string_of_nat.simps digit_def)

lemma conditions_default:
  "conditions example_filters_default =
     [''disc_year BETWEEN 2000 AND 2025'', ''pl_rade BETWEEN 0.0 AND 25.0'',
      ''pl_eqt BETWEEN 0 AND 3000'', ''habitability_score >= 0'']"
  by (simp add: conditions_def example_filters_default_def string_of_int_def
      string_of_halves_def string_of_nat.simps digit_def)

lemma conditions_transit:
  "conditions example_filters_transit =
     [''discoverymethod IN ('' @ [CHR 0x27] @ ''Transit'' @ [CHR 0x27, CHR 0x2C, CHR 0x27] @
        ''Radial Velocity'' @ [CHR 0x27] @ '')'',
      ''disc_year BETWEEN 2010 AND 2020'', ''pl_rade BETWEEN 0.5 AND 2.0'',
      ''pl_eqt BETWEEN 200 AND 350'',
      ''planet_type IN ('' @ [CHR 0x27] @ ''Super-Earth'' @ [CHR 0x27] @ '')'',
      ''habitability_score >= 50'']"
  by (simp add: conditions_def example_filters_transit_def string_of_int_def
      string_of_halves_def string_of_nat.simps digit_def)


lemma conditions_shape:
  fixes m y r t p h :: string
  shows "y \<in> set ((if a then [m] else []) @ [y, r, t] @ (if b then [p] else []) @ [h])"
    and "r \<in> set ((if a then [m] else []) @ [y, r, t] @ (if b then [p] else []) @ [h])"
    and "t \<in> set ((if a then [m] else []) @ [y, r, t] @ (if b then [p] else []) @ [h])"
    and "h \<in> set ((if a then [m] else []) @ [y, r, t] @ (if b then [p] else []) @ [h])"
    and "a \<longrightarrow> m \<in> set ((if a then [m] else []) @ [y, r, t] @ (if b then [p] else []) @ [h])"
    and "b \<longrightarrow> p \<in> set ((if a then [m] else []) @ [y, r, t] @ (if b then [p] else []) @ [h])"
    and "length ((if a then [m] else []) @ [y, r, t] @ (if b then [p] else []) @ [h]) =
       4 + (if a then 1 else 0) + (if b then 1 else 0)"
  by simp_all

text \<open>
  C1, as stated, fails: the query text is not the same for every filter selection. The
  default selection and a narrower one give different texts.
\<close>

theorem explorer_query_text_depends_on_filters:
  "fst (show_explorer_query example_filters_default) \<noteq>
   fst (show_explorer_query example_filters_transit)"
  by (simp add: show_explorer_query_eq conditions_default conditions_transit)

text \<open>
  C1, amended. The Explorer page builds its query by interpolation: the call passes no
  bound parameters, and the text is the fixed SELECT head, then \<open>AND\<close> and the conditions
  joined by \<open>AND\<close>, then the fixed ORDER BY and LIMIT tail. The conditions carry the filter
  values as text: the year, radius and temperature ranges and the minimum habitability
  always, the list of discovery methods and the list of planet types exactly when the
  selection is not empty, each name between single quotes.
\<close>

theorem explorer_query_interpolates_filters:
  "snd (show_explorer_query f) = [] \<and>
   fst (show_explorer_query f) =
     query_head @ '' AND '' @ join '' AND '' (conditions f) @ query_tail \<and>
   ''disc_year BETWEEN '' @ string_of_int (fst (year_range f)) @ '' AND ''
      @ string_of_int (snd (year_range f)) \<in> set (conditions f) \<and>
   ''pl_rade BETWEEN '' @ string_of_halves (fst (radius_range f)) @ '' AND ''
      @ string_of_halves (snd (radius_range f)) \<in> set (conditions f) \<and>
   ''pl_eqt BETWEEN '' @ string_of_int (fst (temp_range f)) @ '' AND ''
      @ string_of_int (snd (temp_range f)) \<in> set (conditions f) \<and>
   ''habitability_score >= '' @ string_of_int (min_habitability f) \<in> set (conditions f) \<and>
   (selected_methods f \<noteq> [] \<longrightarrow>
      ''discoverymethod IN ('' @ [CHR 0x27] @
        join [CHR 0x27, CHR 0x2C, CHR 0x27] (selected_methods f) @ [CHR 0x27] @ '')''
        \<in> set (conditions f)) \<and>
   (selected_types f \<noteq> [] \<longrightarrow>
      ''planet_type IN ('' @ [CHR 0x27] @
        join [CHR 0x27, CHR 0x2C, CHR 0x27] (selected_types f) @ [CHR 0x27] @ '')''
        \<in> set (conditions f)) \<and>
   length (conditions f) =
     4 + (if selected_methods f \<noteq> [] then 1 else 0) + (if selected_types f \<noteq> [] then 1 else 0)"
proof -
  have 1: "snd (show_explorer_query f) = []"
    and 2: "fst (show_explorer_query f) =
      query_head @ '' AND '' @ join '' AND '' (conditions f) @ query_tail"
    by (simp_all only: show_explorer_query_eq fst_conv snd_conv)
  show ?thesis
    apply (intro conjI)
            apply (rule 1)
           apply (rule 2)
          apply (unfold conditions_def)
          apply (rule conditions_shape(1))
         apply (rule conditions_shape(2))
        apply (rule conditions_shape(3))
       apply (rule conditions_shape(4))
      apply (rule conditions_shape(5))
     apply (rule conditions_shape(6))
    apply (rule conditions_shape(7))
    done
qed



theorem explorer_query_interpolates_filters_witness:
  "selected_methods example_filters_transit \<noteq> [] \<and>
   selected_types example_filters_transit \<noteq> [] \<and>
   ''discoverymethod IN ('' @ [CHR 0x27] @ ''Transit'' @ [CHR 0x27, CHR 0x2C, CHR 0x27] @
      ''Radial Velocity'' @ [CHR 0x27] @ '')'' \<in> set (conditions example_filters_transit) \<and>
   ''planet_type IN ('' @ [CHR 0x27] @ ''Super-Earth'' @ [CHR 0x27] @ '')''
      \<in> set (conditions example_filters_transit) \<and>
   length (conditions example_filters_transit) = 6"
proof -
  note t = explorer_query_interpolates_filters [of example_filters_transit]
  have n: "selected_methods example_filters_transit \<noteq> []"
    by (simp add: example_filters_transit_def)
  have n': "selected_types example_filters_transit \<noteq> []"
    by (simp add: example_filters_transit_def)
  have j: "join [CHR 0x27, CHR 0x2C, CHR 0x27] (selected_methods example_filters_transit) =
      ''Transit'' @ [CHR 0x27, CHR 0x2C, CHR 0x27] @ ''Radial Velocity''"
    by (simp add: example_filters_transit_def)
  have j': "join [CHR 0x27, CHR 0x2C, CHR 0x27] (selected_types example_filters_transit) =
      ''Super-Earth''"
    by (simp add: example_filters_transit_def)
  note a = t [THEN conjunct2, THEN conjunct2, THEN conjunct2, THEN conjunct2, THEN conjunct2,
      THEN conjunct2, THEN conjunct1, rule_format, OF n]
  note b = t [THEN conjunct2, THEN conjunct2, THEN conjunct2, THEN conjunct2, THEN conjunct2,
      THEN conjunct2, THEN conjunct2, THEN conjunct1, rule_format, OF n']
  note c = t [THEN conjunct2, THEN conjunct2, THEN conjunct2, THEN conjunct2, THEN conjunct2,
      THEN conjunct2, THEN conjunct2, THEN conjunct2]
  from a have m: "''discoverymethod IN ('' @ [CHR 0x27] @ ''Transit'' @
      [CHR 0x27, CHR 0x2C, CHR 0x27] @ ''Radial Velocity'' @ [CHR 0x27] @ '')''
        \<in> set (conditions example_filters_transit)"
    by (simp only: j append_assoc)
  from b have m': "''planet_type IN ('' @ [CHR 0x27] @ ''Super-Earth'' @ [CHR 0x27] @ '')''
      \<in> set (conditions example_filters_transit)"
    by (simp only: j')
  from c n n' have l: "length (conditions example_filters_transit) = 6"
    by simp
  from n n' m m' l show ?thesis by (intro conjI)
qed

end
